theory Spec2Isabelle
  imports Main "HOL-Library.Word"
begin

unbundle bit_operations_syntax

section \<open>The Gaseous hello container: data model\<close>

text \<open>
  Go's \<open>byte\<close>, \<open>uint16\<close> and \<open>uint32\<close> are words; a \<open>[]byte\<close> is a list of bytes and a
  Go \<open>string\<close> is the list of its bytes. Go's \<open>int\<close> is 32 or 64 bits wide, as the build
  has it. The unpack functions add the header size to a 32-bit length read from
  the frame, which can wrap around a 32-bit \<open>int\<close>: there \<open>int\<close> is modelled as a wrapped
  integer (\<open>wrapInt\<close> below). The parser adds lengths of at most 16 bits to offsets
  into its input; these sums are modelled by \<open>nat\<close>, and its two subtractions
  (\<open>len(hs)-4\<close> and \<open>li-2\<close>) stand behind checks that keep them non-negative.
\<close>

type_synonym byte = "8 word"
type_synonym bytes = "byte list"
type_synonym uint16 = "16 word"
type_synonym uint32 = "32 word"

text \<open>
  The error values of the package (g\_common.go). \<open>ErrNew\<close> is an error made on the spot by
  \<open>errors.New\<close> or \<open>errorString\<close>, \<open>ErrExternal\<close> an error handed back by a codec, JSON or
  uTLS library. \<open>RuntimePanic\<close> is no error value: it stands for the Go runtime aborting the
  call (index or slice bound out of range, nil dereference, a length that \<open>make\<close> refuses,
  memory exhausted).
\<close>

datatype error =
    ErrGaseousMagic
  | ErrGaseousVersion
  | ErrGaseousAlgo
  | ErrGaseousTemplate
  | ErrGaseousTrunc
  | ErrGaseousType
  | ErrNew string
  | ErrExternal string
  | RuntimePanic

definition bindE :: "error + 'a \<Rightarrow> ('a \<Rightarrow> error + 'b) \<Rightarrow> error + 'b" where
  "bindE m f = (case m of Inl e \<Rightarrow> Inl e | Inr v \<Rightarrow> f v)"

subsection \<open>Slices and big-endian integers, with Go's bounds checks\<close>

text \<open>\<open>s[i]\<close>, \<open>s[lo:]\<close>, \<open>s[:hi]\<close> and \<open>s[lo:hi]\<close>: out of range is a panic.\<close>

definition at :: "'a list \<Rightarrow> nat \<Rightarrow> error + 'a" where
  "at s i = (if i < length s then Inr (s ! i) else Inl RuntimePanic)"

definition sliceFrom :: "'a list \<Rightarrow> nat \<Rightarrow> error + 'a list" where
  "sliceFrom s lo = (if lo \<le> length s then Inr (drop lo s) else Inl RuntimePanic)"

definition sliceTo :: "'a list \<Rightarrow> nat \<Rightarrow> error + 'a list" where
  "sliceTo s hi = (if hi \<le> length s then Inr (take hi s) else Inl RuntimePanic)"

definition slice :: "'a list \<Rightarrow> nat \<Rightarrow> nat \<Rightarrow> error + 'a list" where
  "slice s lo hi =
     (if lo \<le> hi \<and> hi \<le> length s then Inr (take (hi - lo) (drop lo s)) else Inl RuntimePanic)"

text \<open>\<open>binary.BigEndian\<close>: each reader touches its last byte first and panics on a short slice.\<close>

definition Uint16 :: "bytes \<Rightarrow> error + uint16" where
  "Uint16 b =
     (if length b < 2 then Inl RuntimePanic
      else Inr (ucast (b ! 1) OR push_bit 8 (ucast (b ! 0))))"

definition Uint32 :: "bytes \<Rightarrow> error + uint32" where
  "Uint32 b =
     (if length b < 4 then Inl RuntimePanic
      else Inr (ucast (b ! 3) OR push_bit 8 (ucast (b ! 2)) OR push_bit 16 (ucast (b ! 1))
                OR push_bit 24 (ucast (b ! 0))))"

definition PutUint16 :: "uint16 \<Rightarrow> bytes" where
  "PutUint16 v = [ucast (drop_bit 8 v), ucast v]"

definition PutUint32 :: "uint32 \<Rightarrow> bytes" where
  "PutUint32 v = [ucast (drop_bit 24 v), ucast (drop_bit 16 v), ucast (drop_bit 8 v), ucast v]"

subsection \<open>Constants and header (g\_common.go)\<close>

definition GaseousCompressNone :: byte where "GaseousCompressNone = 0"
definition GaseousCompressFlate :: byte where "GaseousCompressFlate = 1"
definition GaseousCompressGzip :: byte where "GaseousCompressGzip = 2"
definition GaseousCompressBrotli :: byte where "GaseousCompressBrotli = 3"
definition GaseousCompressZstd :: byte where "GaseousCompressZstd = 4"
definition GaseousCompressLZ4 :: byte where "GaseousCompressLZ4 = 5"
definition GaseousCompressXZ :: byte where "GaseousCompressXZ = 6"
definition GaseousCompressLZ4Block :: byte where "GaseousCompressLZ4Block = 7"

definition GaseousHelloMagic :: bytes where "GaseousHelloMagic = [0x47, 0x53]"
definition GaseousHelloVersion :: byte where "GaseousHelloVersion = 1"
definition GaseousHelloTypeClient :: byte where "GaseousHelloTypeClient = 1"
definition GaseousHelloTypeServer :: byte where "GaseousHelloTypeServer = 2"
definition gaseousHelloHeaderSize :: nat where "gaseousHelloHeaderSize = 2 + 1 + 1 + 1 + 2 + 4"
definition recordTypeGaseousHello :: byte where "recordTypeGaseousHello = 0xfe"

record GaseousHelloHeader =
  Magic :: bytes
  Version :: byte
  Algo :: byte
  HelloType :: byte
  TemplID :: uint16
  DataLen :: uint32

text \<open>
  A \<open>*HelloTemplate\<close> may be nil, so the registry \<open>map[uint16]*HelloTemplate\<close> maps an id to
  an optional pointer: \<open>None\<close> is a missing key, \<open>Some None\<close> a registered nil pointer.
\<close>

record HelloTemplate =
  Serialized :: bytes

type_synonym GaseousTemplateRegistry = "uint16 \<Rightarrow> HelloTemplate option option"

definition RegisterGaseousTemplate ::
  "GaseousTemplateRegistry \<Rightarrow> uint16 \<Rightarrow> HelloTemplate option \<Rightarrow> GaseousTemplateRegistry" where
  "RegisterGaseousTemplate reg ident tmpl = reg(ident \<mapsto> tmpl)"

text \<open>\<open>fillHelloTemplate\<close> reads \<open>tmpl.Serialized\<close>: a nil template is a nil dereference.\<close>

definition fillHelloTemplate :: "HelloTemplate option \<Rightarrow> bytes \<Rightarrow> error + bytes" where
  "fillHelloTemplate tmpl params =
     (case tmpl of None \<Rightarrow> Inl RuntimePanic | Some t \<Rightarrow> Inr (Serialized t @ params))"

text \<open>
  The block every unpack function starts with, once it knows that 11 bytes are there:
  \<open>copy(hdr.Magic[:], data[:2])\<close>, three single bytes, \<open>Uint16(data[5:7])\<close> and
  \<open>Uint32(data[7:11])\<close>.
\<close>

definition readHeader :: "bytes \<Rightarrow> error + GaseousHelloHeader" where
  "readHeader data =
     bindE (sliceTo data 2) (\<lambda>magic.
     bindE (at data 2) (\<lambda>version.
     bindE (at data 3) (\<lambda>algo.
     bindE (at data 4) (\<lambda>helloType.
     bindE (slice data 5 7) (\<lambda>b57.
     bindE (Uint16 b57) (\<lambda>templID.
     bindE (slice data 7 11) (\<lambda>b711.
     bindE (Uint32 b711) (\<lambda>dataLen.
       Inr \<lparr>Magic = magic, Version = version, Algo = algo, HelloType = helloType,
            TemplID = templID, DataLen = dataLen\<rparr>))))))))"

subsection \<open>Fingerprint parameters and the uTLS types the package reads\<close>

text \<open>
  \<open>GaseousClientHelloParams\<close> (g\_client.go). A name that comes off the wire stays a byte
  list; a uTLS fingerprint name is text.
\<close>

record GaseousClientHelloParams =
  SpecType :: string
  SNI :: bytes
  ALPN :: "bytes list"
  Random :: bytes
  SessionID :: bytes
  Other :: "string \<rightharpoonup> bytes"

text \<open>
  What the package looks at in uTLS values: an extension is an \<open>SNIExtension\<close>, an
  \<open>ALPNExtension\<close> or something else; a spec has cipher suites, compression methods,
  extensions and the two optional generators that g\_client.go sets; a hello message has the
  fields that \<open>compareClientHelloSpec\<close> reads.
\<close>

datatype TLSExtension =
    SNIExtension bytes
  | ALPNExtension "bytes list"
  | OtherExtension uint16

record ClientHelloSpec =
  spec_CipherSuites :: "uint16 list"
  spec_CompressionMethods :: bytes
  spec_Extensions :: "TLSExtension list"
  spec_GetRandom :: "bytes option"
  spec_GetSessionID :: "bytes option"

record ClientHelloMsg =
  msg_CipherSuites :: "uint16 list"
  msg_CompressionMethods :: bytes
  msg_Extensions :: "TLSExtension list"
  msg_Random :: bytes
  msg_SessionId :: bytes

record ClientHelloID =
  Client :: string
  Release :: string

section \<open>The platform and the libraries\<close>

text \<open>
  The codec libraries (compress/flate, compress/gzip, brotli, zstd, lz4, xz), encoding/json
  and uTLS are outside the repository, and so is the platform the package is built for: the
  model takes them as the fields of one environment. \<open>arch\<close> is the width of \<open>int\<close>, and
  \<open>heap_Available\<close> the number of bytes the runtime can still hand out. A codec or JSON
  call returns its output or an error message and is assumed not to panic. The writers and
  readers are the calls behind \<open>compressX\<close> and \<open>decompressX\<close>; \<open>lz4_CompressBlock\<close> gets
  the source and the size of the destination and returns the bytes it wrote; \<open>allUTLSIDs\<close>
  is the list of fingerprint ids in g\_client.go, \<open>Str\<close> and \<open>UTLSIdToSpec\<close> are uTLS's;
  \<open>Marshal\<close> is the older uTLS call that cannot fail, \<open>MarshalE\<close> the newer one.

  \<open>ApplyPreset\<close> is the one library call made on a value the package has not set up:
  \<open>buildUTLSClientHello\<close> calls it on \<open>utls.UConn{ClientHelloID: id}\<close>, whose embedded
  \<open>*Conn\<close>, configuration and handshake state are nil. Its outcome is the hello uTLS built
  (or nil), an error, or a panic.
\<close>

datatype wordSize = Bits32 | Bits64

datatype 'a outcome = Returned 'a | Failed string | Panicked

record env =
  arch :: wordSize
  heap_Available :: nat
  flate_Write :: "bytes \<Rightarrow> string + bytes"
  gzip_Write :: "bytes \<Rightarrow> string + bytes"
  brotli_Write :: "bytes \<Rightarrow> string + bytes"
  zstd_Write :: "bytes \<Rightarrow> string + bytes"
  lz4_Write :: "bytes \<Rightarrow> string + bytes"
  xz_Write :: "bytes \<Rightarrow> string + bytes"
  lz4_CompressBlock :: "bytes \<Rightarrow> nat \<Rightarrow> string + bytes"
  flate_ReadAll :: "bytes \<Rightarrow> string + bytes"
  gzip_ReadAll :: "bytes \<Rightarrow> string + bytes"
  brotli_ReadAll :: "bytes \<Rightarrow> string + bytes"
  zstd_ReadAll :: "bytes \<Rightarrow> string + bytes"
  lz4_ReadAll :: "bytes \<Rightarrow> string + bytes"
  xz_ReadAll :: "bytes \<Rightarrow> string + bytes"
  lz4_UncompressBlock :: "bytes \<Rightarrow> nat \<Rightarrow> string + nat \<times> bytes"
  json_Marshal :: "GaseousClientHelloParams option \<Rightarrow> string + bytes"
  json_Unmarshal :: "bytes \<Rightarrow> string + GaseousClientHelloParams"
  strings_EqualFold :: "string \<Rightarrow> string \<Rightarrow> bool"
  allUTLSIDs :: "ClientHelloID list"
  Str :: "ClientHelloID \<Rightarrow> string"
  UTLSIdToSpec :: "ClientHelloID \<Rightarrow> string + ClientHelloSpec"
  ext_Type :: "TLSExtension \<Rightarrow> uint16"
  msg_Unmarshal :: "bytes \<Rightarrow> ClientHelloMsg option"
  ApplyPreset :: "ClientHelloID \<Rightarrow> ClientHelloSpec \<Rightarrow> ClientHelloMsg option outcome"
  Marshal :: "ClientHelloMsg \<Rightarrow> bytes"
  MarshalE :: "ClientHelloMsg \<Rightarrow> string + bytes"

definition external :: "string + 'a \<Rightarrow> error + 'a" where
  "external r = (case r of Inl msg \<Rightarrow> Inl (ErrExternal msg) | Inr v \<Rightarrow> Inr v)"

definition called :: "'a outcome \<Rightarrow> error + 'a" where
  "called r =
     (case r of Returned v \<Rightarrow> Inr v | Failed msg \<Rightarrow> Inl (ErrExternal msg)
      | Panicked \<Rightarrow> Inl RuntimePanic)"

text \<open>
  Go's \<open>int\<close>: \<open>IntSize\<close> bits in two's complement. \<open>wrapInt\<close> is the value an \<open>int\<close> holds
  after a conversion or an addition whose exact result is \<open>x\<close>; \<open>toInt\<close> is
  \<open>int(v)\<close> for a \<open>uint32\<close>, and \<open>addInt\<close> is \<open>+\<close> on \<open>int\<close>.
\<close>

definition IntSize :: "env \<Rightarrow> nat" where
  "IntSize E = (case arch E of Bits32 \<Rightarrow> 32 | Bits64 \<Rightarrow> 64)"

definition wrapInt :: "env \<Rightarrow> int \<Rightarrow> int" where
  "wrapInt E x = (x + 2 ^ (IntSize E - 1)) mod 2 ^ IntSize E - 2 ^ (IntSize E - 1)"

definition toInt :: "env \<Rightarrow> uint32 \<Rightarrow> int" where
  "toInt E v = wrapInt E (uint v)"

definition addInt :: "env \<Rightarrow> int \<Rightarrow> int \<Rightarrow> int" where
  "addInt E x y = wrapInt E (x + y)"

text \<open>
  \<open>s[lo:hi]\<close> with \<open>int\<close> bounds: a negative bound, \<open>lo > hi\<close> or \<open>hi\<close> past the slice is
  a panic. (Go compares \<open>hi\<close> with the capacity; the model takes the capacity of an input
  to be its length. Where the unpack functions reach this slice with a wrapped bound, \<open>hi\<close>
  is below \<open>lo\<close>, whatever the capacity.)
\<close>

definition sliceInt :: "'a list \<Rightarrow> int \<Rightarrow> int \<Rightarrow> error + 'a list" where
  "sliceInt s lo hi =
     (if 0 \<le> lo \<and> lo \<le> hi \<and> hi \<le> int (length s) then slice s (nat lo) (nat hi)
      else Inl RuntimePanic)"

text \<open>
  \<open>make([]byte, n)\<close> for a \<open>uint32\<close> \<open>n\<close>: a length that no \<open>int\<close> holds is the panic
  "makeslice: len out of range"; a length the runtime cannot allocate ends the process
  ("out of memory").
\<close>

definition makeBytes :: "env \<Rightarrow> uint32 \<Rightarrow> error + bytes" where
  "makeBytes E n =
     (if uint n > 2 ^ (IntSize E - 1) - 1 then Inl RuntimePanic
      else if unat n > heap_Available E then Inl RuntimePanic
      else Inr (replicate (unat n) 0))"

section \<open>Compression dispatcher\<close>

definition decompressFlate :: "env \<Rightarrow> bytes \<Rightarrow> error + bytes" where
  "decompressFlate E data = external (flate_ReadAll E data)"

definition decompressGzip :: "env \<Rightarrow> bytes \<Rightarrow> error + bytes" where
  "decompressGzip E data = external (gzip_ReadAll E data)"

definition decompressBrotli :: "env \<Rightarrow> bytes \<Rightarrow> error + bytes" where
  "decompressBrotli E data = external (brotli_ReadAll E data)"

definition decompressZstd :: "env \<Rightarrow> bytes \<Rightarrow> error + bytes" where
  "decompressZstd E data = external (zstd_ReadAll E data)"

definition decompressLZ4 :: "env \<Rightarrow> bytes \<Rightarrow> error + bytes" where
  "decompressLZ4 E data = external (lz4_ReadAll E data)"

definition decompressXZ :: "env \<Rightarrow> bytes \<Rightarrow> error + bytes" where
  "decompressXZ E data = external (xz_ReadAll E data)"

text \<open>
  \<open>lz4.UncompressBlock(src, dst)\<close> gets the source and the length of the destination; it
  returns the count \<open>n\<close> and the bytes it wrote, which overwrite the front of the
  destination (a callee cannot change the length of the caller's slice).
\<close>

definition overwrite :: "bytes \<Rightarrow> bytes \<Rightarrow> bytes" where
  "overwrite dst written = take (length dst) (written @ drop (length written) dst)"

text \<open>
  \<open>lz4block.Decode(dst, src)\<close> (internal/lz4block/lz4decode.go) and the
  \<open>decompressLZ4Block\<close> of g\_server.go, which calls it.
\<close>

definition lz4block_Decode :: "env \<Rightarrow> bytes \<Rightarrow> bytes \<Rightarrow> error + nat \<times> bytes" where
  "lz4block_Decode E dst src =
     (case lz4_UncompressBlock E src (length dst) of
        Inl msg \<Rightarrow> Inl (ErrExternal msg)
      | Inr (n, written) \<Rightarrow>
          if n \<noteq> length dst then Inl (ErrNew ''lz4block: decompressed size mismatch'')
          else Inr (n, overwrite dst written))"

definition decompressLZ4Block :: "env \<Rightarrow> bytes \<Rightarrow> error + bytes" where
  "decompressLZ4Block E data =
     (if length data < 4 then Inl (ErrNew ''lz4block: truncated input'')
      else
        bindE (sliceTo data 4) (\<lambda>prefix.
        bindE (Uint32 prefix) (\<lambda>unSize.
        bindE (makeBytes E unSize) (\<lambda>dst.
        bindE (sliceFrom data 4) (\<lambda>src.
        bindE (lz4block_Decode E dst src) (\<lambda>(n, dst').
          sliceTo dst' n))))))"

text \<open>
  The \<open>decompressLZ4Block\<close> of src/unnamed/part\_001, the file that holds the compression
  helpers the second version of the client file calls: it asks \<open>lz4.UncompressBlock\<close>
  itself and does not compare the count with the announced size.
\<close>

definition decompressLZ4Block_v2 :: "env \<Rightarrow> bytes \<Rightarrow> error + bytes" where
  "decompressLZ4Block_v2 E data =
     (if length data < 4 then Inl (ErrNew ''lz4block: truncated input'')
      else
        bindE (sliceTo data 4) (\<lambda>prefix.
        bindE (Uint32 prefix) (\<lambda>unSize.
        bindE (makeBytes E unSize) (\<lambda>dst.
        bindE (sliceFrom data 4) (\<lambda>src.
          case lz4_UncompressBlock E src (length dst) of
            Inl msg \<Rightarrow> Inl (ErrExternal msg)
          | Inr (n, written) \<Rightarrow> sliceTo (overwrite dst written) n)))))"

text \<open>\<open>gaseousDecompressData\<close> (g\_server.go): the switch over the algorithm byte.\<close>

definition gaseousDecompressData :: "env \<Rightarrow> bytes \<Rightarrow> byte \<Rightarrow> error + bytes" where
  "gaseousDecompressData E data algo =
     (if algo = GaseousCompressNone then Inr data
      else if algo = GaseousCompressFlate then decompressFlate E data
      else if algo = GaseousCompressGzip then decompressGzip E data
      else if algo = GaseousCompressBrotli then decompressBrotli E data
      else if algo = GaseousCompressZstd then decompressZstd E data
      else if algo = GaseousCompressLZ4 then decompressLZ4 E data
      else if algo = GaseousCompressXZ then decompressXZ E data
      else if algo = GaseousCompressLZ4Block then decompressLZ4Block E data
      else Inl ErrGaseousAlgo)"

section \<open>Server side (g\_server.go)\<close>

text \<open>\<open>gaseousTemplates.Templates[id]\<close> read as a pointer: a missing key gives nil.\<close>

definition lookupTemplate :: "GaseousTemplateRegistry \<Rightarrow> uint16 \<Rightarrow> HelloTemplate option" where
  "lookupTemplate reg ident = (case reg ident of None \<Rightarrow> None | Some tmpl \<Rightarrow> tmpl)"

definition UnpackServerHelloGaseous ::
  "env \<Rightarrow> GaseousTemplateRegistry \<Rightarrow> bytes \<Rightarrow> error + bytes" where
  "UnpackServerHelloGaseous E reg data =
     (if length data < gaseousHelloHeaderSize then Inl ErrGaseousTrunc
      else
        bindE (readHeader data) (\<lambda>hdr.
          if Magic hdr \<noteq> GaseousHelloMagic then Inl ErrGaseousMagic
          else if Version hdr \<noteq> GaseousHelloVersion then Inl ErrGaseousVersion
          else if HelloType hdr \<noteq> GaseousHelloTypeServer then Inl ErrGaseousType
          else if reg (TemplID hdr) = None then Inl ErrGaseousTemplate
          else if addInt E (toInt E (DataLen hdr)) (int gaseousHelloHeaderSize) > int (length data)
            then Inl ErrGaseousTrunc
          else
            bindE (sliceInt data (int gaseousHelloHeaderSize)
                     (addInt E (int gaseousHelloHeaderSize) (toInt E (DataLen hdr))))
              (\<lambda>compressed.
            bindE (gaseousDecompressData E compressed (Algo hdr)) (\<lambda>decompressed.
              fillHelloTemplate (lookupTemplate reg (TemplID hdr)) decompressed))))"

definition IsGaseousHello :: "bytes \<Rightarrow> bool" where
  "IsGaseousHello data = (length data \<ge> 2 \<and> take 2 data = GaseousHelloMagic)"

text \<open>
  \<open>UnpackAnyGaseousHello\<close> returns \<open>(helloType, helloMsg, err)\<close>; the pair of message and
  error is the sum.
\<close>

definition UnpackAnyGaseousHello ::
  "env \<Rightarrow> GaseousTemplateRegistry \<Rightarrow> bytes \<Rightarrow> byte \<times> (error + bytes)" where
  "UnpackAnyGaseousHello E reg data =
     (if length data < gaseousHelloHeaderSize then (0, Inl ErrGaseousTrunc)
      else
        case at data 4 of
          Inl e \<Rightarrow> (0, Inl e)
        | Inr helloType \<Rightarrow>
            if helloType = GaseousHelloTypeClient
              then (1, Inl (ErrNew ''not implemented: ClientHello unpack on server side''))
            else if helloType = GaseousHelloTypeServer
              then (2, UnpackServerHelloGaseous E reg data)
            else (helloType, Inl ErrGaseousType))"

section \<open>ClientHello parser (second version of the client file, src/unnamed/part\_004)\<close>

record ParsedClientHello =
  pch_Version :: uint16
  pch_Random :: bytes
  pch_SessionID :: bytes
  pch_CipherSuites :: "uint16 list"
  pch_CompressionMethods :: bytes
  pch_SNI :: bytes
  pch_ALPN :: "bytes list"
  pch_Extensions :: "uint16 \<rightharpoonup> bytes"

text \<open>
  \<open>parseSNI\<close>: the loop from \<open>i\<close>, with \<open>listLen\<close> read once before it. The first entry of
  type 0 whose name fits sets \<open>SNI\<close> and returns.
\<close>

function parseSNI_loop :: "bytes \<Rightarrow> nat \<Rightarrow> nat \<Rightarrow> ParsedClientHello \<Rightarrow> error + ParsedClientHello" where
  "parseSNI_loop data listLen i out =
     (if i + 3 \<le> length data \<and> i + listLen \<le> length data then
        case at data i of Inl e \<Rightarrow> Inl e | Inr typ \<Rightarrow>
        case sliceFrom data (i + 1) of Inl e \<Rightarrow> Inl e | Inr b \<Rightarrow>
        case Uint16 b of Inl e \<Rightarrow> Inl e | Inr nameLen \<Rightarrow>
          if typ = 0 \<and> i + 3 + unat nameLen \<le> length data then
            case slice data (i + 3) (i + 3 + unat nameLen) of
              Inl e \<Rightarrow> Inl e
            | Inr name \<Rightarrow> Inr (out\<lparr>pch_SNI := name\<rparr>)
          else parseSNI_loop data listLen (i + 3 + unat nameLen) out
      else Inr out)"
  by pat_completeness auto
termination
  by (relation "measure (\<lambda>(data, listLen, i, out). length data - i)") auto

declare parseSNI_loop.simps [simp del]

definition parseSNI :: "bytes \<Rightarrow> ParsedClientHello \<Rightarrow> error + ParsedClientHello" where
  "parseSNI data out =
     (if length data < 2 then Inr out
      else
        bindE (sliceTo data 2) (\<lambda>b.
        bindE (Uint16 b) (\<lambda>listLen.
          parseSNI_loop data (unat listLen) 2 out)))"

text \<open>
  \<open>parseALPN\<close>: every protocol name that fits is appended; the first that does not ends
  the loop.
\<close>

function parseALPN_loop :: "bytes \<Rightarrow> nat \<Rightarrow> nat \<Rightarrow> ParsedClientHello \<Rightarrow> error + ParsedClientHello" where
  "parseALPN_loop data alpnLen li out =
     (if li < length data \<and> li - 2 < alpnLen then
        if li \<ge> length data then Inr out
        else
          case at data li of Inl e \<Rightarrow> Inl e | Inr l \<Rightarrow>
            if li + 1 + unat l > length data then Inr out
            else
              case slice data (li + 1) (li + 1 + unat l) of
                Inl e \<Rightarrow> Inl e
              | Inr proto \<Rightarrow>
                  parseALPN_loop data alpnLen (li + 1 + unat l)
                    (out\<lparr>pch_ALPN := pch_ALPN out @ [proto]\<rparr>)
      else Inr out)"
  by pat_completeness auto
termination
  by (relation "measure (\<lambda>(data, alpnLen, li, out). length data - li)") auto

declare parseALPN_loop.simps [simp del]

definition parseALPN :: "bytes \<Rightarrow> ParsedClientHello \<Rightarrow> error + ParsedClientHello" where
  "parseALPN data out =
     (if length data < 2 then Inr out
      else
        bindE (sliceTo data 2) (\<lambda>b.
        bindE (Uint16 b) (\<lambda>alpnLen.
          parseALPN_loop data (unat alpnLen) 2 out)))"

text \<open>
  The extension loop of \<open>parseClientHello\<close>, \<open>for ei+4 <= len(exts)\<close>: a record whose length
  runs past the block is the \<open>break\<close>; otherwise the body is stored under its type and, for
  the types 0 and 16, handed to \<open>parseSNI\<close> and \<open>parseALPN\<close>.
\<close>

definition storeExtension :: "uint16 \<Rightarrow> bytes \<Rightarrow> ParsedClientHello \<Rightarrow> error + ParsedClientHello" where
  "storeExtension extType ext out =
     bindE (if extType = 0x0000
            then parseSNI ext (out\<lparr>pch_Extensions := (pch_Extensions out)(extType \<mapsto> ext)\<rparr>)
            else Inr (out\<lparr>pch_Extensions := (pch_Extensions out)(extType \<mapsto> ext)\<rparr>)) (\<lambda>out1.
       if extType = 0x0010 then parseALPN ext out1 else Inr out1)"

function parseExtensions :: "bytes \<Rightarrow> nat \<Rightarrow> ParsedClientHello \<Rightarrow> error + ParsedClientHello" where
  "parseExtensions exts ei out =
     (if ei + 4 \<le> length exts then
        case sliceFrom exts ei of Inl e \<Rightarrow> Inl e | Inr b1 \<Rightarrow>
        case Uint16 b1 of Inl e \<Rightarrow> Inl e | Inr extType \<Rightarrow>
        case sliceFrom exts (ei + 2) of Inl e \<Rightarrow> Inl e | Inr b2 \<Rightarrow>
        case Uint16 b2 of Inl e \<Rightarrow> Inl e | Inr extL \<Rightarrow>
          if ei + 4 + unat extL > length exts then Inr out
          else
            case slice exts (ei + 4) (ei + 4 + unat extL) of Inl e \<Rightarrow> Inl e | Inr ext \<Rightarrow>
            case storeExtension extType ext out of Inl e \<Rightarrow> Inl e | Inr out' \<Rightarrow>
              parseExtensions exts (ei + 4 + unat extL) out'
      else Inr out)"
  by pat_completeness auto
termination
  by (relation "measure (\<lambda>(exts, ei, out). length exts - ei)") auto

declare parseExtensions.simps [simp del]

text \<open>The cipher-suite loop: \<open>n\<close> big-endian values from offset \<open>i\<close>, two bytes each.\<close>

fun readCipherSuites :: "bytes \<Rightarrow> nat \<Rightarrow> nat \<Rightarrow> error + uint16 list" where
  "readCipherSuites body i 0 = Inr []"
| "readCipherSuites body i (Suc n) =
     (case slice body i (i + 2) of Inl e \<Rightarrow> Inl e | Inr b \<Rightarrow>
      case Uint16 b of Inl e \<Rightarrow> Inl e | Inr v \<Rightarrow>
      case readCipherSuites body (i + 2) n of Inl e \<Rightarrow> Inl e | Inr vs \<Rightarrow> Inr (v # vs))"

text \<open>
  \<open>parseClientHello\<close>, in the stages its comments name. Each stage gets the body, the
  offset \<open>i\<close> and the record built so far.
\<close>

definition parseRecordLayer :: "bytes \<Rightarrow> error + nat" where
  "parseRecordLayer data =
     bindE (at data 0) (\<lambda>d0.
     bindE (if d0 = 0x16 \<and> length data > 5
            then bindE (at data 1) (\<lambda>d1.
                   if d1 = 0x03
                   then bindE (at data 2) (\<lambda>d2. Inr (d2 \<ge> 0x01 \<and> d2 \<le> 0x04))
                   else Inr False)
            else Inr False) (\<lambda>found.
       if found then
         bindE (slice data 3 5) (\<lambda>b.
         bindE (Uint16 b) (\<lambda>recordLen.
           if length data < 5 + unat recordLen then Inl (ErrNew ''truncated TLS record'')
           else Inr 5))
       else Inr 0))"

definition parseHandshakeHeader :: "bytes \<Rightarrow> error + bytes" where
  "parseHandshakeHeader hs =
     (if length hs < 4 then Inl (ErrNew ''truncated handshake'')
      else
        bindE (at hs 0) (\<lambda>h0.
          if h0 \<noteq> 0x01 then Inl (ErrNew ''not clienthello'')
          else
            bindE (at hs 1) (\<lambda>h1.
            bindE (at hs 2) (\<lambda>h2.
            bindE (at hs 3) (\<lambda>h3.
              let hsLen = push_bit 16 (unat h1) OR push_bit 8 (unat h2) OR unat h3 in
              if length hs - 4 < hsLen then Inl (ErrNew ''truncated handshake body'')
              else slice hs 4 (4 + hsLen))))))"

definition emptyParsedClientHello :: ParsedClientHello where
  "emptyParsedClientHello =
     \<lparr>pch_Version = 0, pch_Random = [], pch_SessionID = [], pch_CipherSuites = [],
      pch_CompressionMethods = [], pch_SNI = [], pch_ALPN = [], pch_Extensions = Map.empty\<rparr>"

definition parseVersion :: "bytes \<Rightarrow> ParsedClientHello \<Rightarrow> error + nat \<times> ParsedClientHello" where
  "parseVersion body out =
     (if length body < 2 then Inl (ErrNew ''truncated version'')
      else
        bindE (sliceTo body 2) (\<lambda>b.
        bindE (Uint16 b) (\<lambda>v. Inr (2, out\<lparr>pch_Version := v\<rparr>))))"

definition parseRandom :: "bytes \<Rightarrow> nat \<Rightarrow> ParsedClientHello \<Rightarrow> error + nat \<times> ParsedClientHello" where
  "parseRandom body i out =
     bindE (sliceFrom body i) (\<lambda>rest.
       if length rest < 32 then Inl (ErrNew ''truncated random'')
       else
         bindE (slice body i (i + 32)) (\<lambda>r. Inr (i + 32, out\<lparr>pch_Random := r\<rparr>)))"

definition parseSessionID :: "bytes \<Rightarrow> nat \<Rightarrow> ParsedClientHello \<Rightarrow> error + nat \<times> ParsedClientHello" where
  "parseSessionID body i out =
     bindE (sliceFrom body i) (\<lambda>rest.
       if length rest < 1 then Inl (ErrNew ''truncated sessionid len'')
       else
         bindE (at body i) (\<lambda>sidLen.
         bindE (sliceFrom body (i + 1)) (\<lambda>rest'.
           if length rest' < unat sidLen then Inl (ErrNew ''truncated sessionid'')
           else
             bindE (slice body (i + 1) (i + 1 + unat sidLen)) (\<lambda>sid.
               Inr (i + 1 + unat sidLen, out\<lparr>pch_SessionID := sid\<rparr>)))))"

definition parseCipherSuites :: "bytes \<Rightarrow> nat \<Rightarrow> ParsedClientHello \<Rightarrow> error + nat \<times> ParsedClientHello" where
  "parseCipherSuites body i out =
     bindE (sliceFrom body i) (\<lambda>rest.
       if length rest < 2 then Inl (ErrNew ''truncated ciphersuites len'')
       else
         bindE (Uint16 rest) (\<lambda>csLen.
         bindE (sliceFrom body (i + 2)) (\<lambda>rest'.
           if length rest' < unat csLen \<or> unat csLen mod 2 \<noteq> 0
           then Inl (ErrNew ''truncated/invalid ciphersuites'')
           else
             bindE (readCipherSuites body (i + 2) (unat csLen div 2)) (\<lambda>cs.
               Inr (i + 2 + 2 * (unat csLen div 2), out\<lparr>pch_CipherSuites := cs\<rparr>)))))"

definition parseCompressionMethods ::
  "bytes \<Rightarrow> nat \<Rightarrow> ParsedClientHello \<Rightarrow> error + nat \<times> ParsedClientHello" where
  "parseCompressionMethods body i out =
     bindE (sliceFrom body i) (\<lambda>rest.
       if length rest < 1 then Inl (ErrNew ''truncated compression methods len'')
       else
         bindE (at body i) (\<lambda>compLen.
         bindE (sliceFrom body (i + 1)) (\<lambda>rest'.
           if length rest' < unat compLen then Inl (ErrNew ''truncated compression methods'')
           else
             bindE (slice body (i + 1) (i + 1 + unat compLen)) (\<lambda>cm.
               Inr (i + 1 + unat compLen, out\<lparr>pch_CompressionMethods := cm\<rparr>)))))"

definition parseExtensionBlock :: "bytes \<Rightarrow> nat \<Rightarrow> ParsedClientHello \<Rightarrow> error + ParsedClientHello" where
  "parseExtensionBlock body i out =
     (if i = length body then Inr out
      else
        bindE (sliceFrom body i) (\<lambda>rest.
          if length rest < 2 then Inl (ErrNew ''truncated extensions len'')
          else
            bindE (Uint16 rest) (\<lambda>extLen.
            bindE (sliceFrom body (i + 2)) (\<lambda>rest'.
              if length rest' < unat extLen then Inl (ErrNew ''truncated extensions body'')
              else
                bindE (slice body (i + 2) (i + 2 + unat extLen)) (\<lambda>exts.
                  parseExtensions exts 0 out)))))"

definition parseBody :: "bytes \<Rightarrow> error + ParsedClientHello" where
  "parseBody body =
     bindE (parseVersion body emptyParsedClientHello) (\<lambda>(i, out).
     bindE (parseRandom body i out) (\<lambda>(i, out).
     bindE (parseSessionID body i out) (\<lambda>(i, out).
     bindE (parseCipherSuites body i out) (\<lambda>(i, out).
     bindE (parseCompressionMethods body i out) (\<lambda>(i, out).
       parseExtensionBlock body i out)))))"

definition parseClientHello :: "bytes \<Rightarrow> error + ParsedClientHello" where
  "parseClientHello data =
     (if length data < 9 then Inl (ErrNew ''too short'')
      else
        bindE (parseRecordLayer data) (\<lambda>offset.
        bindE (sliceFrom data offset) (\<lambda>hs.
        bindE (parseHandshakeHeader hs) (\<lambda>body.
          parseBody body))))"

section \<open>Fingerprint matcher\<close>

subsection \<open>Second version (src/unnamed/part\_004): scored on the parsed hello, threshold 10\<close>

text \<open>
  The score of one spec, as the loop body computes it: cipher suites equal at the same
  position (4 each), equal compression methods (8), ALPN names the spec also lists (4
  each), and 3 when the hello has a server name and the spec an SNI extension.
\<close>

definition isALPNExtension :: "TLSExtension \<Rightarrow> bool" where
  "isALPNExtension ext = (case ext of ALPNExtension ps \<Rightarrow> True | _ \<Rightarrow> False)"

definition isSNIExtension :: "TLSExtension \<Rightarrow> bool" where
  "isSNIExtension ext = (case ext of SNIExtension n \<Rightarrow> True | _ \<Rightarrow> False)"

definition AlpnProtocols :: "TLSExtension \<Rightarrow> bytes list" where
  "AlpnProtocols ext = (case ext of ALPNExtension ps \<Rightarrow> ps | _ \<Rightarrow> [])"

definition countEqualPairs :: "'a list \<Rightarrow> 'a list \<Rightarrow> nat" where
  "countEqualPairs xs ys = length (filter (\<lambda>(x, y). x = y) (List.product xs ys))"

definition scoreSpec :: "ParsedClientHello \<Rightarrow> ClientHelloSpec \<Rightarrow> nat" where
  "scoreSpec parsed spec =
     (if length (pch_CipherSuites parsed) > 0 \<and> length (spec_CipherSuites spec) > 0
      then length (filter (\<lambda>(x, y). x = y)
             (zip (pch_CipherSuites parsed) (spec_CipherSuites spec))) * 4
      else 0)
     + (if length (pch_CompressionMethods parsed) > 0 \<and> length (spec_CompressionMethods spec) > 0
           \<and> pch_CompressionMethods parsed = spec_CompressionMethods spec
        then 8 else 0)
     + (if length (pch_ALPN parsed) > 0
        then sum_list (map (\<lambda>ext. countEqualPairs (pch_ALPN parsed) (AlpnProtocols ext))
               (filter isALPNExtension (spec_Extensions spec))) * 4
        else 0)
     + (if pch_SNI parsed \<noteq> [] \<and> list_ex isSNIExtension (spec_Extensions spec) then 3 else 0)"

text \<open>
  The loop over \<open>allUTLSIDs\<close>. The state is \<open>(bestMatch, bestScore, params)\<close>; an id whose
  spec uTLS does not return is skipped; a strictly higher score replaces the state.
\<close>

type_synonym matchState = "string \<times> nat \<times> GaseousClientHelloParams option"

fun matchLoop_v2 :: "env \<Rightarrow> ParsedClientHello \<Rightarrow> ClientHelloID list \<Rightarrow> matchState \<Rightarrow> matchState" where
  "matchLoop_v2 E parsed [] st = st"
| "matchLoop_v2 E parsed (ident # ids) (bestMatch, bestScore, params) =
     (case UTLSIdToSpec E ident of
        Inl err \<Rightarrow> matchLoop_v2 E parsed ids (bestMatch, bestScore, params)
      | Inr spec \<Rightarrow>
          if scoreSpec parsed spec > bestScore
          then matchLoop_v2 E parsed ids
                 (Str E ident, scoreSpec parsed spec,
                  Some \<lparr>SpecType = Str E ident, SNI = pch_SNI parsed, ALPN = pch_ALPN parsed,
                        Random = pch_Random parsed, SessionID = pch_SessionID parsed,
                        Other = Map.empty\<rparr>)
          else matchLoop_v2 E parsed ids (bestMatch, bestScore, params))"

text \<open>
  \<open>matchUTLSClientHello\<close> returns \<open>(specStr, params)\<close>, and \<open>("", nil)\<close> for no match. The
  parser never panics (shown below), so each \<open>Inl\<close> it returns is an error value.
\<close>

definition matchThreshold_v2 :: nat where "matchThreshold_v2 = 10"

definition matchUTLSClientHello_v2 ::
  "env \<Rightarrow> bytes \<Rightarrow> string \<times> GaseousClientHelloParams option" where
  "matchUTLSClientHello_v2 E clientHelloBytes =
     (case parseClientHello clientHelloBytes of
        Inl err \<Rightarrow> ([], None)
      | Inr parsed \<Rightarrow>
          (case matchLoop_v2 E parsed (allUTLSIDs E) ([], 0, None) of
             (bestMatch, bestScore, params) \<Rightarrow>
               if bestScore \<ge> matchThreshold_v2 \<and> bestMatch \<noteq> [] \<and> params \<noteq> None
               then (bestMatch, params)
               else ([], None)))"

subsection \<open>First version (g\_client.go): scored on uTLS's own parse, threshold 50\<close>

fun commonSorted :: "uint16 list \<Rightarrow> uint16 list \<Rightarrow> nat" where
  "commonSorted [] ys = 0"
| "commonSorted xs [] = 0"
| "commonSorted (x # xs) (y # ys) =
     (if x = y then 1 + commonSorted xs ys
      else if x < y then commonSorted xs (y # ys)
      else commonSorted (x # xs) ys)"

definition ServerName :: "TLSExtension \<Rightarrow> bytes" where
  "ServerName ext = (case ext of SNIExtension n \<Rightarrow> n | _ \<Rightarrow> [])"

definition compareClientHelloSpec ::
  "env \<Rightarrow> ClientHelloMsg \<Rightarrow> ClientHelloSpec \<Rightarrow> bytes \<Rightarrow> bytes list \<Rightarrow> nat" where
  "compareClientHelloSpec E msg spec sni alpn =
     (if length (msg_CipherSuites msg) > 0 \<and> length (spec_CipherSuites spec) > 0
      then countEqualPairs (msg_CipherSuites msg) (spec_CipherSuites spec) * 3
      else 0)
     + (if length (msg_CompressionMethods msg) > 0 \<and> length (spec_CompressionMethods spec) > 0
           \<and> msg_CompressionMethods msg = spec_CompressionMethods spec
        then 8 else 0)
     + (if length alpn > 0 \<and> length (spec_Extensions spec) > 0
        then countEqualPairs alpn
               (concat (map AlpnProtocols (filter isALPNExtension (spec_Extensions spec)))) * 4
        else 0)
     + (if sni \<noteq> []
        then length (filter (\<lambda>ext. isSNIExtension ext \<and> ServerName ext = sni)
               (spec_Extensions spec)) * 10
        else 0)
     + commonSorted (sort (map (ext_Type E) (msg_Extensions msg)))
         (sort (map (ext_Type E) (spec_Extensions spec))) * 2
     + (if length (msg_Random msg) = 32 then 2 else 0)
     + (if length (msg_SessionId msg) = 32 \<or> length (msg_SessionId msg) = 0 then 2 else 0)"

fun matchLoop ::
  "env \<Rightarrow> ClientHelloMsg \<Rightarrow> bytes \<Rightarrow> bytes list \<Rightarrow> ClientHelloID list \<Rightarrow> matchState \<Rightarrow> matchState" where
  "matchLoop E msg sni alpn [] st = st"
| "matchLoop E msg sni alpn (ident # ids) (bestMatch, bestScore, params) =
     (case UTLSIdToSpec E ident of
        Inl err \<Rightarrow> matchLoop E msg sni alpn ids (bestMatch, bestScore, params)
      | Inr spec \<Rightarrow>
          if compareClientHelloSpec E msg spec sni alpn > bestScore
          then matchLoop E msg sni alpn ids
                 (Str E ident, compareClientHelloSpec E msg spec sni alpn,
                  Some \<lparr>SpecType = Str E ident, SNI = sni, ALPN = alpn,
                        Random = msg_Random msg, SessionID = msg_SessionId msg,
                        Other = Map.empty\<rparr>)
          else matchLoop E msg sni alpn ids (bestMatch, bestScore, params))"

definition matchThreshold :: nat where "matchThreshold = 50"

definition matchUTLSClientHello ::
  "env \<Rightarrow> bytes \<Rightarrow> bytes \<Rightarrow> bytes list \<Rightarrow> string \<times> GaseousClientHelloParams option" where
  "matchUTLSClientHello E clientHelloBytes sni alpn =
     (case msg_Unmarshal E clientHelloBytes of
        None \<Rightarrow> ([], None)
      | Some chMsg \<Rightarrow>
          (case matchLoop E chMsg sni alpn (allUTLSIDs E) ([], 0, None) of
             (bestMatch, bestScore, params) \<Rightarrow>
               if bestScore \<ge> matchThreshold \<and> bestMatch \<noteq> [] \<and> params \<noteq> None
               then (bestMatch, params)
               else ([], None)))"

section \<open>Packing a ClientHello\<close>

text \<open>The compression helpers (src/unnamed/part\_001): the library's writer, its error kept.\<close>

definition compressFlate :: "env \<Rightarrow> bytes \<Rightarrow> error + bytes" where
  "compressFlate E data = external (flate_Write E data)"

definition compressGzip :: "env \<Rightarrow> bytes \<Rightarrow> error + bytes" where
  "compressGzip E data = external (gzip_Write E data)"

definition compressBrotli :: "env \<Rightarrow> bytes \<Rightarrow> error + bytes" where
  "compressBrotli E data = external (brotli_Write E data)"

definition compressZstd :: "env \<Rightarrow> bytes \<Rightarrow> error + bytes" where
  "compressZstd E data = external (zstd_Write E data)"

definition compressLZ4 :: "env \<Rightarrow> bytes \<Rightarrow> error + bytes" where
  "compressLZ4 E data = external (lz4_Write E data)"

definition compressXZ :: "env \<Rightarrow> bytes \<Rightarrow> error + bytes" where
  "compressXZ E data = external (xz_Write E data)"

text \<open>
  \<open>compressLZ4Block\<close>: a buffer of \<open>4 + 2 * len(data)\<close> bytes, the length in the first four,
  the block after them, and \<open>out[:4+n]\<close> returned, which panics if the library reports more
  bytes than the buffer holds.
\<close>

definition compressLZ4Block :: "env \<Rightarrow> bytes \<Rightarrow> error + bytes" where
  "compressLZ4Block E data =
     (case lz4_CompressBlock E data (length data * 2) of
        Inl msg \<Rightarrow> Inl (ErrExternal msg)
      | Inr written \<Rightarrow>
          sliceTo (PutUint32 (of_nat (length data))
                   @ take (length data * 2) (written @ replicate (length data * 2) 0))
            (4 + length written))"

text \<open>
  The frame both pack functions build: the record marker, the 11 header bytes and the
  payload. \<open>uint32(len(compressed))\<close> keeps the low 32 bits of the length.
\<close>

definition packFrame :: "byte \<Rightarrow> uint16 \<Rightarrow> bytes \<Rightarrow> bytes" where
  "packFrame algo templID compressed =
     [recordTypeGaseousHello]
     @ (GaseousHelloMagic @ [GaseousHelloVersion, algo, GaseousHelloTypeClient]
        @ PutUint16 templID @ PutUint32 (of_nat (length compressed)))
     @ compressed"

subsection \<open>First version (g\_client.go): Flate for parameters, Brotli for raw bytes\<close>

definition PackClientHelloGaseous :: "env \<Rightarrow> bytes \<Rightarrow> bytes list \<Rightarrow> bytes \<Rightarrow> error + bytes" where
  "PackClientHelloGaseous E sni alpn clientHelloBytes =
     (case matchUTLSClientHello E clientHelloBytes sni alpn of
        (specStr, params) \<Rightarrow>
          if specStr \<noteq> [] then
            bindE (external (json_Marshal E params)) (\<lambda>paramBytes.
            bindE (compressFlate E paramBytes) (\<lambda>compressed.
              Inr (packFrame GaseousCompressFlate 0xffff compressed)))
          else
            bindE (compressBrotli E clientHelloBytes) (\<lambda>compressed.
              Inr (packFrame GaseousCompressBrotli 0 compressed)))"

subsection \<open>Second version (src/unnamed/part\_004): the fallback chain\<close>

definition compressFuncs :: "env \<Rightarrow> (byte \<times> (bytes \<Rightarrow> error + bytes)) list" where
  "compressFuncs E =
     [(GaseousCompressFlate, compressFlate E),
      (GaseousCompressGzip, compressGzip E),
      (GaseousCompressBrotli, compressBrotli E),
      (GaseousCompressZstd, compressZstd E),
      (GaseousCompressLZ4, compressLZ4 E),
      (GaseousCompressXZ, compressXZ E),
      (GaseousCompressLZ4Block, compressLZ4Block E)]"

text \<open>
  \<open>for _, cfn := range compressFuncs\<close>: the first \<open>err == nil\<close> returns the frame; after
  the last failure the function returns \<open>errors.New("all compression failed")\<close>.
\<close>

fun packWithFirst :: "(byte \<times> (bytes \<Rightarrow> error + bytes)) list \<Rightarrow> uint16 \<Rightarrow> bytes \<Rightarrow> error + bytes" where
  "packWithFirst [] templID payload = Inl (ErrNew ''all compression failed'')"
| "packWithFirst ((algo, fn) # rest) templID payload =
     (case fn payload of
        Inr compressed \<Rightarrow> Inr (packFrame algo templID compressed)
      | Inl e \<Rightarrow> if e = RuntimePanic then Inl RuntimePanic
                 else packWithFirst rest templID payload)"

definition PackClientHelloGaseous_v2 :: "env \<Rightarrow> bytes \<Rightarrow> bytes list \<Rightarrow> bytes \<Rightarrow> error + bytes" where
  "PackClientHelloGaseous_v2 E sni alpn clientHelloBytes =
     (case matchUTLSClientHello_v2 E clientHelloBytes of
        (specStr, params) \<Rightarrow>
          if specStr \<noteq> [] then
            bindE (external (json_Marshal E params)) (\<lambda>paramBytes.
              packWithFirst (compressFuncs E) 0xffff paramBytes)
          else packWithFirst (compressFuncs E) 0 clientHelloBytes)"

section \<open>Unpacking a ClientHello\<close>

text \<open>
  \<open>buildUTLSClientHello\<close>: the first id of \<open>allUTLSIDs\<close> whose name is the requested one, the
  overrides written into its spec, and \<open>ApplyPreset\<close> called on a \<open>UConn\<close> that holds
  nothing but that id.
\<close>

definition setServerName :: "bytes \<Rightarrow> TLSExtension \<Rightarrow> TLSExtension" where
  "setServerName sni ext = (case ext of SNIExtension n \<Rightarrow> SNIExtension sni | _ \<Rightarrow> ext)"

definition setAlpnProtocols :: "bytes list \<Rightarrow> TLSExtension \<Rightarrow> TLSExtension" where
  "setAlpnProtocols alpn ext = (case ext of ALPNExtension ps \<Rightarrow> ALPNExtension alpn | _ \<Rightarrow> ext)"

definition overrideNames :: "GaseousClientHelloParams \<Rightarrow> ClientHelloSpec \<Rightarrow> ClientHelloSpec" where
  "overrideNames params spec =
     (let spec1 = (if SNI params \<noteq> []
                   then spec\<lparr>spec_Extensions := map (setServerName (SNI params)) (spec_Extensions spec)\<rparr>
                   else spec)
      in if length (ALPN params) > 0
         then spec1\<lparr>spec_Extensions := map (setAlpnProtocols (ALPN params)) (spec_Extensions spec1)\<rparr>
         else spec1)"

definition overrideRandoms :: "GaseousClientHelloParams \<Rightarrow> ClientHelloSpec \<Rightarrow> ClientHelloSpec" where
  "overrideRandoms params spec =
     (let spec1 = (if length (Random params) = 32
                   then spec\<lparr>spec_GetRandom := Some (Random params)\<rparr> else spec)
      in if length (SessionID params) > 0
         then spec1\<lparr>spec_GetSessionID := Some (SessionID params)\<rparr> else spec1)"

definition buildUTLSClientHello :: "env \<Rightarrow> GaseousClientHelloParams \<Rightarrow> error + bytes" where
  "buildUTLSClientHello E params =
     (case find (\<lambda>x. Str E x = SpecType params) (allUTLSIDs E) of
        None \<Rightarrow> Inl (ErrNew (''unknown uTLS spec: '' @ SpecType params))
      | Some ident \<Rightarrow>
          bindE (external (UTLSIdToSpec E ident)) (\<lambda>spec.
          bindE (called (ApplyPreset E ident (overrideRandoms params (overrideNames params spec))))
            (\<lambda>hello.
              case hello of
                None \<Rightarrow> Inl (ErrNew ''failed to build ClientHello'')
              | Some h \<Rightarrow> Inr (Marshal E h))))"

definition buildUTLSClientHello_v2 :: "env \<Rightarrow> GaseousClientHelloParams \<Rightarrow> error + bytes" where
  "buildUTLSClientHello_v2 E params =
     (case find (\<lambda>x. strings_EqualFold E (Str E x) (SpecType params)) (allUTLSIDs E) of
        None \<Rightarrow> Inl (ErrNew (''unknown uTLS spec: '' @ SpecType params))
      | Some ident \<Rightarrow>
          bindE (external (UTLSIdToSpec E ident)) (\<lambda>spec.
          bindE (called (ApplyPreset E ident (overrideNames params spec))) (\<lambda>hello.
            case hello of
              None \<Rightarrow> Inl (ErrNew ''failed to build ClientHello'')
            | Some h \<Rightarrow> external (MarshalE E h))))"

subsection \<open>First version (g\_client.go)\<close>

text \<open>
  The first byte is dropped unread. A frame in fingerprint mode is inflated with Flate
  before the switch over the algorithm byte is reached; the switch knows five algorithms.
\<close>

definition UnpackClientHelloGaseous ::
  "env \<Rightarrow> GaseousTemplateRegistry \<Rightarrow> bytes \<Rightarrow> error + bytes" where
  "UnpackClientHelloGaseous E reg data0 =
     (if length data0 < gaseousHelloHeaderSize + 1 then Inl ErrGaseousTrunc
      else
        bindE (sliceFrom data0 1) (\<lambda>data.
        bindE (readHeader data) (\<lambda>hdr.
          if Magic hdr \<noteq> GaseousHelloMagic then Inl ErrGaseousMagic
          else if Version hdr \<noteq> GaseousHelloVersion then Inl ErrGaseousVersion
          else if HelloType hdr \<noteq> GaseousHelloTypeClient then Inl ErrGaseousType
          else if addInt E (toInt E (DataLen hdr)) (int gaseousHelloHeaderSize) > int (length data)
            then Inl ErrGaseousTrunc
          else
            bindE (sliceInt data (int gaseousHelloHeaderSize)
                     (addInt E (int gaseousHelloHeaderSize) (toInt E (DataLen hdr))))
              (\<lambda>compressed.
              if TemplID hdr = 0xffff then
                bindE (decompressFlate E compressed) (\<lambda>plain.
                bindE (external (json_Unmarshal E plain)) (\<lambda>params.
                  buildUTLSClientHello E params))
              else
                bindE (if Algo hdr = GaseousCompressNone then Inr compressed
                       else if Algo hdr = GaseousCompressFlate then decompressFlate E compressed
                       else if Algo hdr = GaseousCompressGzip then decompressGzip E compressed
                       else if Algo hdr = GaseousCompressBrotli then decompressBrotli E compressed
                       else if Algo hdr = GaseousCompressZstd then decompressZstd E compressed
                       else Inl ErrGaseousAlgo) (\<lambda>plain.
                  case lookupTemplate reg (TemplID hdr) of
                    None \<Rightarrow> Inl ErrGaseousTemplate
                  | Some tmpl \<Rightarrow> fillHelloTemplate (Some tmpl) plain)))))"

subsection \<open>Second version (src/unnamed/part\_004)\<close>

text \<open>The switch over all eight algorithms comes first, the fingerprint mode after it.\<close>

definition UnpackClientHelloGaseous_v2 ::
  "env \<Rightarrow> GaseousTemplateRegistry \<Rightarrow> bytes \<Rightarrow> error + bytes" where
  "UnpackClientHelloGaseous_v2 E reg data0 =
     (if length data0 < gaseousHelloHeaderSize + 1 then Inl ErrGaseousTrunc
      else
        bindE (sliceFrom data0 1) (\<lambda>data.
        bindE (readHeader data) (\<lambda>hdr.
          if Magic hdr \<noteq> GaseousHelloMagic then Inl ErrGaseousMagic
          else if Version hdr \<noteq> GaseousHelloVersion then Inl ErrGaseousVersion
          else if HelloType hdr \<noteq> GaseousHelloTypeClient then Inl ErrGaseousType
          else if addInt E (toInt E (DataLen hdr)) (int gaseousHelloHeaderSize) > int (length data)
            then Inl ErrGaseousTrunc
          else
            bindE (sliceInt data (int gaseousHelloHeaderSize)
                     (addInt E (int gaseousHelloHeaderSize) (toInt E (DataLen hdr))))
              (\<lambda>compressed.
            bindE (if Algo hdr = GaseousCompressNone then Inr compressed
                   else if Algo hdr = GaseousCompressFlate then decompressFlate E compressed
                   else if Algo hdr = GaseousCompressGzip then decompressGzip E compressed
                   else if Algo hdr = GaseousCompressBrotli then decompressBrotli E compressed
                   else if Algo hdr = GaseousCompressZstd then decompressZstd E compressed
                   else if Algo hdr = GaseousCompressLZ4 then decompressLZ4 E compressed
                   else if Algo hdr = GaseousCompressXZ then decompressXZ E compressed
                   else if Algo hdr = GaseousCompressLZ4Block
                     then decompressLZ4Block_v2 E compressed
                   else Inl ErrGaseousAlgo) (\<lambda>plain.
              if TemplID hdr = 0xffff then
                bindE (external (json_Unmarshal E plain)) (\<lambda>params.
                  buildUTLSClientHello_v2 E params)
              else
                case lookupTemplate reg (TemplID hdr) of
                  None \<Rightarrow> Inl ErrGaseousTemplate
                | Some tmpl \<Rightarrow> fillHelloTemplate (Some tmpl) plain)))))"

section \<open>A stand-in environment for concrete inputs\<close>

text \<open>
  Where a theorem is applied to a concrete input, this environment stands in for the
  platform and the libraries: a 64-bit build with 64 KiB left to allocate, Flate cannot
  write, every other writer stores its input unchanged, every reader rejects the empty input
  (as the real decoders do) and otherwise returns its input, JSON decoding fails, the
  fingerprint database has one entry, uTLS reads every input but the empty one as the same
  hello, and \<open>ApplyPreset\<close> returns without a hello.
\<close>

definition testSpec :: ClientHelloSpec where
  "testSpec =
     \<lparr>spec_CipherSuites = [0x1301, 0x1302, 0x1303], spec_CompressionMethods = [0],
      spec_Extensions = [SNIExtension [], ALPNExtension [[0x68, 0x32]], OtherExtension 0x002b],
      spec_GetRandom = None, spec_GetSessionID = None\<rparr>"

definition testMsg :: ClientHelloMsg where
  "testMsg =
     \<lparr>msg_CipherSuites = [0x1301, 0x1302, 0x1303], msg_CompressionMethods = [0],
      msg_Extensions = [SNIExtension [0x78, 0x2e, 0x79], ALPNExtension [[0x68, 0x32]]],
      msg_Random = replicate 32 0, msg_SessionId = []\<rparr>"

definition testStore :: "bytes \<Rightarrow> string + bytes" where
  "testStore d = Inr d"

definition testRead :: "bytes \<Rightarrow> string + bytes" where
  "testRead d = (if d = [] then Inl ''unexpected EOF'' else Inr d)"

definition testEnv :: env where
  "testEnv =
     \<lparr>arch = Bits64, heap_Available = 65536,
      flate_Write = (\<lambda>d. Inl ''flate: write failed''),
      gzip_Write = testStore, brotli_Write = testStore, zstd_Write = testStore,
      lz4_Write = testStore, xz_Write = testStore,
      lz4_CompressBlock = (\<lambda>d n. Inr d),
      flate_ReadAll = testRead, gzip_ReadAll = testRead, brotli_ReadAll = testRead,
      zstd_ReadAll = testRead, lz4_ReadAll = testRead, xz_ReadAll = testRead,
      lz4_UncompressBlock = (\<lambda>d n. Inr (length d, d)),
      json_Marshal = (\<lambda>p. Inr [0x7b, 0x7d]),
      json_Unmarshal = (\<lambda>d. Inl ''unexpected end of JSON input''),
      strings_EqualFold = (\<lambda>a b. a = b),
      allUTLSIDs = [\<lparr>Client = ''Chrome'', Release = ''120''\<rparr>],
      Str = (\<lambda>i. Client i @ ''-'' @ Release i),
      UTLSIdToSpec = (\<lambda>i. Inr testSpec),
      ext_Type = (\<lambda>ext. case ext of SNIExtension n \<Rightarrow> 0 | ALPNExtension ps \<Rightarrow> 16
                          | OtherExtension t \<Rightarrow> t),
      msg_Unmarshal = (\<lambda>d. if d = [] then None else Some testMsg),
      ApplyPreset = (\<lambda>i s. Returned None),
      Marshal = (\<lambda>m. []),
      MarshalE = (\<lambda>m. Inr [])\<rparr>"

definition emptyRegistry :: GaseousTemplateRegistry where
  "emptyRegistry = Map.empty"

text \<open>
  Variations: the same on a 32-bit build; Brotli failing as well as Flate; and uTLS as it
  is when \<open>buildUTLSClientHello\<close> calls it, with JSON decoding the parameters of the one
  fingerprint and \<open>ApplyPreset\<close> panicking on the \<open>UConn\<close> that has no connection.
\<close>

definition testEnv32 :: env where
  "testEnv32 = testEnv\<lparr>arch := Bits32\<rparr>"

definition noBrotliEnv :: env where
  "noBrotliEnv = testEnv\<lparr>brotli_Write := (\<lambda>d. Inl ''brotli: write failed'')\<rparr>"

definition testParams :: GaseousClientHelloParams where
  "testParams =
     \<lparr>SpecType = ''Chrome-120'', SNI = [], ALPN = [], Random = [], SessionID = [],
      Other = Map.empty\<rparr>"

definition bareConnEnv :: env where
  "bareConnEnv =
     testEnv\<lparr>json_Unmarshal := (\<lambda>d. Inr testParams), ApplyPreset := (\<lambda>i s. Panicked)\<rparr>"

definition noWriterEnv :: env where
  "noWriterEnv =
     testEnv\<lparr>gzip_Write := (\<lambda>d. Inl ''gzip: write failed''),
             brotli_Write := (\<lambda>d. Inl ''brotli: write failed''),
             zstd_Write := (\<lambda>d. Inl ''zstd: write failed''),
             lz4_Write := (\<lambda>d. Inl ''lz4: write failed''),
             xz_Write := (\<lambda>d. Inl ''xz: write failed''),
             lz4_CompressBlock := (\<lambda>d n. Inl ''lz4: invalid source or destination buffer too short'')\<rparr>"

section \<open>Notions the statements use\<close>

text \<open>
  The length check of the unpack functions computes what it means to: the build is 64-bit,
  or the announced length plus the header size is below \<open>2 ^ 31\<close>.
\<close>

definition noOverflow :: "env \<Rightarrow> GaseousHelloHeader \<Rightarrow> bool" where
  "noOverflow E hdr = (arch E = Bits64 \<or> unat (DataLen hdr) + gaseousHelloHeaderSize < 2 ^ 31)"

text \<open>
  The switch over the algorithm byte inside the second \<open>UnpackClientHelloGaseous\<close>, named
  for the statements below.
\<close>

definition clientSwitch_v2 :: "env \<Rightarrow> bytes \<Rightarrow> byte \<Rightarrow> error + bytes" where
  "clientSwitch_v2 E compressed algo =
     (if algo = GaseousCompressNone then Inr compressed
      else if algo = GaseousCompressFlate then decompressFlate E compressed
      else if algo = GaseousCompressGzip then decompressGzip E compressed
      else if algo = GaseousCompressBrotli then decompressBrotli E compressed
      else if algo = GaseousCompressZstd then decompressZstd E compressed
      else if algo = GaseousCompressLZ4 then decompressLZ4 E compressed
      else if algo = GaseousCompressXZ then decompressXZ E compressed
      else if algo = GaseousCompressLZ4Block then decompressLZ4Block_v2 E compressed
      else Inl ErrGaseousAlgo)"

text \<open>A call came back with an error value: it neither succeeded nor panicked.\<close>

definition returnsError :: "error + 'a \<Rightarrow> bool" where
  "returnsError r = (case r of Inl e \<Rightarrow> e \<noteq> RuntimePanic | Inr v \<Rightarrow> False)"

text \<open>
  The wire form of a ClientHello, written with the same \<open>PutUint16\<close> the packer uses: an
  extension record is its type, the length of its body and the body; the handshake body is
  version, random, session id, cipher suites, compression methods and the extension block,
  each list behind its length; the handshake message is type 1 and a 24-bit length before
  the body; a record wraps a handshake message as the parser expects it (type \<open>0x16\<close>,
  version 3.1, 16-bit length).
\<close>

definition encodeExtension :: "uint16 \<times> bytes \<Rightarrow> bytes" where
  "encodeExtension r = PutUint16 (fst r) @ PutUint16 (of_nat (length (snd r))) @ snd r"

definition encodeBody ::
  "uint16 \<Rightarrow> bytes \<Rightarrow> bytes \<Rightarrow> uint16 list \<Rightarrow> bytes \<Rightarrow> bytes \<Rightarrow> bytes" where
  "encodeBody ver random sid cs cm exts =
     PutUint16 ver @ random @ [of_nat (length sid)] @ sid
     @ PutUint16 (of_nat (2 * length cs)) @ concat (map PutUint16 cs)
     @ [of_nat (length cm)] @ cm
     @ PutUint16 (of_nat (length exts)) @ exts"

definition encodeHandshake :: "bytes \<Rightarrow> bytes" where
  "encodeHandshake body =
     [0x01, of_nat (drop_bit 16 (length body)), of_nat (drop_bit 8 (length body)),
      of_nat (length body)] @ body"

definition encodeRecord :: "bytes \<Rightarrow> bytes" where
  "encodeRecord hs = [0x16, 0x03, 0x01] @ PutUint16 (of_nat (length hs)) @ hs"

text \<open>
  The last bytes of an extension block are a record that overruns it: the four bytes of
  type and length are there, and the length says more than what is left.
\<close>

definition overrunningRecord :: "bytes \<Rightarrow> bool" where
  "overrunningRecord bad =
     (4 \<le> length bad \<and>
      (case Uint16 (drop 2 bad) of Inl e \<Rightarrow> False | Inr extL \<Rightarrow> length bad < 4 + unat extL))"

text \<open>The fields the parser has read when it reaches the extensions.\<close>

definition basicFields ::
  "ParsedClientHello \<Rightarrow> uint16 \<times> bytes \<times> bytes \<times> uint16 list \<times> bytes" where
  "basicFields out =
     (pch_Version out, pch_Random out, pch_SessionID out, pch_CipherSuites out,
      pch_CompressionMethods out)"

text \<open>
  A stage of the parser ends well when it returns an error value, or an offset that is
  still inside the body.
\<close>

definition stage_ok :: "bytes \<Rightarrow> error + nat \<times> ParsedClientHello \<Rightarrow> bool" where
  "stage_ok body r = (case r of Inl e \<Rightarrow> e \<noteq> RuntimePanic | Inr (i, out) \<Rightarrow> i \<le> length body)"

text \<open>
  A ClientHello for the concrete cases: TLS 1.2, a zero random, no session id, three cipher
  suites, the null compression method, a server name extension ("x.y"), an ALPN extension
  ("h2"), and a last record of type 43 that announces 9 bytes and has one.
\<close>

definition testRecords :: "(uint16 \<times> bytes) list" where
  "testRecords =
     [(0x0000, [0x00, 0x06, 0x00, 0x00, 0x03, 0x78, 0x2e, 0x79]),
      (0x0010, [0x00, 0x03, 0x02, 0x68, 0x32])]"

definition testOverrun :: bytes where
  "testOverrun = [0x00, 0x2b, 0x00, 0x09, 0x02]"

definition testHello :: bytes where
  "testHello =
     [0x01, 0x00, 0x00, 0x49,
      0x03, 0x03] @ replicate 32 0 @
     [0x00,
      0x00, 0x06, 0x13, 0x01, 0x13, 0x02, 0x13, 0x03,
      0x01, 0x00,
      0x00, 0x1a,
      0x00, 0x00, 0x00, 0x08, 0x00, 0x06, 0x00, 0x00, 0x03, 0x78, 0x2e, 0x79,
      0x00, 0x10, 0x00, 0x05, 0x00, 0x03, 0x02, 0x68, 0x32,
      0x00, 0x2b, 0x00, 0x09, 0x02]"

definition testParsed :: ParsedClientHello where
  "testParsed =
     \<lparr>pch_Version = 0x0303, pch_Random = replicate 32 0, pch_SessionID = [],
      pch_CipherSuites = [0x1301, 0x1302, 0x1303],
      pch_CompressionMethods = [0], pch_SNI = [0x78, 0x2e, 0x79], pch_ALPN = [[0x68, 0x32]],
      pch_Extensions = [0x0000 \<mapsto> [0x00, 0x06, 0x00, 0x00, 0x03, 0x78, 0x2e, 0x79],
                        0x0010 \<mapsto> [0x00, 0x03, 0x02, 0x68, 0x32]]\<rparr>"

text \<open>
  The fingerprint database as the matcher sees it: the name and the score of every id
  whose spec uTLS returns, in the order of \<open>allUTLSIDs\<close>; the best score, 0 for an empty
  list; and the parameters a match carries.
\<close>

definition scoredSpecs :: "env \<Rightarrow> (ClientHelloSpec \<Rightarrow> nat) \<Rightarrow> (string \<times> nat) list" where
  "scoredSpecs E score =
     List.map_filter
       (\<lambda>ident. case UTLSIdToSpec E ident of
                  Inl err \<Rightarrow> None
                | Inr spec \<Rightarrow> Some (Str E ident, score spec))
       (allUTLSIDs E)"

definition bestScore :: "(string \<times> nat) list \<Rightarrow> nat" where
  "bestScore scored = fold max (map snd scored) 0"

definition paramsFor ::
  "string \<Rightarrow> bytes \<Rightarrow> bytes list \<Rightarrow> bytes \<Rightarrow> bytes \<Rightarrow> GaseousClientHelloParams" where
  "paramsFor specId sni alpn random sessionId =
     \<lparr>SpecType = specId, SNI = sni, ALPN = alpn, Random = random, SessionID = sessionId,
      Other = Map.empty\<rparr>"

text \<open>The matcher's loop, seen on the list of names and scores alone.\<close>

fun trackBest :: "(string \<times> nat) list \<Rightarrow> string \<times> nat \<Rightarrow> string \<times> nat" where
  "trackBest [] st = st"
| "trackBest ((name, s) # xs) (bestMatch, best) =
     (if s > best then trackBest xs (name, s) else trackBest xs (bestMatch, best))"

section \<open>Theorems\<close>

subsection \<open>Basic facts\<close>

lemma bindE_Inr [simp]: "bindE (Inr v) f = f v"
  by (simp add: bindE_def)

lemma bindE_Inl [simp]: "bindE (Inl e) f = Inl e"
  by (simp add: bindE_def)

lemma external_simps [simp]:
  "external (Inl m) = Inl (ErrExternal m)" "external (Inr v) = Inr v"
  by (simp_all add: external_def)

lemmas const_defs = GaseousCompressNone_def GaseousCompressFlate_def GaseousCompressGzip_def
  GaseousCompressBrotli_def GaseousCompressZstd_def GaseousCompressLZ4_def GaseousCompressXZ_def
  GaseousCompressLZ4Block_def GaseousHelloMagic_def GaseousHelloVersion_def
  GaseousHelloTypeClient_def GaseousHelloTypeServer_def gaseousHelloHeaderSize_def
  recordTypeGaseousHello_def

lemma readHeader_ok:
  assumes "11 \<le> length data"
  shows "readHeader data =
     Inr \<lparr>Magic = take 2 data, Version = data ! 2, Algo = data ! 3, HelloType = data ! 4,
          TemplID = ucast (data ! 6) OR push_bit 8 (ucast (data ! 5)),
          DataLen = ucast (data ! 10) OR push_bit 8 (ucast (data ! 9))
                    OR push_bit 16 (ucast (data ! 8)) OR push_bit 24 (ucast (data ! 7))\<rparr>"
  using assms
  by (simp add: readHeader_def sliceTo_def at_def slice_def Uint16_def Uint32_def)

lemma readHeader_fields:
  assumes "11 \<le> length data"
  obtains hdr where "readHeader data = Inr hdr" "Magic hdr = take 2 data"
    "Version hdr = data ! 2" "Algo hdr = data ! 3" "HelloType hdr = data ! 4"
  using readHeader_ok [OF assms] by simp

lemma take2_magic:
  "2 \<le> length data \<Longrightarrow> (take 2 data = GaseousHelloMagic) = (data ! 0 = 0x47 \<and> data ! 1 = 0x53)"
  by (cases data; cases "tl data") (auto simp: GaseousHelloMagic_def)

text \<open>Go's \<open>int\<close> where it does not wrap, and where it does.\<close>

lemma wrapInt_small: "- 2147483648 \<le> x \<Longrightarrow> x < 2147483648 \<Longrightarrow> wrapInt E x = x"
  by (cases "arch E") (simp_all add: wrapInt_def IntSize_def)

lemma wrapInt_64:
  "arch E = Bits64 \<Longrightarrow> - 9223372036854775808 \<le> x \<Longrightarrow> x < 9223372036854775808 \<Longrightarrow>
   wrapInt E x = x"
  by (simp add: wrapInt_def IntSize_def)

lemma uint32_bound: "uint (v :: uint32) < 4294967296" "0 \<le> uint v"
  using uint_lt2p [of v] by simp_all

lemma mod_once:
  "4294967296 \<le> x \<Longrightarrow> x < 8589934592 \<Longrightarrow> x mod 4294967296 = x - (4294967296 :: int)"
proof -
  assume a: "4294967296 \<le> x" "x < 8589934592"
  then have "(x - 4294967296) mod 4294967296 = x - 4294967296"
    by (intro mod_pos_pos_trivial) simp_all
  moreover have "(x - 4294967296) mod 4294967296 = x mod 4294967296"
    by (rule minus_mod_self2)
  ultimately show ?thesis by simp
qed

lemma frame_end:
  assumes "noOverflow E hdr"
  shows "addInt E (toInt E (DataLen hdr)) 11 = uint (DataLen hdr) + 11"
    and "addInt E 11 (toInt E (DataLen hdr)) = uint (DataLen hdr) + 11"
proof -
  have b: "uint (DataLen hdr) < 4294967296" "0 \<le> uint (DataLen hdr)"
    by (rule uint32_bound)+
  have "toInt E (DataLen hdr) = uint (DataLen hdr)
      \<and> wrapInt E (uint (DataLen hdr) + 11) = uint (DataLen hdr) + 11"
  proof (cases "arch E = Bits64")
    case True
    have "wrapInt E (uint (DataLen hdr)) = uint (DataLen hdr)"
      by (rule wrapInt_64 [OF True]) (use b in linarith)+
    moreover have "wrapInt E (uint (DataLen hdr) + 11) = uint (DataLen hdr) + 11"
      by (rule wrapInt_64 [OF True]) (use b in linarith)+
    ultimately show ?thesis by (simp add: toInt_def)
  next
    case False
    with assms have "int (unat (DataLen hdr) + 11) < int 2147483648"
      unfolding noOverflow_def gaseousHelloHeaderSize_def of_nat_less_iff by simp
    then have s: "uint (DataLen hdr) + 11 < 2147483648" by simp
    then have "wrapInt E (uint (DataLen hdr)) = uint (DataLen hdr)"
      by (intro wrapInt_small) (use b in linarith)+
    moreover from s have "wrapInt E (uint (DataLen hdr) + 11) = uint (DataLen hdr) + 11"
      by (intro wrapInt_small) (use b in linarith)+
    ultimately show ?thesis by (simp add: toInt_def)
  qed
  then show "addInt E (toInt E (DataLen hdr)) 11 = uint (DataLen hdr) + 11"
    and "addInt E 11 (toInt E (DataLen hdr)) = uint (DataLen hdr) + 11"
    by (simp_all add: addInt_def add.commute)
qed

lemma frame_end_wraps:
  assumes "arch E = Bits32" "0x7ffffff5 \<le> unat (DataLen hdr)"
  shows "addInt E (toInt E (DataLen hdr)) 11 < 11"
    and "addInt E 11 (toInt E (DataLen hdr)) < 11"
proof -
  define d where "d = uint (DataLen hdr)"
  have b: "d < 4294967296" unfolding d_def by (rule uint32_bound)
  from assms(2) have "int 2147483637 \<le> int (unat (DataLen hdr))"
    unfolding of_nat_le_iff by simp
  then have lo: "2147483637 \<le> d" unfolding d_def by simp
  have w: "wrapInt E x = (x + 2147483648) mod 4294967296 - 2147483648" for x
    using assms(1) by (simp add: wrapInt_def IntSize_def)
  have t: "toInt E (DataLen hdr) = (if d < 2147483648 then d else d - 4294967296)"
  proof (cases "d < 2147483648")
    case True
    with lo show ?thesis by (simp add: toInt_def d_def [symmetric] wrapInt_small)
  next
    case False
    then have "(d + 2147483648) mod 4294967296 = d + 2147483648 - 4294967296"
      using b by (intro mod_once) simp_all
    with False show ?thesis by (simp add: toInt_def d_def [symmetric] w)
  qed
  have "wrapInt E (toInt E (DataLen hdr) + 11) < 11"
  proof (cases "d < 2147483648")
    case True
    then have "(d + 11 + 2147483648) mod 4294967296 = d + 11 + 2147483648 - 4294967296"
      using lo by (intro mod_once) simp_all
    with True t show ?thesis by (simp add: w)
  next
    case False
    with b have "- 2147483648 \<le> d - 4294967296 + 11" "d - 4294967296 + 11 < 11" by simp_all
    then have "wrapInt E (d - 4294967296 + 11) = d - 4294967296 + 11"
      by (intro wrapInt_small) simp_all
    with False t b show ?thesis by simp
  qed
  then show "addInt E (toInt E (DataLen hdr)) 11 < 11"
    and "addInt E 11 (toInt E (DataLen hdr)) < 11"
    by (simp_all add: addInt_def add.commute)
qed

lemma sliceInt_ok:
  "lo \<le> hi \<Longrightarrow> hi \<le> length s \<Longrightarrow> sliceInt s (int lo) (int hi) = Inr (take (hi - lo) (drop lo s))"
  by (simp add: sliceInt_def slice_def)

lemma sliceInt_panic: "hi < lo \<Longrightarrow> sliceInt s lo hi = Inl RuntimePanic"
  by (simp add: sliceInt_def)

text \<open>
  The three unpack functions after the first length check, with the header in hand: first
  as the code computes the bounds, then for a frame whose length check does not wrap, then
  for one whose length check wraps.
\<close>

lemma server_steps:
  assumes "11 \<le> length data" "readHeader data = Inr hdr"
  shows "UnpackServerHelloGaseous E reg data =
     (if Magic hdr \<noteq> GaseousHelloMagic then Inl ErrGaseousMagic
      else if Version hdr \<noteq> GaseousHelloVersion then Inl ErrGaseousVersion
      else if HelloType hdr \<noteq> GaseousHelloTypeServer then Inl ErrGaseousType
      else if reg (TemplID hdr) = None then Inl ErrGaseousTemplate
      else if addInt E (toInt E (DataLen hdr)) 11 > int (length data) then Inl ErrGaseousTrunc
      else bindE (sliceInt data 11 (addInt E 11 (toInt E (DataLen hdr))))
             (\<lambda>compressed.
           bindE (gaseousDecompressData E compressed (Algo hdr)) (\<lambda>decompressed.
             fillHelloTemplate (lookupTemplate reg (TemplID hdr)) decompressed)))"
  using assms
  by (simp add: UnpackServerHelloGaseous_def gaseousHelloHeaderSize_def)

lemma client_steps:
  assumes "11 \<le> length data" "readHeader data = Inr hdr"
  shows "UnpackClientHelloGaseous E reg (marker # data) =
     (if Magic hdr \<noteq> GaseousHelloMagic then Inl ErrGaseousMagic
      else if Version hdr \<noteq> GaseousHelloVersion then Inl ErrGaseousVersion
      else if HelloType hdr \<noteq> GaseousHelloTypeClient then Inl ErrGaseousType
      else if addInt E (toInt E (DataLen hdr)) 11 > int (length data) then Inl ErrGaseousTrunc
      else bindE (sliceInt data 11 (addInt E 11 (toInt E (DataLen hdr))))
             (\<lambda>compressed.
           if TemplID hdr = 0xffff then
             bindE (decompressFlate E compressed) (\<lambda>plain.
             bindE (external (json_Unmarshal E plain)) (\<lambda>params. buildUTLSClientHello E params))
           else
             bindE (if Algo hdr = GaseousCompressNone then Inr compressed
                    else if Algo hdr = GaseousCompressFlate then decompressFlate E compressed
                    else if Algo hdr = GaseousCompressGzip then decompressGzip E compressed
                    else if Algo hdr = GaseousCompressBrotli then decompressBrotli E compressed
                    else if Algo hdr = GaseousCompressZstd then decompressZstd E compressed
                    else Inl ErrGaseousAlgo) (\<lambda>plain.
               case lookupTemplate reg (TemplID hdr) of
                 None \<Rightarrow> Inl ErrGaseousTemplate
               | Some tmpl \<Rightarrow> fillHelloTemplate (Some tmpl) plain)))"
  using assms
  by (simp add: UnpackClientHelloGaseous_def gaseousHelloHeaderSize_def sliceFrom_def)

lemma client_v2_steps:
  assumes "11 \<le> length data" "readHeader data = Inr hdr"
  shows "UnpackClientHelloGaseous_v2 E reg (marker # data) =
     (if Magic hdr \<noteq> GaseousHelloMagic then Inl ErrGaseousMagic
      else if Version hdr \<noteq> GaseousHelloVersion then Inl ErrGaseousVersion
      else if HelloType hdr \<noteq> GaseousHelloTypeClient then Inl ErrGaseousType
      else if addInt E (toInt E (DataLen hdr)) 11 > int (length data) then Inl ErrGaseousTrunc
      else bindE (sliceInt data 11 (addInt E 11 (toInt E (DataLen hdr))))
             (\<lambda>compressed.
           bindE (clientSwitch_v2 E compressed (Algo hdr)) (\<lambda>plain.
             if TemplID hdr = 0xffff then
               bindE (external (json_Unmarshal E plain)) (\<lambda>params. buildUTLSClientHello_v2 E params)
             else
               case lookupTemplate reg (TemplID hdr) of
                 None \<Rightarrow> Inl ErrGaseousTemplate
               | Some tmpl \<Rightarrow> fillHelloTemplate (Some tmpl) plain)))"
  using assms
  by (simp add: UnpackClientHelloGaseous_v2_def clientSwitch_v2_def gaseousHelloHeaderSize_def
      sliceFrom_def)

lemma len_cmp: "(int n < uint (d :: uint32) + 11) = (n < unat d + 11)"
  using of_nat_less_iff [of n "unat d + 11", where 'a = int] by simp

lemma payload_slice:
  assumes "noOverflow E hdr" "unat (DataLen hdr) + 11 \<le> length data"
  shows "sliceInt data 11 (addInt E 11 (toInt E (DataLen hdr)))
         = Inr (take (unat (DataLen hdr)) (drop 11 data))"
  unfolding frame_end(2) [OF assms(1)]
  using assms(2) sliceInt_ok [of 11 "unat (DataLen hdr) + 11" data] by simp

lemma server_checks:
  assumes "11 \<le> length data" "readHeader data = Inr hdr" "noOverflow E hdr"
  shows "UnpackServerHelloGaseous E reg data =
     (if Magic hdr \<noteq> GaseousHelloMagic then Inl ErrGaseousMagic
      else if Version hdr \<noteq> GaseousHelloVersion then Inl ErrGaseousVersion
      else if HelloType hdr \<noteq> GaseousHelloTypeServer then Inl ErrGaseousType
      else if reg (TemplID hdr) = None then Inl ErrGaseousTemplate
      else if unat (DataLen hdr) + 11 > length data then Inl ErrGaseousTrunc
      else bindE (gaseousDecompressData E (take (unat (DataLen hdr)) (drop 11 data)) (Algo hdr))
             (\<lambda>decompressed. fillHelloTemplate (lookupTemplate reg (TemplID hdr)) decompressed))"
  unfolding server_steps [OF assms(1,2)] frame_end(1) [OF assms(3)] len_cmp
  by (simp add: payload_slice [OF assms(3)])

lemma client_checks:
  assumes "11 \<le> length data" "readHeader data = Inr hdr" "noOverflow E hdr"
  shows "UnpackClientHelloGaseous E reg (marker # data) =
     (if Magic hdr \<noteq> GaseousHelloMagic then Inl ErrGaseousMagic
      else if Version hdr \<noteq> GaseousHelloVersion then Inl ErrGaseousVersion
      else if HelloType hdr \<noteq> GaseousHelloTypeClient then Inl ErrGaseousType
      else if unat (DataLen hdr) + 11 > length data then Inl ErrGaseousTrunc
      else if TemplID hdr = 0xffff then
        bindE (decompressFlate E (take (unat (DataLen hdr)) (drop 11 data))) (\<lambda>plain.
        bindE (external (json_Unmarshal E plain)) (\<lambda>params. buildUTLSClientHello E params))
      else
        bindE (if Algo hdr = GaseousCompressNone then Inr (take (unat (DataLen hdr)) (drop 11 data))
               else if Algo hdr = GaseousCompressFlate
                 then decompressFlate E (take (unat (DataLen hdr)) (drop 11 data))
               else if Algo hdr = GaseousCompressGzip
                 then decompressGzip E (take (unat (DataLen hdr)) (drop 11 data))
               else if Algo hdr = GaseousCompressBrotli
                 then decompressBrotli E (take (unat (DataLen hdr)) (drop 11 data))
               else if Algo hdr = GaseousCompressZstd
                 then decompressZstd E (take (unat (DataLen hdr)) (drop 11 data))
               else Inl ErrGaseousAlgo) (\<lambda>plain.
          case lookupTemplate reg (TemplID hdr) of
            None \<Rightarrow> Inl ErrGaseousTemplate
          | Some tmpl \<Rightarrow> fillHelloTemplate (Some tmpl) plain))"
  unfolding client_steps [OF assms(1,2)] frame_end(1) [OF assms(3)] len_cmp
  by (simp add: payload_slice [OF assms(3)])

lemma client_v2_checks:
  assumes "11 \<le> length data" "readHeader data = Inr hdr" "noOverflow E hdr"
  shows "UnpackClientHelloGaseous_v2 E reg (marker # data) =
     (if Magic hdr \<noteq> GaseousHelloMagic then Inl ErrGaseousMagic
      else if Version hdr \<noteq> GaseousHelloVersion then Inl ErrGaseousVersion
      else if HelloType hdr \<noteq> GaseousHelloTypeClient then Inl ErrGaseousType
      else if unat (DataLen hdr) + 11 > length data then Inl ErrGaseousTrunc
      else
        bindE (clientSwitch_v2 E (take (unat (DataLen hdr)) (drop 11 data)) (Algo hdr))
          (\<lambda>plain.
            if TemplID hdr = 0xffff then
              bindE (external (json_Unmarshal E plain)) (\<lambda>params. buildUTLSClientHello_v2 E params)
            else
              case lookupTemplate reg (TemplID hdr) of
                None \<Rightarrow> Inl ErrGaseousTemplate
              | Some tmpl \<Rightarrow> fillHelloTemplate (Some tmpl) plain))"
  unfolding client_v2_steps [OF assms(1,2)] frame_end(1) [OF assms(3)] len_cmp
  by (simp add: payload_slice [OF assms(3)])

text \<open>On a 32-bit build a length of \<open>0x7ffffff5\<close> or more passes the check and the slice panics.\<close>

lemma overflow_panics:
  assumes "11 \<le> length data" "readHeader data = Inr hdr"
    and "arch E = Bits32" "0x7ffffff5 \<le> unat (DataLen hdr)"
    and "Magic hdr = GaseousHelloMagic" "Version hdr = GaseousHelloVersion"
  shows "HelloType hdr = GaseousHelloTypeClient \<Longrightarrow>
           UnpackClientHelloGaseous E reg (marker # data) = Inl RuntimePanic"
    and "HelloType hdr = GaseousHelloTypeClient \<Longrightarrow>
           UnpackClientHelloGaseous_v2 E reg (marker # data) = Inl RuntimePanic"
    and "HelloType hdr = GaseousHelloTypeServer \<Longrightarrow> reg (TemplID hdr) \<noteq> None \<Longrightarrow>
           UnpackServerHelloGaseous E reg data = Inl RuntimePanic"
proof -
  note w = frame_end_wraps [OF assms(3,4)]
  from w(1) assms(1)
  have c: "\<not> int (length data) < addInt E (toInt E (DataLen hdr)) 11" by simp
  from w(2) have p: "sliceInt data 11 (addInt E 11 (toInt E (DataLen hdr))) = Inl RuntimePanic"
    by (rule sliceInt_panic)
  show "HelloType hdr = GaseousHelloTypeClient \<Longrightarrow>
           UnpackClientHelloGaseous E reg (marker # data) = Inl RuntimePanic"
    unfolding client_steps [OF assms(1,2)] using c p assms(5,6) by simp
  show "HelloType hdr = GaseousHelloTypeClient \<Longrightarrow>
           UnpackClientHelloGaseous_v2 E reg (marker # data) = Inl RuntimePanic"
    unfolding client_v2_steps [OF assms(1,2)] using c p assms(5,6) by simp
  show "HelloType hdr = GaseousHelloTypeServer \<Longrightarrow> reg (TemplID hdr) \<noteq> None \<Longrightarrow>
           UnpackServerHelloGaseous E reg data = Inl RuntimePanic"
    unfolding server_steps [OF assms(1,2)] using c p assms(5,6) by simp
qed

lemma u16_roundtrip:
  "ucast (ucast v :: 8 word) OR push_bit 8 (ucast (ucast (drop_bit 8 v) :: 8 word)) = (v :: 16 word)"
  by (rule bit_word_eqI) (auto simp: bit_simps)

lemma u32_roundtrip:
  "ucast (ucast v :: 8 word) OR push_bit 8 (ucast (ucast (drop_bit 8 v) :: 8 word))
   OR push_bit 16 (ucast (ucast (drop_bit 16 v) :: 8 word))
   OR push_bit 24 (ucast (ucast (drop_bit 24 v) :: 8 word)) = (v :: 32 word)"
proof (rule bit_word_eqI)
  fix n :: nat
  assume "n < LENGTH(32)"
  then show "bit (ucast (ucast v :: 8 word) OR push_bit 8 (ucast (ucast (drop_bit 8 v) :: 8 word))
   OR push_bit 16 (ucast (ucast (drop_bit 16 v) :: 8 word))
   OR push_bit 24 (ucast (ucast (drop_bit 24 v) :: 8 word)) :: 32 word) n = bit v n"
    by (cases "24 \<le> n"; cases "16 \<le> n"; cases "8 \<le> n") (auto simp: bit_simps)
qed

text \<open>The header of a packed frame reads back as it was written.\<close>

lemma packFrame_Cons:
  "packFrame algo templID compressed =
     recordTypeGaseousHello #
       (GaseousHelloMagic @ [GaseousHelloVersion, algo, GaseousHelloTypeClient]
        @ PutUint16 templID @ PutUint32 (of_nat (length compressed)) @ compressed)"
  by (simp add: packFrame_def)

lemma readHeader_packFrame:
  "readHeader (GaseousHelloMagic @ [GaseousHelloVersion, algo, GaseousHelloTypeClient]
        @ PutUint16 templID @ PutUint32 n @ compressed)
   = Inr \<lparr>Magic = GaseousHelloMagic, Version = GaseousHelloVersion, Algo = algo,
          HelloType = GaseousHelloTypeClient, TemplID = templID, DataLen = n\<rparr>"
  by (simp add: readHeader_ok GaseousHelloMagic_def PutUint16_def PutUint32_def
      u16_roundtrip u32_roundtrip)

lemma gaseousDecompressData_unknown:
  "7 < unat algo \<Longrightarrow> gaseousDecompressData E payload algo = Inl ErrGaseousAlgo"
  by (auto simp: gaseousDecompressData_def const_defs)

subsection \<open>Frame validation\<close>

text \<open>
  Claim C4 (header integrity). Let the input hold at least the 11 header bytes (after the
  marker byte, for the two ClientHello functions, which drop their first byte unread). If
  one of the two magic bytes is not that of "GS", all three unpack functions return
  \<open>ErrGaseousMagic\<close>; if the magic is right and the version byte is not 1, they return
  \<open>ErrGaseousVersion\<close>; if magic and version are right and the type byte is not the one the
  function expects (2 for the ServerHello function, 1 for the ClientHello functions), the
  function returns \<open>ErrGaseousType\<close>.
\<close>

theorem header_integrity:
  assumes "gaseousHelloHeaderSize \<le> length data"
  shows "(data ! 0 \<noteq> 0x47 \<or> data ! 1 \<noteq> 0x53 \<longrightarrow>
            UnpackServerHelloGaseous E reg data = Inl ErrGaseousMagic
          \<and> UnpackClientHelloGaseous E reg (marker # data) = Inl ErrGaseousMagic
          \<and> UnpackClientHelloGaseous_v2 E reg (marker # data) = Inl ErrGaseousMagic)
       \<and> (data ! 0 = 0x47 \<and> data ! 1 = 0x53 \<and> data ! 2 \<noteq> GaseousHelloVersion \<longrightarrow>
            UnpackServerHelloGaseous E reg data = Inl ErrGaseousVersion
          \<and> UnpackClientHelloGaseous E reg (marker # data) = Inl ErrGaseousVersion
          \<and> UnpackClientHelloGaseous_v2 E reg (marker # data) = Inl ErrGaseousVersion)
       \<and> (data ! 0 = 0x47 \<and> data ! 1 = 0x53 \<and> data ! 2 = GaseousHelloVersion
            \<and> data ! 4 \<noteq> GaseousHelloTypeServer \<longrightarrow>
            UnpackServerHelloGaseous E reg data = Inl ErrGaseousType)
       \<and> (data ! 0 = 0x47 \<and> data ! 1 = 0x53 \<and> data ! 2 = GaseousHelloVersion
            \<and> data ! 4 \<noteq> GaseousHelloTypeClient \<longrightarrow>
            UnpackClientHelloGaseous E reg (marker # data) = Inl ErrGaseousType
          \<and> UnpackClientHelloGaseous_v2 E reg (marker # data) = Inl ErrGaseousType)"
proof -
  from assms have len: "11 \<le> length data"
    by (simp add: gaseousHelloHeaderSize_def)
  then obtain hdr where h: "readHeader data = Inr hdr" "Magic hdr = take 2 data"
    "Version hdr = data ! 2" "Algo hdr = data ! 3" "HelloType hdr = data ! 4"
    by (rule readHeader_fields)
  from len have m: "(take 2 data = GaseousHelloMagic) = (data ! 0 = 0x47 \<and> data ! 1 = 0x53)"
    by (simp add: take2_magic)
  show ?thesis
    unfolding server_steps [OF len h(1)] client_steps [OF len h(1)]
      client_v2_steps [OF len h(1)] h(2-5) m
    by simp
qed

theorem header_integrity_witness:
  "UnpackServerHelloGaseous testEnv emptyRegistry [0x47, 0x54, 1, 0, 2, 0, 0, 0, 0, 0, 0]
     = Inl ErrGaseousMagic
   \<and> UnpackClientHelloGaseous testEnv emptyRegistry [0xfe, 0x48, 0x53, 1, 0, 1, 0, 0, 0, 0, 0, 0]
     = Inl ErrGaseousMagic
   \<and> UnpackClientHelloGaseous_v2 testEnv emptyRegistry [0xfe, 0x47, 0x53, 2, 0, 1, 0, 0, 0, 0, 0, 0]
     = Inl ErrGaseousVersion
   \<and> UnpackServerHelloGaseous testEnv emptyRegistry [0x47, 0x53, 1, 0, 1, 0, 0, 0, 0, 0, 0]
     = Inl ErrGaseousType
   \<and> UnpackClientHelloGaseous testEnv emptyRegistry [0xfe, 0x47, 0x53, 1, 0, 2, 0, 0, 0, 0, 0, 0]
     = Inl ErrGaseousType"
  using header_integrity [where data = "[0x47, 0x54, 1, 0, 2, 0, 0, 0, 0, 0, 0]" and E = testEnv and reg = emptyRegistry and marker = "0xfe"]
    header_integrity [where data = "[0x48, 0x53, 1, 0, 1, 0, 0, 0, 0, 0, 0]" and E = testEnv and reg = emptyRegistry and marker = "0xfe"]
    header_integrity [where data = "[0x47, 0x53, 2, 0, 1, 0, 0, 0, 0, 0, 0]" and E = testEnv and reg = emptyRegistry and marker = "0xfe"]
    header_integrity [where data = "[0x47, 0x53, 1, 0, 1, 0, 0, 0, 0, 0, 0]" and E = testEnv and reg = emptyRegistry and marker = "0xfe"]
    header_integrity [where data = "[0x47, 0x53, 1, 0, 2, 0, 0, 0, 0, 0, 0]" and E = testEnv and reg = emptyRegistry and marker = "0xfe"]
  by (simp add: const_defs)




subsection \<open>Unknown algorithm\<close>

text \<open>
  Where the algorithm byte is looked at, a value above 7 is \<open>ErrGaseousAlgo\<close>:
  in \<open>gaseousDecompressData\<close> and in the switch of the second ClientHello function. For a
  frame that passes the magic, version, type and length checks and carries such a byte, the
  second ClientHello function returns \<open>ErrGaseousAlgo\<close> for every template id, the first
  ClientHello function for every template id but \<open>0xffff\<close>, and the ServerHello function
  when the template id is registered (when it is not, \<open>ErrGaseousTemplate\<close> comes first).
\<close>

lemma clientSwitch_v2_unknown:
  "7 < unat algo \<Longrightarrow> clientSwitch_v2 E payload algo = Inl ErrGaseousAlgo"
  by (auto simp: clientSwitch_v2_def const_defs)

lemma unknown_algorithm_checked:
  assumes "gaseousHelloHeaderSize \<le> length data" "readHeader data = Inr hdr"
    and "Magic hdr = GaseousHelloMagic" "Version hdr = GaseousHelloVersion"
    and "noOverflow E hdr" "unat (DataLen hdr) + gaseousHelloHeaderSize \<le> length data"
    and "7 < unat (Algo hdr)"
  shows "HelloType hdr = GaseousHelloTypeClient \<Longrightarrow>
           UnpackClientHelloGaseous_v2 E reg (marker # data) = Inl ErrGaseousAlgo"
    and "HelloType hdr = GaseousHelloTypeClient \<Longrightarrow> TemplID hdr \<noteq> 0xffff \<Longrightarrow>
           UnpackClientHelloGaseous E reg (marker # data) = Inl ErrGaseousAlgo"
    and "HelloType hdr = GaseousHelloTypeServer \<Longrightarrow>
           UnpackServerHelloGaseous E reg data =
             (if reg (TemplID hdr) = None then Inl ErrGaseousTemplate else Inl ErrGaseousAlgo)"
proof -
  from assms(1) have len: "11 \<le> length data" by (simp add: gaseousHelloHeaderSize_def)
  from assms(6) have fits: "\<not> length data < unat (DataLen hdr) + 11"
    by (simp add: gaseousHelloHeaderSize_def)
  from assms(7) have ne: "Algo hdr \<noteq> GaseousCompressNone" "Algo hdr \<noteq> GaseousCompressFlate"
    "Algo hdr \<noteq> GaseousCompressGzip" "Algo hdr \<noteq> GaseousCompressBrotli"
    "Algo hdr \<noteq> GaseousCompressZstd"
    by (auto simp: const_defs)
  show "HelloType hdr = GaseousHelloTypeClient \<Longrightarrow>
           UnpackClientHelloGaseous_v2 E reg (marker # data) = Inl ErrGaseousAlgo"
    unfolding client_v2_checks [OF len assms(2,5)]
    using assms(3,4,7) fits by (simp add: clientSwitch_v2_unknown)
  show "HelloType hdr = GaseousHelloTypeClient \<Longrightarrow> TemplID hdr \<noteq> 0xffff \<Longrightarrow>
           UnpackClientHelloGaseous E reg (marker # data) = Inl ErrGaseousAlgo"
    unfolding client_checks [OF len assms(2,5)]
    using assms(3,4) fits ne by simp
  show "HelloType hdr = GaseousHelloTypeServer \<Longrightarrow>
           UnpackServerHelloGaseous E reg data =
             (if reg (TemplID hdr) = None then Inl ErrGaseousTemplate else Inl ErrGaseousAlgo)"
    unfolding server_checks [OF len assms(2,5)]
    using assms(3,4,7) fits by (simp add: gaseousDecompressData_unknown)
qed

lemma buildUTLSClientHello_not_algo: "buildUTLSClientHello E params \<noteq> Inl ErrGaseousAlgo"
  by (auto simp: buildUTLSClientHello_def bindE_def external_def called_def
      split: option.splits sum.splits outcome.splits)

text \<open>
  Claim C2 (unknown algorithm) does not hold of the first ClientHello function
  (g\_client.go) in the case the claim names, the fingerprint mode. A frame with template id
  \<open>0xffff\<close> that passes the magic, version, type and length checks is inflated with Flate
  and handed to JSON and uTLS before the switch over the algorithm byte is reached: the
  outcome does not depend on the algorithm byte, and it is never \<open>ErrGaseousAlgo\<close>, whatever
  that byte is.
\<close>

theorem fingerprint_skips_algorithm:
  assumes "gaseousHelloHeaderSize \<le> length data" "readHeader data = Inr hdr"
    and "Magic hdr = GaseousHelloMagic" "Version hdr = GaseousHelloVersion"
    and "HelloType hdr = GaseousHelloTypeClient" "TemplID hdr = 0xffff"
    and "arch E = Bits64 \<or> unat (DataLen hdr) + gaseousHelloHeaderSize < 2 ^ 31"
    and "unat (DataLen hdr) + gaseousHelloHeaderSize \<le> length data"
  shows "UnpackClientHelloGaseous E reg (marker # data) =
           bindE (decompressFlate E (take (unat (DataLen hdr)) (drop gaseousHelloHeaderSize data)))
             (\<lambda>plain.
           bindE (external (json_Unmarshal E plain)) (\<lambda>params. buildUTLSClientHello E params))
       \<and> UnpackClientHelloGaseous E reg (marker # data) \<noteq> Inl ErrGaseousAlgo"
proof -
  from assms(1) have len: "11 \<le> length data" by (simp add: gaseousHelloHeaderSize_def)
  from assms(7) have nov: "noOverflow E hdr" by (simp add: noOverflow_def)
  from assms(8) have fits: "\<not> length data < unat (DataLen hdr) + 11"
    by (simp add: gaseousHelloHeaderSize_def)
  have eq: "UnpackClientHelloGaseous E reg (marker # data) =
           bindE (decompressFlate E (take (unat (DataLen hdr)) (drop gaseousHelloHeaderSize data)))
             (\<lambda>plain.
           bindE (external (json_Unmarshal E plain)) (\<lambda>params. buildUTLSClientHello E params))"
    unfolding client_checks [OF len assms(2) nov]
    using assms(3-6) fits by (simp add: gaseousHelloHeaderSize_def)
  have "bindE (decompressFlate E payload)
             (\<lambda>plain.
           bindE (external (json_Unmarshal E plain)) (\<lambda>params. buildUTLSClientHello E params))
        \<noteq> Inl ErrGaseousAlgo" for payload
    using buildUTLSClientHello_not_algo [of E]
    by (auto simp: bindE_def decompressFlate_def external_def split: sum.splits)
  with eq show ?thesis by simp
qed

theorem fingerprint_skips_algorithm_witness:
  "readHeader [0x47, 0x53, 1, 99, 1, 0xff, 0xff, 0, 0, 0, 0]
     = Inr \<lparr>Magic = GaseousHelloMagic, Version = GaseousHelloVersion, Algo = 99,
            HelloType = GaseousHelloTypeClient, TemplID = 0xffff, DataLen = 0\<rparr>
   \<and> UnpackClientHelloGaseous testEnv emptyRegistry
        [0xfe, 0x47, 0x53, 1, 99, 1, 0xff, 0xff, 0, 0, 0, 0]
     = Inl (ErrExternal ''unexpected EOF'')
   \<and> UnpackClientHelloGaseous testEnv emptyRegistry
        [0xfe, 0x47, 0x53, 1, 99, 1, 0xff, 0xff, 0, 0, 0, 2, 0x7b, 0x7d]
     = Inl (ErrExternal ''unexpected end of JSON input'')
   \<and> UnpackClientHelloGaseous_v2 testEnv emptyRegistry
        [0xfe, 0x47, 0x53, 1, 99, 1, 0xff, 0xff, 0, 0, 0, 0]
     = Inl ErrGaseousAlgo"
proof -
  have h0: "readHeader [0x47, 0x53, 1, 99, 1, 0xff, 0xff, 0, 0, 0, 0]
     = Inr \<lparr>Magic = GaseousHelloMagic, Version = GaseousHelloVersion, Algo = 99,
            HelloType = GaseousHelloTypeClient, TemplID = 0xffff, DataLen = 0\<rparr>"
    by (simp add: readHeader_ok const_defs)
  have h2: "readHeader [0x47, 0x53, 1, 99, 1, 0xff, 0xff, 0, 0, 0, 2, 0x7b, 0x7d]
     = Inr \<lparr>Magic = GaseousHelloMagic, Version = GaseousHelloVersion, Algo = 99,
            HelloType = GaseousHelloTypeClient, TemplID = 0xffff, DataLen = 2\<rparr>"
    by (simp add: readHeader_ok const_defs)
  have a: "UnpackClientHelloGaseous testEnv emptyRegistry
        [0xfe, 0x47, 0x53, 1, 99, 1, 0xff, 0xff, 0, 0, 0, 0]
     = Inl (ErrExternal ''unexpected EOF'')"
    using fingerprint_skips_algorithm [OF _ h0, where E = testEnv and reg = emptyRegistry
        and marker = "0xfe"]
    by (simp add: const_defs decompressFlate_def testEnv_def testRead_def)
  have b: "UnpackClientHelloGaseous testEnv emptyRegistry
        [0xfe, 0x47, 0x53, 1, 99, 1, 0xff, 0xff, 0, 0, 0, 2, 0x7b, 0x7d]
     = Inl (ErrExternal ''unexpected end of JSON input'')"
    using fingerprint_skips_algorithm [OF _ h2, where E = testEnv and reg = emptyRegistry
        and marker = "0xfe"]
    by (simp add: const_defs decompressFlate_def testEnv_def testRead_def)
  have c: "UnpackClientHelloGaseous_v2 testEnv emptyRegistry
        [0xfe, 0x47, 0x53, 1, 99, 1, 0xff, 0xff, 0, 0, 0, 0]
     = Inl ErrGaseousAlgo"
    by (simp add: client_v2_checks [OF _ h0] noOverflow_def testEnv_def
        clientSwitch_v2_unknown)
  from h0 a b c show ?thesis by simp
qed

subsection \<open>The any-hello dispatch\<close>

text \<open>
  Claim C8 (server-side dispatch on the type byte). For an input that holds the 11 header
  bytes, \<open>UnpackAnyGaseousHello\<close> looks at byte 4 only: for 1 it returns type 1, no bytes and
  the error "not implemented: ClientHello unpack on server side", whatever the rest of the
  input, the registry and the codecs are; for 2 it returns type 2 with the outcome of
  \<open>UnpackServerHelloGaseous\<close>; for any other value it returns that value with
  \<open>ErrGaseousType\<close>.
\<close>

theorem any_hello_dispatch:
  assumes "gaseousHelloHeaderSize \<le> length data"
  shows "(data ! 4 = GaseousHelloTypeClient \<longrightarrow>
            UnpackAnyGaseousHello E reg data =
              (1, Inl (ErrNew ''not implemented: ClientHello unpack on server side'')))
       \<and> (data ! 4 = GaseousHelloTypeServer \<longrightarrow>
            UnpackAnyGaseousHello E reg data = (2, UnpackServerHelloGaseous E reg data))
       \<and> (data ! 4 \<noteq> GaseousHelloTypeClient \<and> data ! 4 \<noteq> GaseousHelloTypeServer \<longrightarrow>
            UnpackAnyGaseousHello E reg data = (data ! 4, Inl ErrGaseousType))"
  using assms by (simp add: UnpackAnyGaseousHello_def at_def const_defs)

theorem any_hello_dispatch_witness:
  "UnpackAnyGaseousHello testEnv emptyRegistry [0x47, 0x53, 1, 0, 1, 0, 0, 0, 0, 0, 0]
     = (1, Inl (ErrNew ''not implemented: ClientHello unpack on server side''))
   \<and> UnpackAnyGaseousHello testEnv emptyRegistry [0x47, 0x53, 1, 0, 2, 0, 0, 0, 0, 0, 0]
     = (2, UnpackServerHelloGaseous testEnv emptyRegistry [0x47, 0x53, 1, 0, 2, 0, 0, 0, 0, 0, 0])
   \<and> UnpackAnyGaseousHello testEnv emptyRegistry [0x47, 0x53, 1, 0, 7, 0, 0, 0, 0, 0, 0]
     = (7, Inl ErrGaseousType)"
  using any_hello_dispatch [of "[0x47, 0x53, 1, 0, 1, 0, 0, 0, 0, 0, 0]" testEnv emptyRegistry]
    any_hello_dispatch [of "[0x47, 0x53, 1, 0, 2, 0, 0, 0, 0, 0, 0]" testEnv emptyRegistry]
    any_hello_dispatch [of "[0x47, 0x53, 1, 0, 7, 0, 0, 0, 0, 0, 0]" testEnv emptyRegistry]
  by (simp add: const_defs)

subsection \<open>Packed frames\<close>

lemma unat_of_nat_length:
  "length (xs :: 'a list) < 2 ^ 32 \<Longrightarrow> unat (of_nat (length xs) :: uint32) = length xs"
  by (simp add: unat_of_nat)

lemma unat_of_nat_le: "unat (of_nat n :: uint32) \<le> n"
  by (simp add: unat_of_nat)

lemma unpack_v2_packFrame:
  assumes "length payload < 2 ^ 32" "arch E = Bits64 \<or> length payload + 11 < 2 ^ 31"
  shows "UnpackClientHelloGaseous_v2 E reg (packFrame algo templID payload) =
     bindE (clientSwitch_v2 E payload algo) (\<lambda>plain.
       if templID = 0xffff then
         bindE (external (json_Unmarshal E plain)) (\<lambda>params. buildUTLSClientHello_v2 E params)
       else
         case lookupTemplate reg templID of
           None \<Rightarrow> Inl ErrGaseousTemplate
         | Some tmpl \<Rightarrow> fillHelloTemplate (Some tmpl) plain)"
proof -
  have len: "11 \<le> length (GaseousHelloMagic @ [GaseousHelloVersion, algo, GaseousHelloTypeClient]
        @ PutUint16 templID @ PutUint32 (of_nat (length payload)) @ payload)"
    by (simp add: GaseousHelloMagic_def PutUint16_def PutUint32_def)
  from assms have nov: "noOverflow E \<lparr>Magic = GaseousHelloMagic, Version = GaseousHelloVersion,
      Algo = algo, HelloType = GaseousHelloTypeClient, TemplID = templID,
      DataLen = of_nat (length payload)\<rparr>"
    by (auto simp: noOverflow_def unat_of_nat_length gaseousHelloHeaderSize_def)
  show ?thesis
    unfolding packFrame_Cons client_v2_checks [OF len readHeader_packFrame nov]
    using assms(1)
    by (simp add: unat_of_nat_length GaseousHelloMagic_def PutUint16_def PutUint32_def
        cong del: if_weak_cong)
qed

lemma packWithFirst_frame:
  "packWithFirst fs templID payload = Inr frame \<Longrightarrow> \<exists>algo compressed. frame = packFrame algo templID compressed"
  by (induction fs templID payload rule: packWithFirst.induct)
     (auto split: sum.splits if_splits)

lemma pack_v2_frame:
  assumes "PackClientHelloGaseous_v2 E sni alpn hello = Inr frame"
  shows "\<exists>algo templID compressed. frame = packFrame algo templID compressed"
proof (cases "matchUTLSClientHello_v2 E hello")
  case (Pair specStr params)
  show ?thesis
  proof (cases "specStr = []")
    case True
    with Pair assms have "packWithFirst (compressFuncs E) 0 hello = Inr frame"
      by (simp add: PackClientHelloGaseous_v2_def)
    then show ?thesis by (blast dest: packWithFirst_frame)
  next
    case False
    with Pair assms obtain pb where "packWithFirst (compressFuncs E) 0xffff pb = Inr frame"
      by (cases "json_Marshal E params") (auto simp: PackClientHelloGaseous_v2_def)
    then show ?thesis by (blast dest: packWithFirst_frame)
  qed
qed

lemma pack_frame:
  assumes "PackClientHelloGaseous E sni alpn hello = Inr frame"
  shows "\<exists>algo templID compressed. frame = packFrame algo templID compressed"
proof (cases "matchUTLSClientHello E hello sni alpn")
  case (Pair specStr params)
  show ?thesis
  proof (cases "specStr = []")
    case True
    with Pair assms show ?thesis
      by (cases "compressBrotli E hello") (auto simp: PackClientHelloGaseous_def)
  next
    case False
    show ?thesis
    proof (cases "json_Marshal E params")
      case (Inl m)
      with Pair False assms show ?thesis by (simp add: PackClientHelloGaseous_def)
    next
      case (Inr pb)
      with Pair False assms show ?thesis
        by (cases "compressFlate E pb") (auto simp: PackClientHelloGaseous_def)
    qed
  qed
qed

lemma parse_too_short: "length data < 9 \<Longrightarrow> parseClientHello data = Inl (ErrNew ''too short'')"
  by (simp add: parseClientHello_def)

lemma pack_v2_test: "PackClientHelloGaseous_v2 testEnv [] [] [0x41] = Inr (packFrame GaseousCompressGzip 0 [0x41])"
  by (simp add: PackClientHelloGaseous_v2_def matchUTLSClientHello_v2_def parse_too_short
      compressFuncs_def compressFlate_def compressGzip_def testEnv_def testStore_def)

text \<open>
  Claim C10 (\<open>IsGaseousHello\<close>). \<open>IsGaseousHello\<close> is true exactly for an input of at least
  two bytes that starts with "GS". Every frame that either version of
  \<open>PackClientHelloGaseous\<close> returns starts with the marker byte \<open>0xfe\<close> and has the magic
  after it, so \<open>IsGaseousHello\<close> is false on the frame and true on the frame without its
  first byte.
\<close>

theorem is_gaseous_hello:
  "IsGaseousHello data = (length data \<ge> 2 \<and> data ! 0 = 0x47 \<and> data ! 1 = 0x53)
   \<and> (PackClientHelloGaseous E sni alpn hello = Inr frame \<longrightarrow>
        hd frame = 0xfe \<and> IsGaseousHello (tl frame) \<and> \<not> IsGaseousHello frame)
   \<and> (PackClientHelloGaseous_v2 E sni alpn hello = Inr frame \<longrightarrow>
        hd frame = 0xfe \<and> IsGaseousHello (tl frame) \<and> \<not> IsGaseousHello frame)"
proof -
  have a: "IsGaseousHello data = (length data \<ge> 2 \<and> data ! 0 = 0x47 \<and> data ! 1 = 0x53)"
    using take2_magic [of data] by (auto simp: IsGaseousHello_def)
  have b: "hd (packFrame algo templID compressed) = 0xfe
           \<and> IsGaseousHello (tl (packFrame algo templID compressed))
           \<and> \<not> IsGaseousHello (packFrame algo templID compressed)"
    for algo templID compressed
    by (simp add: packFrame_Cons IsGaseousHello_def const_defs)
  from a b pack_frame pack_v2_frame show ?thesis by metis
qed

theorem is_gaseous_hello_witness:
  "PackClientHelloGaseous_v2 testEnv [] [] [0x41]
     = Inr [0xfe, 0x47, 0x53, 1, 2, 1, 0, 0, 0, 0, 0, 1, 0x41]
   \<and> hd [0xfe, 0x47, 0x53, 1, 2, 1, 0, 0, 0, 0, 0, 1, 0x41 :: byte] = 0xfe
   \<and> \<not> IsGaseousHello [0xfe, 0x47, 0x53, 1, 2, 1, 0, 0, 0, 0, 0, 1, 0x41]
   \<and> IsGaseousHello [0x47, 0x53, 1, 2, 1, 0, 0, 0, 0, 0, 1, 0x41]"
proof -
  have p: "PackClientHelloGaseous_v2 testEnv [] [] [0x41]
     = Inr [0xfe, 0x47, 0x53, 1, 2, 1, 0, 0, 0, 0, 0, 1, 0x41]"
    by (simp add: pack_v2_test packFrame_def const_defs PutUint16_def PutUint32_def)
  show ?thesis
    using is_gaseous_hello [where E = testEnv and sni = "[]" and alpn = "[]" and hello = "[0x41]"
        and frame = "[0xfe, 0x47, 0x53, 1, 2, 1, 0, 0, 0, 0, 0, 1, 0x41]"
        and data = "[0x47, 0x53, 1, 2, 1, 0, 0, 0, 0, 0, 1, 0x41]"]
    by (simp add: p)
qed

text \<open>
  Claim C1 (raw-mode round trip) does not hold of the code: no unpack function treats
  template id 0 as raw. Each looks the id up in the registry like any other, so with the
  registry as the package leaves it a raw frame is \<open>ErrGaseousTemplate\<close>. The frame below has
  algorithm \<open>None\<close>, template id 0 and the one payload byte \<open>0x41\<close>; the last line packs that
  byte with the second version (the stand-in Gzip stores it) and unpacks the outcome.
\<close>

theorem raw_mode_needs_template:
  "UnpackClientHelloGaseous E emptyRegistry [0xfe, 0x47, 0x53, 1, 0, 1, 0, 0, 0, 0, 0, 1, 0x41]
     = Inl ErrGaseousTemplate
   \<and> UnpackClientHelloGaseous_v2 E emptyRegistry [0xfe, 0x47, 0x53, 1, 0, 1, 0, 0, 0, 0, 0, 1, 0x41]
     = Inl ErrGaseousTemplate
   \<and> UnpackServerHelloGaseous E emptyRegistry [0x47, 0x53, 1, 0, 2, 0, 0, 0, 0, 0, 1, 0x41]
     = Inl ErrGaseousTemplate
   \<and> bindE (PackClientHelloGaseous_v2 testEnv [] [] [0x41])
        (UnpackClientHelloGaseous_v2 testEnv emptyRegistry) = Inl ErrGaseousTemplate"
proof -
  have h1: "readHeader [0x47, 0x53, 1, 0, 1, 0, 0, 0, 0, 0, 1, 0x41]
     = Inr \<lparr>Magic = GaseousHelloMagic, Version = GaseousHelloVersion, Algo = 0,
            HelloType = GaseousHelloTypeClient, TemplID = 0, DataLen = 1\<rparr>"
    by (simp add: readHeader_ok const_defs)
  have h2: "readHeader [0x47, 0x53, 1, 0, 2, 0, 0, 0, 0, 0, 1, 0x41]
     = Inr \<lparr>Magic = GaseousHelloMagic, Version = GaseousHelloVersion, Algo = 0,
            HelloType = GaseousHelloTypeServer, TemplID = 0, DataLen = 1\<rparr>"
    by (simp add: readHeader_ok const_defs)
  have nov: "noOverflow E \<lparr>Magic = GaseousHelloMagic, Version = GaseousHelloVersion, Algo = 0,
            HelloType = GaseousHelloTypeClient, TemplID = 0, DataLen = 1\<rparr>"
    by (simp add: noOverflow_def gaseousHelloHeaderSize_def)
  have a: "UnpackClientHelloGaseous E emptyRegistry [0xfe, 0x47, 0x53, 1, 0, 1, 0, 0, 0, 0, 0, 1, 0x41]
     = Inl ErrGaseousTemplate"
    by (simp add: client_checks [OF _ h1 nov] emptyRegistry_def lookupTemplate_def
        GaseousCompressNone_def)
  have b: "UnpackClientHelloGaseous_v2 E emptyRegistry [0xfe, 0x47, 0x53, 1, 0, 1, 0, 0, 0, 0, 0, 1, 0x41]
     = Inl ErrGaseousTemplate"
    by (simp add: client_v2_checks [OF _ h1 nov] emptyRegistry_def lookupTemplate_def
        clientSwitch_v2_def GaseousCompressNone_def)
  have c: "UnpackServerHelloGaseous E emptyRegistry [0x47, 0x53, 1, 0, 2, 0, 0, 0, 0, 0, 1, 0x41]
     = Inl ErrGaseousTemplate"
    by (simp add: server_steps [OF _ h2] emptyRegistry_def)
  have d: "bindE (PackClientHelloGaseous_v2 testEnv [] [] [0x41])
        (UnpackClientHelloGaseous_v2 testEnv emptyRegistry) = Inl ErrGaseousTemplate"
    by (simp only: pack_v2_test bindE_Inr)
       (simp add: unpack_v2_packFrame clientSwitch_v2_def const_defs
        decompressGzip_def testEnv_def testRead_def emptyRegistry_def lookupTemplate_def)
  from a b c d show ?thesis by simp
qed

subsection \<open>The fallback chain\<close>

lemma packWithFirst_first:
  "map (\<lambda>(a, f). (a, f payload)) fs = tried @ (algo, Inr compressed) # rest \<Longrightarrow>
   list_all (\<lambda>(a, r). returnsError r) tried \<Longrightarrow>
   packWithFirst fs templID payload = Inr (packFrame algo templID compressed)"
proof (induction fs arbitrary: tried)
  case Nil
  then show ?case by simp
next
  case (Cons x fs)
  obtain a f where x: "x = (a, f)" by (cases x)
  show ?case
  proof (cases tried)
    case Nil
    with Cons.prems x show ?thesis by simp
  next
    case (Cons t ts)
    with Cons.prems x have "f payload = snd t" "returnsError (snd t)"
      "map (\<lambda>(a, f). (a, f payload)) fs = ts @ (algo, Inr compressed) # rest"
      "list_all (\<lambda>(a, r). returnsError r) ts"
      by (auto split: prod.splits)
    with Cons.IH [of ts] x show ?thesis
      by (auto simp: returnsError_def split: sum.splits)
  qed
qed

lemma packWithFirst_all_failed:
  "(packWithFirst fs templID payload = Inl (ErrNew ''all compression failed''))
   = list_all (\<lambda>(a, r). returnsError r) (map (\<lambda>(a, f). (a, f payload)) fs)"
  by (induction fs templID payload rule: packWithFirst.induct)
     (auto simp: returnsError_def split: sum.splits)

text \<open>The chain of the second packer, as the library calls it makes on a payload.\<close>

lemma chain_outcomes:
  "map (\<lambda>(a, f). (a, f payload)) (compressFuncs E) =
     [(1, external (flate_Write E payload)), (2, external (gzip_Write E payload)),
      (3, external (brotli_Write E payload)), (4, external (zstd_Write E payload)),
      (5, external (lz4_Write E payload)), (6, external (xz_Write E payload)),
      (7, compressLZ4Block E payload)]"
  by (simp add: compressFuncs_def const_defs compressFlate_def compressGzip_def
      compressBrotli_def compressZstd_def compressLZ4_def compressXZ_def)

text \<open>
  The first version of the packer has no chain: it asks Flate only for the parameters and
  Brotli only for the raw bytes, and that codec's error is the packer's error.
\<close>

lemma pack_single_codec:
  "fst (matchUTLSClientHello E hello sni alpn) = [] \<Longrightarrow>
   PackClientHelloGaseous E sni alpn hello =
     (case external (brotli_Write E hello) of
        Inl e \<Rightarrow> Inl e
      | Inr compressed \<Rightarrow> Inr (packFrame 3 0 compressed))"
  "matchUTLSClientHello E hello sni alpn = (specStr, params) \<Longrightarrow> specStr \<noteq> [] \<Longrightarrow>
   json_Marshal E params = Inr payload \<Longrightarrow>
   PackClientHelloGaseous E sni alpn hello =
     (case external (flate_Write E payload) of
        Inl e \<Rightarrow> Inl e
      | Inr compressed \<Rightarrow> Inr (packFrame 1 0xffff compressed))"
  by (cases "matchUTLSClientHello E hello sni alpn";
      auto simp: PackClientHelloGaseous_def bindE_def compressBrotli_def compressFlate_def
        const_defs split: sum.splits)+

text \<open>
  Claim C7 (compression fallback), as the code has it. In the second version of the
  packer (src/unnamed/part\_004) the payload is the raw hello with template id 0 when the
  matcher finds nothing, and the JSON of the parameters with template id \<open>0xffff\<close> when it
  finds a spec; the algorithms are tried in the order Flate (1), Gzip (2), Brotli (3), Zstd
  (4), LZ4 (5), XZ (6), LZ4Block (7), each by its own library call on the payload. If every
  algorithm before one returns an error and that one succeeds, the frame carries its id and
  its output; the error "all compression failed" is returned exactly when all seven return
  an error. The first version (g\_client.go) has no fallback: it compresses the raw hello
  with Brotli only and the parameters with Flate only, and when that codec fails the packer
  returns the codec's error.
\<close>

theorem compression_fallback:
  assumes "(fst (matchUTLSClientHello_v2 E hello) = [] \<and> templID = 0 \<and> payload = hello)
         \<or> (matchUTLSClientHello_v2 E hello = (specStr, params) \<and> specStr \<noteq> []
             \<and> json_Marshal E params = Inr payload \<and> templID = 0xffff)"
    and "outcomes =
           [(1, external (flate_Write E payload)), (2, external (gzip_Write E payload)),
            (3, external (brotli_Write E payload)), (4, external (zstd_Write E payload)),
            (5, external (lz4_Write E payload)), (6, external (xz_Write E payload)),
            (7, compressLZ4Block E payload)]"
  shows "(outcomes = tried @ (algo, Inr compressed) # rest
           \<and> list_all (\<lambda>(a, r). returnsError r) tried \<longrightarrow>
             PackClientHelloGaseous_v2 E sni alpn hello = Inr (packFrame algo templID compressed))
       \<and> ((PackClientHelloGaseous_v2 E sni alpn hello = Inl (ErrNew ''all compression failed''))
           = list_all (\<lambda>(a, r). returnsError r) outcomes)
       \<and> (fst (matchUTLSClientHello E hello sni alpn) = [] \<longrightarrow>
            PackClientHelloGaseous E sni alpn hello =
              (case external (brotli_Write E hello) of
                 Inl e \<Rightarrow> Inl e
               | Inr compressed \<Rightarrow> Inr (packFrame 3 0 compressed)))
       \<and> (matchUTLSClientHello E hello sni alpn = (specStr1, params1) \<and> specStr1 \<noteq> []
           \<and> json_Marshal E params1 = Inr payload1 \<longrightarrow>
            PackClientHelloGaseous E sni alpn hello =
              (case external (flate_Write E payload1) of
                 Inl e \<Rightarrow> Inl e
               | Inr compressed \<Rightarrow> Inr (packFrame 1 0xffff compressed)))"
proof -
  from assms(1) have p: "PackClientHelloGaseous_v2 E sni alpn hello
      = packWithFirst (compressFuncs E) templID payload"
    by (cases "matchUTLSClientHello_v2 E hello") (auto simp: PackClientHelloGaseous_v2_def)
  have o: "map (\<lambda>(a, f). (a, f payload)) (compressFuncs E) = outcomes"
    unfolding assms(2) by (rule chain_outcomes)
  have first: "PackClientHelloGaseous_v2 E sni alpn hello = Inr (packFrame algo templID compressed)"
    if "outcomes = tried @ (algo, Inr compressed) # rest"
      "list_all (\<lambda>(a, r). returnsError r) tried"
    unfolding p using o [unfolded that(1)] that(2) by (rule packWithFirst_first)
  have all: "(PackClientHelloGaseous_v2 E sni alpn hello = Inl (ErrNew ''all compression failed''))
           = list_all (\<lambda>(a, r). returnsError r) outcomes"
    unfolding p packWithFirst_all_failed o ..
  from first all pack_single_codec [of E hello sni alpn]
  show ?thesis by blast
qed

lemma match_v2_short: "fst (matchUTLSClientHello_v2 E [0x41]) = []"
  by (simp add: matchUTLSClientHello_v2_def parse_too_short)

lemma match_test_short: "matchUTLSClientHello testEnv [0x41] [] [] = ([], None)"
  by (simp add: matchUTLSClientHello_def matchThreshold_def compareClientHelloSpec_def
      testMsg_def testSpec_def countEqualPairs_def isALPNExtension_def isSNIExtension_def
      AlpnProtocols_def ServerName_def testEnv_def)

lemma match_noBrotli_short: "matchUTLSClientHello noBrotliEnv [0x41] [] [] = ([], None)"
  by (simp add: matchUTLSClientHello_def matchThreshold_def compareClientHelloSpec_def
      testMsg_def testSpec_def countEqualPairs_def isALPNExtension_def isSNIExtension_def
      AlpnProtocols_def ServerName_def testEnv_def noBrotliEnv_def)

lemma testEnv_writers:
  "flate_Write testEnv d = Inl ''flate: write failed''" "gzip_Write testEnv d = Inr d"
  "brotli_Write testEnv d = Inr d" "zstd_Write testEnv d = Inr d" "lz4_Write testEnv d = Inr d"
  "xz_Write testEnv d = Inr d"
  by (simp_all add: testEnv_def testStore_def)

lemma noWriterEnv_writers:
  "flate_Write noWriterEnv d = Inl ''flate: write failed''"
  "gzip_Write noWriterEnv d = Inl ''gzip: write failed''"
  "brotli_Write noWriterEnv d = Inl ''brotli: write failed''"
  "zstd_Write noWriterEnv d = Inl ''zstd: write failed''"
  "lz4_Write noWriterEnv d = Inl ''lz4: write failed''"
  "xz_Write noWriterEnv d = Inl ''xz: write failed''"
  "compressLZ4Block noWriterEnv d
     = Inl (ErrExternal ''lz4: invalid source or destination buffer too short'')"
  by (simp_all add: noWriterEnv_def testEnv_def compressLZ4Block_def)

text \<open>
  The claim as the specification words it fails on the first version of the packer: with
  Brotli failing and Gzip at hand, the second version falls back to Gzip, and the first
  returns Brotli's error, which is no aggregate of failures.
\<close>

theorem compression_fallback_counterexample:
  "PackClientHelloGaseous noBrotliEnv [] [] [0x41] = Inl (ErrExternal ''brotli: write failed'')
   \<and> compressGzip noBrotliEnv [0x41] = Inr [0x41]
   \<and> PackClientHelloGaseous_v2 noBrotliEnv [] [] [0x41]
       = Inr (packFrame GaseousCompressGzip 0 [0x41])"
proof -
  have w: "flate_Write noBrotliEnv d = Inl ''flate: write failed''"
    "gzip_Write noBrotliEnv d = Inr d" "brotli_Write noBrotliEnv d = Inl ''brotli: write failed''"
    for d
    by (simp_all add: noBrotliEnv_def testEnv_def testStore_def)
  have a: "PackClientHelloGaseous noBrotliEnv [] [] [0x41]
      = Inl (ErrExternal ''brotli: write failed'')"
    by (simp add: PackClientHelloGaseous_def match_noBrotli_short compressBrotli_def w)
  have b: "compressGzip noBrotliEnv [0x41] = Inr [0x41]"
    by (simp add: compressGzip_def w)
  have c: "PackClientHelloGaseous_v2 noBrotliEnv [] [] [0x41]
       = Inr (packFrame GaseousCompressGzip 0 [0x41])"
    by (simp add: PackClientHelloGaseous_v2_def matchUTLSClientHello_v2_def parse_too_short
        compressFuncs_def compressFlate_def compressGzip_def w)
  from a b c show ?thesis by simp
qed

subsection \<open>The parser does not panic; the unpack functions can\<close>

lemma bindE_no_panic:
  "m \<noteq> Inl RuntimePanic \<Longrightarrow> (\<And>v. m = Inr v \<Longrightarrow> f v \<noteq> Inl RuntimePanic) \<Longrightarrow>
   bindE m f \<noteq> Inl RuntimePanic"
  by (cases m) (simp_all add: bindE_def)

lemma at_ok: "i < length s \<Longrightarrow> at s i = Inr (s ! i)"
  by (simp add: at_def)

lemma sliceFrom_ok: "lo \<le> length s \<Longrightarrow> sliceFrom s lo = Inr (drop lo s)"
  by (simp add: sliceFrom_def)

lemma sliceTo_ok: "hi \<le> length s \<Longrightarrow> sliceTo s hi = Inr (take hi s)"
  by (simp add: sliceTo_def)

lemma slice_ok:
  "lo \<le> hi \<Longrightarrow> hi \<le> length s \<Longrightarrow> slice s lo hi = Inr (take (hi - lo) (drop lo s))"
  by (simp add: slice_def)

lemma Uint16_ok:
  "2 \<le> length b \<Longrightarrow> Uint16 b = Inr (ucast (b ! 1) OR push_bit 8 (ucast (b ! 0)))"
  by (simp add: Uint16_def)

lemmas read_ok = at_ok sliceFrom_ok sliceTo_ok slice_ok Uint16_ok

text \<open>
  The two name parsers return the record they got or an updated one: they never fail, and
  they leave the extension map and the fields parsed before the extensions alone.
\<close>

lemma parseSNI_loop_total:
  "\<exists>out'. parseSNI_loop data listLen i out = Inr out' \<and> pch_Extensions out' = pch_Extensions out
     \<and> basicFields out' = basicFields out"
proof (induction data listLen i out rule: parseSNI_loop.induct)
  case (1 data listLen i out)
  then show ?case
    by (subst parseSNI_loop.simps) (auto simp: read_ok basicFields_def)
qed

lemma parseSNI_total:
  "\<exists>out'. parseSNI data out = Inr out' \<and> pch_Extensions out' = pch_Extensions out
     \<and> basicFields out' = basicFields out"
  using parseSNI_loop_total by (auto simp: parseSNI_def read_ok)

lemma parseALPN_loop_total:
  "\<exists>out'. parseALPN_loop data alpnLen li out = Inr out' \<and> pch_Extensions out' = pch_Extensions out
     \<and> basicFields out' = basicFields out"
proof (induction data alpnLen li out rule: parseALPN_loop.induct)
  case (1 data alpnLen li out)
  then show ?case
    by (subst parseALPN_loop.simps) (auto simp: read_ok basicFields_def)
qed

lemma parseALPN_total:
  "\<exists>out'. parseALPN data out = Inr out' \<and> pch_Extensions out' = pch_Extensions out
     \<and> basicFields out' = basicFields out"
  using parseALPN_loop_total by (auto simp: parseALPN_def read_ok)

lemma storeExtension_total:
  "\<exists>out'. storeExtension extType ext out = Inr out'
      \<and> pch_Extensions out' = (pch_Extensions out)(extType \<mapsto> ext)
      \<and> basicFields out' = basicFields out"
proof -
  obtain out1 where o1: "(if extType = 0x0000
            then parseSNI ext (out\<lparr>pch_Extensions := (pch_Extensions out)(extType \<mapsto> ext)\<rparr>)
            else Inr (out\<lparr>pch_Extensions := (pch_Extensions out)(extType \<mapsto> ext)\<rparr>)) = Inr out1"
    "pch_Extensions out1 = (pch_Extensions out)(extType \<mapsto> ext)"
    "basicFields out1 = basicFields out"
    using parseSNI_total [of ext "out\<lparr>pch_Extensions := (pch_Extensions out)(extType \<mapsto> ext)\<rparr>"]
    by (cases "extType = 0x0000") (auto simp: basicFields_def)
  obtain out2 where o2: "(if extType = 0x0010 then parseALPN ext out1 else Inr out1) = Inr out2"
    "pch_Extensions out2 = pch_Extensions out1" "basicFields out2 = basicFields out1"
    using parseALPN_total [of ext out1] by (cases "extType = 0x0010") auto
  show ?thesis
    unfolding storeExtension_def o1(1) using o2 o1(2,3) by (simp add: bindE_def)
qed

lemma parseExtensions_step:
  assumes "ei + 4 \<le> length exts"
  shows "\<exists>extType extL. Uint16 (drop ei exts) = Inr extType \<and> Uint16 (drop (ei + 2) exts) = Inr extL
     \<and> parseExtensions exts ei out =
       (if ei + 4 + unat extL > length exts then Inr out
        else case storeExtension extType (take (unat extL) (drop (ei + 4) exts)) out of
               Inl e \<Rightarrow> Inl e
             | Inr out' \<Rightarrow> parseExtensions exts (ei + 4 + unat extL) out')"
proof -
  obtain extType extL where r: "sliceFrom exts ei = Inr (drop ei exts)"
      "Uint16 (drop ei exts) = Inr extType"
      "sliceFrom exts (ei + 2) = Inr (drop (ei + 2) exts)"
      "Uint16 (drop (ei + 2) exts) = Inr extL"
    using assms by (simp add: read_ok)
  have s: "slice exts (ei + 4) (ei + 4 + unat extL) = Inr (take (unat extL) (drop (ei + 4) exts))"
    if "\<not> ei + 4 + unat extL > length exts"
    using that by (simp add: slice_ok)
  have "parseExtensions exts ei out =
       (if ei + 4 + unat extL > length exts then Inr out
        else case storeExtension extType (take (unat extL) (drop (ei + 4) exts)) out of
               Inl e \<Rightarrow> Inl e
             | Inr out' \<Rightarrow> parseExtensions exts (ei + 4 + unat extL) out')"
  proof (cases "ei + 4 + unat extL > length exts")
    case True
    then show ?thesis
      by (subst parseExtensions.simps) (simp only: assms r if_True sum.case)
  next
    case False
    show ?thesis
      by (subst parseExtensions.simps)
         (simp only: assms r s [OF False] False if_True if_False sum.case)
  qed
  with r show ?thesis by blast
qed

lemma parseExtensions_total: "\<exists>out'. parseExtensions exts ei out = Inr out'"
proof (induction exts ei out rule: parseExtensions.induct)
  case (1 exts ei out)
  show ?case
  proof (cases "ei + 4 \<le> length exts")
    case False
    then show ?thesis by (subst parseExtensions.simps) simp
  next
    case True
    then obtain extType extL where r: "sliceFrom exts ei = Inr (drop ei exts)"
      "Uint16 (drop ei exts) = Inr extType"
      "sliceFrom exts (ei + 2) = Inr (drop (ei + 2) exts)"
      "Uint16 (drop (ei + 2) exts) = Inr extL"
      by (simp add: read_ok)
    from parseExtensions_step [OF True, of out] r
    have step: "parseExtensions exts ei out =
       (if ei + 4 + unat extL > length exts then Inr out
        else case storeExtension extType (take (unat extL) (drop (ei + 4) exts)) out of
               Inl e \<Rightarrow> Inl e
             | Inr out' \<Rightarrow> parseExtensions exts (ei + 4 + unat extL) out')"
      by simp
    show ?thesis
    proof (cases "ei + 4 + unat extL > length exts")
      case True
      then show ?thesis by (simp add: step)
    next
      case False
      then have s: "slice exts (ei + 4) (ei + 4 + unat extL)
          = Inr (take (unat extL) (drop (ei + 4) exts))"
        by (simp add: slice_ok)
      obtain out' where st: "storeExtension extType (take (unat extL) (drop (ei + 4) exts)) out
          = Inr out'"
        using storeExtension_total by blast
      from "1.IH" [OF True r False s st] False show ?thesis
        by (simp add: step st)
    qed
  qed
qed

lemma readCipherSuites_total:
  "i + 2 * n \<le> length body \<Longrightarrow> \<exists>cs. readCipherSuites body i n = Inr cs \<and> length cs = n"
proof (induction n arbitrary: i)
  case 0
  then show ?case by simp
next
  case (Suc n)
  from Suc.prems have "i + 2 + 2 * n \<le> length body" by simp
  from Suc.IH [OF this] obtain cs where
    "readCipherSuites body (i + 2) n = Inr cs" "length cs = n" by blast
  with Suc.prems show ?case by (simp add: read_ok)
qed

text \<open>
  A stage of the parser, started inside the body, returns an error value or a new offset
  that is still inside the body.
\<close>

lemma parseVersion_ok: "stage_ok body (parseVersion body out)"
  by (simp add: stage_ok_def parseVersion_def read_ok)

lemma parseRandom_ok: "i \<le> length body \<Longrightarrow> stage_ok body (parseRandom body i out)"
  by (auto simp: stage_ok_def parseRandom_def read_ok)

lemma parseSessionID_ok: "i \<le> length body \<Longrightarrow> stage_ok body (parseSessionID body i out)"
  by (auto simp: stage_ok_def parseSessionID_def read_ok)

lemma parseCipherSuites_ok:
  assumes "i \<le> length body"
  shows "stage_ok body (parseCipherSuites body i out)"
proof (cases "length body - i < 2")
  case True
  with assms show ?thesis by (simp add: stage_ok_def parseCipherSuites_def read_ok)
next
  case False
  with assms obtain csLen where u: "Uint16 (drop i body) = Inr csLen"
    by (simp add: read_ok)
  show ?thesis
  proof (cases "length body - (i + 2) < unat csLen \<or> unat csLen mod 2 \<noteq> 0")
    case True
    with assms False u show ?thesis
      by (simp add: stage_ok_def parseCipherSuites_def read_ok)
  next
    case bounds: False
    with False have le: "i + 2 + 2 * (unat csLen div 2) \<le> length body" by auto
    from readCipherSuites_total [OF this] obtain cs where
      "readCipherSuites body (i + 2) (unat csLen div 2) = Inr cs" by blast
    with assms False u bounds le show ?thesis
      by (simp add: stage_ok_def parseCipherSuites_def read_ok)
  qed
qed

lemma parseCompressionMethods_ok:
  "i \<le> length body \<Longrightarrow> stage_ok body (parseCompressionMethods body i out)"
  by (auto simp: stage_ok_def parseCompressionMethods_def read_ok)

lemma parseExtensionBlock_no_panic:
  assumes "i \<le> length body"
  shows "parseExtensionBlock body i out \<noteq> Inl RuntimePanic"
proof -
  have "parseExtensions exts 0 out \<noteq> Inl RuntimePanic" for exts
    using parseExtensions_total [of exts 0 out] by auto
  with assms show ?thesis
    by (simp add: parseExtensionBlock_def read_ok)
qed

lemma bindE_stage:
  assumes "stage_ok body m"
    and "\<And>i out. m = Inr (i, out) \<Longrightarrow> i \<le> length body \<Longrightarrow> f (i, out) \<noteq> Inl RuntimePanic"
  shows "bindE m f \<noteq> Inl RuntimePanic"
  using assms by (cases m) (auto simp: stage_ok_def bindE_def)

lemma parseBody_no_panic: "parseBody body \<noteq> Inl RuntimePanic"
  unfolding parseBody_def
  by (intro bindE_stage [of body] parseVersion_ok; simp;
      intro bindE_stage [of body] parseRandom_ok; simp;
      intro bindE_stage [of body] parseSessionID_ok; simp;
      intro bindE_stage [of body] parseCipherSuites_ok; simp;
      intro bindE_stage [of body] parseCompressionMethods_ok; simp;
      intro parseExtensionBlock_no_panic; simp)

lemma parseRecordLayer_ok:
  assumes "9 \<le> length data"
  shows "(\<exists>e. parseRecordLayer data = Inl e \<and> e \<noteq> RuntimePanic)
       \<or> parseRecordLayer data = Inr 0 \<or> parseRecordLayer data = Inr 5"
  using assms by (auto simp: parseRecordLayer_def at_def slice_def Uint16_def)

lemma parseHandshakeHeader_no_panic: "parseHandshakeHeader hs \<noteq> Inl RuntimePanic"
  by (auto simp: parseHandshakeHeader_def at_def slice_def Let_def)

lemma parseClientHello_no_panic: "parseClientHello data \<noteq> Inl RuntimePanic"
proof (cases "length data < 9")
  case True
  then show ?thesis by (simp add: parseClientHello_def)
next
  case False
  then have len: "9 \<le> length data" by simp
  have rest: "bindE (sliceFrom data offset) (\<lambda>hs. bindE (parseHandshakeHeader hs) parseBody)
      \<noteq> Inl RuntimePanic" if "offset \<le> 5" for offset
    using that len
    by (simp add: sliceFrom_def bindE_no_panic parseHandshakeHeader_no_panic parseBody_no_panic)
  from parseRecordLayer_ok [OF len] rest [of 0] rest [of 5] False show ?thesis
    by (auto simp: parseClientHello_def)
qed

text \<open>
  Where the unpack functions panic: the call of \<open>ApplyPreset\<close>, the allocation in
  \<open>decompressLZ4Block\<close>, and a nil template on the server side. (The wrapped length check
  is lemma \<open>overflow_panics\<close> above.)
\<close>

lemma build_panics:
  assumes "find (\<lambda>x. Str E x = SpecType params) (allUTLSIDs E) = Some ident"
    and "UTLSIdToSpec E ident = Inr spec"
    and "ApplyPreset E ident (overrideRandoms params (overrideNames params spec)) = Panicked"
  shows "buildUTLSClientHello E params = Inl RuntimePanic"
  using assms by (simp add: buildUTLSClientHello_def called_def)

lemma build_v2_panics:
  assumes "find (\<lambda>x. strings_EqualFold E (Str E x) (SpecType params)) (allUTLSIDs E) = Some ident"
    and "UTLSIdToSpec E ident = Inr spec"
    and "ApplyPreset E ident (overrideNames params spec) = Panicked"
  shows "buildUTLSClientHello_v2 E params = Inl RuntimePanic"
  using assms by (simp add: buildUTLSClientHello_v2_def called_def)

lemma makeBytes_panics:
  "arch E = Bits32 \<Longrightarrow> 0x80000000 \<le> unat n \<Longrightarrow> makeBytes E n = Inl RuntimePanic"
  "heap_Available E < unat n \<Longrightarrow> makeBytes E n = Inl RuntimePanic"
proof -
  assume a: "arch E = Bits32" "0x80000000 \<le> unat n"
  from a(2) have "int 0x80000000 \<le> int (unat n)" unfolding of_nat_le_iff .
  then have "2147483648 \<le> uint n" by simp
  with a(1) show "makeBytes E n = Inl RuntimePanic"
    by (simp add: makeBytes_def IntSize_def)
next
  assume "heap_Available E < unat n"
  then show "makeBytes E n = Inl RuntimePanic"
    by (simp add: makeBytes_def)
qed

lemma decompressLZ4Block_panics:
  assumes "4 \<le> length data" "Uint32 (take 4 data) = Inr n" "makeBytes E n = Inl RuntimePanic"
  shows "decompressLZ4Block E data = Inl RuntimePanic"
    and "decompressLZ4Block_v2 E data = Inl RuntimePanic"
  using assms
  by (simp_all add: decompressLZ4Block_def decompressLZ4Block_v2_def sliceTo_def)

lemma nil_template_panics:
  assumes "11 \<le> length data" "readHeader data = Inr hdr" "noOverflow E hdr"
    and "Magic hdr = GaseousHelloMagic" "Version hdr = GaseousHelloVersion"
    and "HelloType hdr = GaseousHelloTypeServer" "reg (TemplID hdr) = Some None"
    and "unat (DataLen hdr) + 11 \<le> length data"
    and "gaseousDecompressData E (take (unat (DataLen hdr)) (drop 11 data)) (Algo hdr) = Inr plain"
  shows "UnpackServerHelloGaseous E reg data = Inl RuntimePanic"
  unfolding server_checks [OF assms(1-3)] using assms(4-9)
  by (simp add: lookupTemplate_def fillHelloTemplate_def)

text \<open>
  Claim C5 (no panic on any input) does not hold of the unpack functions. A well-formed
  frame in fingerprint mode whose parameters name a known fingerprint reaches
  \<open>ApplyPreset\<close> on a \<open>UConn\<close> without a connection, and the panic of that call is the
  panic of both ClientHello functions. On a 32-bit build a frame that announces
  \<open>0x7ffffff5\<close> bytes or more passes the length check of all three functions, because the
  sum wraps around, and the slice that follows panics; the same frame is
  \<open>ErrGaseousTrunc\<close> on a 64-bit build. The ServerHello function dereferences a template
  that was registered as nil. \<open>decompressLZ4Block\<close> allocates the 32-bit length its input
  announces before it looks at the block: on a 32-bit build a length above the largest
  \<open>int\<close> is a panic of \<open>make\<close>, and on any build a 16-byte frame asks for up to 4 GiB.
  (In this model the parser, whose offsets are natural numbers, returns a result or an error
  value for every input: lemma \<open>parseClientHello_no_panic\<close> above.)
\<close>

theorem unpack_panics:
  "UnpackClientHelloGaseous bareConnEnv emptyRegistry
        [0xfe, 0x47, 0x53, 1, 1, 1, 0xff, 0xff, 0, 0, 0, 2, 0x7b, 0x7d] = Inl RuntimePanic
   \<and> UnpackClientHelloGaseous_v2 bareConnEnv emptyRegistry
        [0xfe, 0x47, 0x53, 1, 1, 1, 0xff, 0xff, 0, 0, 0, 2, 0x7b, 0x7d] = Inl RuntimePanic
   \<and> UnpackClientHelloGaseous testEnv32 emptyRegistry
        [0xfe, 0x47, 0x53, 1, 0, 1, 0, 0, 0x7f, 0xff, 0xff, 0xf5] = Inl RuntimePanic
   \<and> UnpackClientHelloGaseous_v2 testEnv32 emptyRegistry
        [0xfe, 0x47, 0x53, 1, 0, 1, 0, 0, 0x7f, 0xff, 0xff, 0xf5] = Inl RuntimePanic
   \<and> UnpackServerHelloGaseous testEnv32
        (RegisterGaseousTemplate emptyRegistry 0 (Some \<lparr>Serialized = []\<rparr>))
        [0x47, 0x53, 1, 0, 2, 0, 0, 0x7f, 0xff, 0xff, 0xf5] = Inl RuntimePanic
   \<and> UnpackClientHelloGaseous testEnv emptyRegistry
        [0xfe, 0x47, 0x53, 1, 0, 1, 0, 0, 0x7f, 0xff, 0xff, 0xf5] = Inl ErrGaseousTrunc
   \<and> UnpackServerHelloGaseous E (RegisterGaseousTemplate emptyRegistry 1 None)
        [0x47, 0x53, 1, 0, 2, 0, 1, 0, 0, 0, 0] = Inl RuntimePanic
   \<and> UnpackClientHelloGaseous_v2 testEnv32 emptyRegistry
        [0xfe, 0x47, 0x53, 1, 7, 1, 0, 0, 0, 0, 0, 4, 0xff, 0xff, 0xff, 0xff] = Inl RuntimePanic
   \<and> UnpackClientHelloGaseous_v2 testEnv emptyRegistry
        [0xfe, 0x47, 0x53, 1, 7, 1, 0, 0, 0, 0, 0, 4, 0xff, 0xff, 0xff, 0xff] = Inl RuntimePanic"
proof -
  have hf: "readHeader [0x47, 0x53, 1, 1, 1, 0xff, 0xff, 0, 0, 0, 2, 0x7b, 0x7d]
     = Inr \<lparr>Magic = GaseousHelloMagic, Version = GaseousHelloVersion, Algo = 1,
            HelloType = GaseousHelloTypeClient, TemplID = 0xffff, DataLen = 2\<rparr>"
    by (simp add: readHeader_ok const_defs)
  have novf: "noOverflow bareConnEnv \<lparr>Magic = GaseousHelloMagic, Version = GaseousHelloVersion,
      Algo = 1, HelloType = GaseousHelloTypeClient, TemplID = 0xffff, DataLen = 2\<rparr>"
    by (simp add: noOverflow_def gaseousHelloHeaderSize_def)
  have env: "flate_ReadAll bareConnEnv [0x7b, 0x7d] = Inr [0x7b, 0x7d]"
    "json_Unmarshal bareConnEnv d = Inr testParams"
    "allUTLSIDs bareConnEnv = [\<lparr>Client = ''Chrome'', Release = ''120''\<rparr>]"
    "Str bareConnEnv \<lparr>Client = ''Chrome'', Release = ''120''\<rparr> = ''Chrome-120''"
    "strings_EqualFold bareConnEnv a b = (a = b)"
    "UTLSIdToSpec bareConnEnv i = Inr testSpec" "ApplyPreset bareConnEnv i s = Panicked"
    for d i s a b
    by (simp_all add: bareConnEnv_def testEnv_def testRead_def)
  have b1: "buildUTLSClientHello bareConnEnv testParams = Inl RuntimePanic"
    by (rule build_panics [where ident = "\<lparr>Client = ''Chrome'', Release = ''120''\<rparr>"])
       (simp_all add: env testParams_def)
  have b2: "buildUTLSClientHello_v2 bareConnEnv testParams = Inl RuntimePanic"
    by (rule build_v2_panics [where ident = "\<lparr>Client = ''Chrome'', Release = ''120''\<rparr>"])
       (simp_all add: env testParams_def)
  have c1: "UnpackClientHelloGaseous bareConnEnv emptyRegistry
        [0xfe, 0x47, 0x53, 1, 1, 1, 0xff, 0xff, 0, 0, 0, 2, 0x7b, 0x7d] = Inl RuntimePanic"
    by (simp add: client_checks [OF _ hf novf] const_defs decompressFlate_def env b1)
  have c2: "UnpackClientHelloGaseous_v2 bareConnEnv emptyRegistry
        [0xfe, 0x47, 0x53, 1, 1, 1, 0xff, 0xff, 0, 0, 0, 2, 0x7b, 0x7d] = Inl RuntimePanic"
    by (simp add: client_v2_checks [OF _ hf novf] clientSwitch_v2_def const_defs
        decompressFlate_def env b2)
  have hc: "readHeader [0x47, 0x53, 1, 0, 1, 0, 0, 0x7f, 0xff, 0xff, 0xf5]
     = Inr \<lparr>Magic = GaseousHelloMagic, Version = GaseousHelloVersion, Algo = 0,
            HelloType = GaseousHelloTypeClient, TemplID = 0, DataLen = 0x7ffffff5\<rparr>"
    by (simp add: readHeader_ok const_defs)
  have hs: "readHeader [0x47, 0x53, 1, 0, 2, 0, 0, 0x7f, 0xff, 0xff, 0xf5]
     = Inr \<lparr>Magic = GaseousHelloMagic, Version = GaseousHelloVersion, Algo = 0,
            HelloType = GaseousHelloTypeServer, TemplID = 0, DataLen = 0x7ffffff5\<rparr>"
    by (simp add: readHeader_ok const_defs)
  have a32: "arch testEnv32 = Bits32" "arch testEnv = Bits64" "heap_Available testEnv32 = 65536"
    "heap_Available testEnv = 65536"
    by (simp_all add: testEnv32_def testEnv_def)
  have o1: "UnpackClientHelloGaseous testEnv32 emptyRegistry
        [0xfe, 0x47, 0x53, 1, 0, 1, 0, 0, 0x7f, 0xff, 0xff, 0xf5] = Inl RuntimePanic"
    by (rule overflow_panics(1) [OF _ hc a32(1)]) simp_all
  have o2: "UnpackClientHelloGaseous_v2 testEnv32 emptyRegistry
        [0xfe, 0x47, 0x53, 1, 0, 1, 0, 0, 0x7f, 0xff, 0xff, 0xf5] = Inl RuntimePanic"
    by (rule overflow_panics(2) [OF _ hc a32(1)]) simp_all
  have o3: "UnpackServerHelloGaseous testEnv32
        (RegisterGaseousTemplate emptyRegistry 0 (Some \<lparr>Serialized = []\<rparr>))
        [0x47, 0x53, 1, 0, 2, 0, 0, 0x7f, 0xff, 0xff, 0xf5] = Inl RuntimePanic"
    by (rule overflow_panics(3) [OF _ hs a32(1)]) (simp_all add: RegisterGaseousTemplate_def)
  have o4: "UnpackClientHelloGaseous testEnv emptyRegistry
        [0xfe, 0x47, 0x53, 1, 0, 1, 0, 0, 0x7f, 0xff, 0xff, 0xf5] = Inl ErrGaseousTrunc"
    by (simp add: client_checks [OF _ hc] noOverflow_def a32)
  have hn: "readHeader [0x47, 0x53, 1, 0, 2, 0, 1, 0, 0, 0, 0]
     = Inr \<lparr>Magic = GaseousHelloMagic, Version = GaseousHelloVersion, Algo = 0,
            HelloType = GaseousHelloTypeServer, TemplID = 1, DataLen = 0\<rparr>"
    by (simp add: readHeader_ok const_defs)
  have n1: "UnpackServerHelloGaseous E (RegisterGaseousTemplate emptyRegistry 1 None)
        [0x47, 0x53, 1, 0, 2, 0, 1, 0, 0, 0, 0] = Inl RuntimePanic"
    by (rule nil_template_panics [OF _ hn, where plain = "[]"])
       (simp_all add: noOverflow_def gaseousHelloHeaderSize_def RegisterGaseousTemplate_def
        gaseousDecompressData_def GaseousCompressNone_def)
  have hl: "readHeader [0x47, 0x53, 1, 7, 1, 0, 0, 0, 0, 0, 4, 0xff, 0xff, 0xff, 0xff]
     = Inr \<lparr>Magic = GaseousHelloMagic, Version = GaseousHelloVersion, Algo = 7,
            HelloType = GaseousHelloTypeClient, TemplID = 0, DataLen = 4\<rparr>"
    by (simp add: readHeader_ok const_defs)
  have u: "Uint32 (take 4 [0xff, 0xff, 0xff, 0xff :: byte]) = Inr 0xffffffff"
    by (simp add: Uint32_def)
  have m1: "decompressLZ4Block_v2 testEnv32 [0xff, 0xff, 0xff, 0xff] = Inl RuntimePanic"
    by (rule decompressLZ4Block_panics(2) [OF _ u]) (simp_all add: makeBytes_panics(1) a32)
  have m2: "decompressLZ4Block_v2 testEnv [0xff, 0xff, 0xff, 0xff] = Inl RuntimePanic"
    by (rule decompressLZ4Block_panics(2) [OF _ u]) (simp_all add: makeBytes_panics(2) a32)
  have l1: "UnpackClientHelloGaseous_v2 testEnv32 emptyRegistry
        [0xfe, 0x47, 0x53, 1, 7, 1, 0, 0, 0, 0, 0, 4, 0xff, 0xff, 0xff, 0xff] = Inl RuntimePanic"
    by (simp add: client_v2_checks [OF _ hl] noOverflow_def gaseousHelloHeaderSize_def
        clientSwitch_v2_def const_defs m1)
  have l2: "UnpackClientHelloGaseous_v2 testEnv emptyRegistry
        [0xfe, 0x47, 0x53, 1, 7, 1, 0, 0, 0, 0, 0, 4, 0xff, 0xff, 0xff, 0xff] = Inl RuntimePanic"
    by (simp add: client_v2_checks [OF _ hl] noOverflow_def gaseousHelloHeaderSize_def
        clientSwitch_v2_def const_defs m2)
  from c1 c2 o1 o2 o3 o4 n1 l1 l2 show ?thesis by simp
qed

subsection \<open>The parser on an encoded hello\<close>

lemma drop_eq_len: "drop i body = rest \<Longrightarrow> rest \<noteq> [] \<Longrightarrow> length body = i + length rest"
  by (metis add_diff_cancel_left' drop_eq_Nil2 length_drop linorder_not_less nat_less_le
      ordered_cancel_comm_monoid_diff_class.add_diff_inverse)

lemma drop_step:
  assumes "drop i body = pre @ post" "k = length pre"
  shows "drop (i + k) body = post"
proof -
  have "drop (i + k) body = drop k (drop i body)"
    by (simp add: add.commute)
  with assms show ?thesis by simp
qed

lemma nth_of_drop: "drop i body = x # rest \<Longrightarrow> body ! i = x"
  by (metis Cons_nth_drop_Suc drop_eq_Nil2 linorder_not_less list.inject list.simps(3))

lemma Uint16_Put: "Uint16 (PutUint16 v @ rest) = Inr v"
  by (simp add: Uint16_def PutUint16_def u16_roundtrip)

lemma length_PutUint16 [simp]: "length (PutUint16 v) = 2"
  by (simp add: PutUint16_def)

lemma unat_u16_of_nat: "n < 65536 \<Longrightarrow> unat (of_nat n :: uint16) = n"
  by (simp add: unat_of_nat)

lemma unat_u8_of_nat: "n < 256 \<Longrightarrow> unat (of_nat n :: byte) = n"
  by (simp add: unat_of_nat)

lemma stage_version:
  assumes "body = PutUint16 ver @ post"
  shows "parseVersion body out = Inr (2, out\<lparr>pch_Version := ver\<rparr>)" "drop 2 body = post"
  using assms by (simp_all add: parseVersion_def sliceTo_def Uint16_Put [where rest = "[]", simplified])

lemma stage_random:
  assumes "drop i body = r @ post" "length r = 32"
  shows "parseRandom body i out = Inr (i + 32, out\<lparr>pch_Random := r\<rparr>)"
    "drop (i + 32) body = post"
proof -
  from assms have len: "length body = i + length (r @ post)"
    by (intro drop_eq_len) auto
  with assms show "parseRandom body i out = Inr (i + 32, out\<lparr>pch_Random := r\<rparr>)"
    by (simp add: parseRandom_def sliceFrom_def slice_def)
  from assms show "drop (i + 32) body = post"
    by (intro drop_step [of i body r]) simp_all
qed

lemma stage_session:
  assumes "drop i body = of_nat (length sid) # sid @ post" "length sid < 256"
  shows "parseSessionID body i out = Inr (i + 1 + length sid, out\<lparr>pch_SessionID := sid\<rparr>)"
    "drop (i + 1 + length sid) body = post"
proof -
  from assms have len: "length body = i + length (of_nat (length sid) # sid @ post)"
    by (intro drop_eq_len) auto
  have nth: "body ! i = of_nat (length sid)"
    using assms(1) by (rule nth_of_drop)
  have d1: "drop (i + 1) body = sid @ post"
    using assms(1) by (intro drop_step [of i body "[of_nat (length sid)]"]) simp_all
  with assms len nth
  show "parseSessionID body i out = Inr (i + 1 + length sid, out\<lparr>pch_SessionID := sid\<rparr>)"
    by (simp add: parseSessionID_def sliceFrom_def slice_def at_def unat_u8_of_nat)
  from d1 show "drop (i + 1 + length sid) body = post"
    by (intro drop_step [of "i + 1" body sid]) simp_all
qed

lemma stage_compression:
  assumes "drop i body = of_nat (length cm) # cm @ post" "length cm < 256"
  shows "parseCompressionMethods body i out
           = Inr (i + 1 + length cm, out\<lparr>pch_CompressionMethods := cm\<rparr>)"
    "drop (i + 1 + length cm) body = post"
proof -
  from assms have len: "length body = i + length (of_nat (length cm) # cm @ post)"
    by (intro drop_eq_len) auto
  have nth: "body ! i = of_nat (length cm)"
    using assms(1) by (rule nth_of_drop)
  have d1: "drop (i + 1) body = cm @ post"
    using assms(1) by (intro drop_step [of i body "[of_nat (length cm)]"]) simp_all
  with assms len nth
  show "parseCompressionMethods body i out
           = Inr (i + 1 + length cm, out\<lparr>pch_CompressionMethods := cm\<rparr>)"
    by (simp add: parseCompressionMethods_def sliceFrom_def slice_def at_def unat_u8_of_nat)
  from d1 show "drop (i + 1 + length cm) body = post"
    by (intro drop_step [of "i + 1" body cm]) simp_all
qed

lemma length_concat_PutUint16 [simp]: "length (concat (map PutUint16 cs)) = 2 * length cs"
  by (induction cs) simp_all

lemma readCipherSuites_encoded:
  "drop j body = concat (map PutUint16 cs) @ post \<Longrightarrow> readCipherSuites body j (length cs) = Inr cs"
proof (induction cs arbitrary: j)
  case Nil
  then show ?case by simp
next
  case (Cons c cs)
  then have d: "drop j body = PutUint16 c @ concat (map PutUint16 cs) @ post"
    by simp
  then have len: "length body = j + length (PutUint16 c @ concat (map PutUint16 cs) @ post)"
    by (intro drop_eq_len) (simp_all add: PutUint16_def)
  from d have "drop (j + 2) body = concat (map PutUint16 cs) @ post"
    by (intro drop_step [of j body "PutUint16 c"]) simp_all
  from Cons.IH [OF this] d len show ?case
    by (simp add: slice_def Uint16_Put [where rest = "[]", simplified])
qed

lemma stage_cipher_aux:
  assumes "drop i body = PutUint16 (of_nat n) @ concat (map PutUint16 cs) @ post"
    "2 * length cs = n" "n < 65536"
  shows "parseCipherSuites body i out = Inr (i + 2 + n, out\<lparr>pch_CipherSuites := cs\<rparr>)"
proof -
  from assms(1) have len: "length body
      = i + length (PutUint16 (of_nat n :: uint16) @ concat (map PutUint16 cs) @ post)"
    by (intro drop_eq_len) (simp_all add: PutUint16_def)
  have d2: "drop (i + 2) body = concat (map PutUint16 cs) @ post"
    using assms(1)
    by (intro drop_step [of i body "PutUint16 (of_nat n)"]) simp_all
  have u: "unat (of_nat n :: uint16) = n"
    using assms(3) by (rule unat_u16_of_nat)
  from assms(2) have dv: "n div 2 = length cs" "n mod 2 = 0" "2 * (n div 2) = n"
    by auto
  from assms(1,2) len d2 readCipherSuites_encoded [OF d2] show ?thesis
    by (simp add: parseCipherSuites_def sliceFrom_def Uint16_Put u dv)
qed

lemma stage_cipher:
  assumes "drop i body = PutUint16 (of_nat (2 * length cs)) @ concat (map PutUint16 cs) @ post"
    "2 * length cs < 65536"
  shows "parseCipherSuites body i out
           = Inr (i + 2 + 2 * length cs, out\<lparr>pch_CipherSuites := cs\<rparr>)"
    "drop (i + 2 + 2 * length cs) body = post"
proof -
  show "parseCipherSuites body i out
           = Inr (i + 2 + 2 * length cs, out\<lparr>pch_CipherSuites := cs\<rparr>)"
    using assms by (intro stage_cipher_aux) simp_all
  have d2: "drop (i + 2) body = concat (map PutUint16 cs) @ post"
    using assms(1)
    by (intro drop_step [of i body "PutUint16 (of_nat (2 * length cs))"]) simp_all
  then show "drop (i + 2 + 2 * length cs) body = post"
    by (intro drop_step [of "i + 2" body "concat (map PutUint16 cs)"]) simp_all
qed

lemma stage_extension_block:
  assumes "drop i body = PutUint16 (of_nat (length exts)) @ exts" "length exts < 65536"
  shows "parseExtensionBlock body i out = parseExtensions exts 0 out"
proof -
  from assms have len: "length body = i + length (PutUint16 (of_nat (length exts)) @ exts)"
    by (intro drop_eq_len) (simp_all add: PutUint16_def)
  have d2: "drop (i + 2) body = exts"
    using assms(1)
    by (intro drop_step [of i body "PutUint16 (of_nat (length exts))"]) simp_all
  have u: "unat (of_nat (length exts) :: uint16) = length exts"
    using assms(2) by (rule unat_u16_of_nat)
  from assms(1) len d2 show ?thesis
    by (simp add: parseExtensionBlock_def sliceFrom_def slice_def Uint16_Put u)
qed

lemma encodeExtension_pair:
  "encodeExtension (t, b) = PutUint16 t @ PutUint16 (of_nat (length b)) @ b"
  by (simp add: encodeExtension_def)

lemma parseExtensions_records:
  assumes "\<forall>r \<in> set recs. length (snd r) < 65536"
    and "drop ei exts = concat (map encodeExtension recs) @ bad"
    and "overrunningRecord bad"
  shows "\<exists>out'. parseExtensions exts ei out = Inr out'
           \<and> pch_Extensions out' = pch_Extensions out ++ map_of (rev recs)
           \<and> basicFields out' = basicFields out"
  using assms
proof (induction recs arbitrary: ei out)
  case Nil
  then have d: "drop ei exts = bad" and four: "4 \<le> length bad"
    by (simp_all add: overrunningRecord_def)
  then have len: "length exts = ei + length bad"
    by (intro drop_eq_len) auto
  with four have le: "ei + 4 \<le> length exts" by simp
  from parseExtensions_step [OF le, of out] obtain extType extL where
    u: "Uint16 (drop (ei + 2) exts) = Inr extL"
    and step: "parseExtensions exts ei out =
       (if ei + 4 + unat extL > length exts then Inr out
        else case storeExtension extType (take (unat extL) (drop (ei + 4) exts)) out of
               Inl e \<Rightarrow> Inl e
             | Inr out' \<Rightarrow> parseExtensions exts (ei + 4 + unat extL) out')"
    by blast
  have "drop 2 bad = drop (ei + 2) exts"
    unfolding d [symmetric] by (simp only: drop_drop add.commute)
  with Nil.prems(3) u have "length bad < 4 + unat extL"
    by (simp add: overrunningRecord_def)
  with len step show ?case by simp
next
  case (Cons r recs)
  obtain t b where r: "r = (t, b)" by (cases r)
  from Cons.prems(1) r have bl: "length b < 65536" by simp
  from Cons.prems(2) r have d:
    "drop ei exts = PutUint16 t @ PutUint16 (of_nat (length b)) @ b
        @ concat (map encodeExtension recs) @ bad"
    by (simp add: encodeExtension_pair)
  then have len: "length exts = ei + length (PutUint16 t @ PutUint16 (of_nat (length b) :: uint16) @ b
        @ concat (map encodeExtension recs) @ bad)"
    by (intro drop_eq_len) (simp_all add: PutUint16_def)
  then have le: "ei + 4 \<le> length exts" by simp
  have d2: "drop (ei + 2) exts = PutUint16 (of_nat (length b)) @ b
        @ concat (map encodeExtension recs) @ bad"
    using d by (intro drop_step [of ei exts "PutUint16 t"]) simp_all
  have d4: "drop (ei + 4) exts = b @ concat (map encodeExtension recs) @ bad"
    using d by (intro drop_step [of ei exts "PutUint16 t @ PutUint16 (of_nat (length b))"]) simp_all
  have d': "drop (ei + 4 + length b) exts = concat (map encodeExtension recs) @ bad"
    using d4 by (intro drop_step [of "ei + 4" exts b]) simp_all
  have u: "unat (of_nat (length b) :: uint16) = length b"
    using bl by (rule unat_u16_of_nat)
  from parseExtensions_step [OF le, of out] obtain extType extL where
    r1: "Uint16 (drop ei exts) = Inr extType" and r2: "Uint16 (drop (ei + 2) exts) = Inr extL"
    and step0: "parseExtensions exts ei out =
       (if ei + 4 + unat extL > length exts then Inr out
        else case storeExtension extType (take (unat extL) (drop (ei + 4) exts)) out of
               Inl e \<Rightarrow> Inl e
             | Inr out' \<Rightarrow> parseExtensions exts (ei + 4 + unat extL) out')"
    by blast
  from r1 d have e1: "extType = t" by (simp add: Uint16_Put)
  from r2 d2 have e2: "unat extL = length b" by (auto simp: Uint16_Put u)
  note step = step0 [unfolded e1 e2]
  obtain out1 where st: "storeExtension t b out = Inr out1"
    "pch_Extensions out1 = (pch_Extensions out)(t \<mapsto> b)" "basicFields out1 = basicFields out"
    using storeExtension_total by blast
  from Cons.prems(1) have "\<forall>r \<in> set recs. length (snd r) < 65536" by simp
  from Cons.IH [OF this d' Cons.prems(3), of out1] obtain out' where
    o: "parseExtensions exts (ei + 4 + length b) out1 = Inr out'"
    "pch_Extensions out' = pch_Extensions out1 ++ map_of (rev recs)"
    "basicFields out' = basicFields out1"
    by blast
  have "pch_Extensions out1 ++ map_of (rev recs) = pch_Extensions out ++ map_of (rev (r # recs))"
    by (rule ext) (simp add: st(2) r map_add_def split: option.splits)
  with o step len d4 st(1,3) show ?case by simp
qed

lemma unat_byte_of_nat: "unat (of_nat m :: byte) = take_bit 8 m"
  by (simp add: unat_of_nat take_bit_eq_mod)

lemma uint24_roundtrip:
  assumes "n < 2 ^ 24"
  shows "push_bit 16 (unat (of_nat (drop_bit 16 n) :: byte))
         OR push_bit 8 (unat (of_nat (drop_bit 8 n) :: byte)) OR unat (of_nat n :: byte) = n"
proof -
  have "push_bit 16 (take_bit 8 (drop_bit 16 n)) OR push_bit 8 (take_bit 8 (drop_bit 8 n))
        OR take_bit 8 n = take_bit 24 n"
  proof (rule bit_eqI)
    fix k
    show "bit (push_bit 16 (take_bit 8 (drop_bit 16 n)) OR push_bit 8 (take_bit 8 (drop_bit 8 n))
        OR take_bit 8 n) k = bit (take_bit 24 n) k"
      by (cases "16 \<le> k"; cases "8 \<le> k") (auto simp: bit_simps)
  qed
  with assms show ?thesis
    by (simp add: unat_byte_of_nat take_bit_nat_eq_self)
qed

lemma parseHandshakeHeader_encoded:
  assumes "length body < 2 ^ 24"
  shows "parseHandshakeHeader (encodeHandshake body) = Inr body"
  using assms
  by (simp add: parseHandshakeHeader_def encodeHandshake_def at_def slice_def Let_def
      uint24_roundtrip)

lemma parseRecordLayer_handshake:
  "parseRecordLayer (encodeHandshake body) = Inr 0"
  by (simp add: parseRecordLayer_def encodeHandshake_def at_def)

lemma parseRecordLayer_record:
  assumes "length hs < 65536" "4 \<le> length hs"
  shows "parseRecordLayer (encodeRecord hs) = Inr 5"
  using assms
  by (auto simp: parseRecordLayer_def encodeRecord_def at_def slice_def PutUint16_def
      Uint16_def u16_roundtrip unat_u16_of_nat)

lemma parseBody_encoded:
  assumes "length random = 32" "length sid < 256" "2 * length cs < 65536" "length cm < 256"
    and "length exts < 65536"
  shows "parseBody (encodeBody ver random sid cs cm exts) =
     parseExtensions exts 0
       \<lparr>pch_Version = ver, pch_Random = random, pch_SessionID = sid, pch_CipherSuites = cs,
        pch_CompressionMethods = cm, pch_SNI = [], pch_ALPN = [], pch_Extensions = Map.empty\<rparr>"
proof -
  define body where "body = encodeBody ver random sid cs cm exts"
  have b0: "body = PutUint16 ver @ (random @ of_nat (length sid) # sid
     @ PutUint16 (of_nat (2 * length cs)) @ concat (map PutUint16 cs)
     @ of_nat (length cm) # cm
     @ PutUint16 (of_nat (length exts)) @ exts)"
    by (simp add: body_def encodeBody_def del: of_nat_mult)
  note v = stage_version [OF b0]
  have d2: "drop 2 body = random @ (of_nat (length sid) # sid
     @ PutUint16 (of_nat (2 * length cs)) @ concat (map PutUint16 cs)
     @ of_nat (length cm) # cm
     @ PutUint16 (of_nat (length exts)) @ exts)"
    using v(2) by simp
  note r = stage_random [OF d2 assms(1)]
  have d34: "drop (2 + 32) body = of_nat (length sid) # sid @
     (PutUint16 (of_nat (2 * length cs)) @ concat (map PutUint16 cs)
     @ of_nat (length cm) # cm
     @ PutUint16 (of_nat (length exts)) @ exts)"
    using r(2) by simp
  note s = stage_session [OF d34 assms(2)]
  have d3: "drop (2 + 32 + 1 + length sid) body =
     PutUint16 (of_nat (2 * length cs)) @ concat (map PutUint16 cs)
     @ (of_nat (length cm) # cm @ PutUint16 (of_nat (length exts)) @ exts)"
    using s(2) by simp
  note c = stage_cipher [OF d3 assms(3)]
  have d4: "drop (2 + 32 + 1 + length sid + 2 + 2 * length cs) body =
     of_nat (length cm) # cm @ (PutUint16 (of_nat (length exts)) @ exts)"
    using c(2) by simp
  note m = stage_compression [OF d4 assms(4)]
  note e = stage_extension_block [OF m(2) assms(5)]
  show ?thesis
    unfolding body_def [symmetric] parseBody_def
    by (simp only: v(1) r(1) s(1) c(1) m(1) e bindE_Inr prod.case)
       (simp add: emptyParsedClientHello_def)
qed

text \<open>
  Claim C9 (partial extension lists). Take a ClientHello, bare or inside a record, whose
  extension block is the records \<open>recs\<close> followed by a record that overruns the block.
  Then \<open>parseClientHello\<close> returns a parsed hello, not an error: its extension map holds
  the records of \<open>recs\<close> (for a type that occurs twice, the later body, as the map is keyed
  by type), and version, random, session id, cipher suites and compression methods are
  those of the message.
\<close>

theorem partial_extension_list:
  assumes "length random = 32" "length sid < 256" "2 * length cs < 65536" "length cm < 256"
    and "\<forall>r \<in> set recs. length (snd r) < 65536"
    and "overrunningRecord bad"
    and "exts = concat (map encodeExtension recs) @ bad" "length exts < 65536"
    and "data = encodeHandshake (encodeBody ver random sid cs cm exts)
       \<or> (data = encodeRecord (encodeHandshake (encodeBody ver random sid cs cm exts))
          \<and> length (encodeHandshake (encodeBody ver random sid cs cm exts)) < 65536)"
  shows "\<exists>out. parseClientHello data = Inr out
     \<and> pch_Extensions out = map_of (rev recs)
     \<and> pch_Version out = ver \<and> pch_Random out = random \<and> pch_SessionID out = sid
     \<and> pch_CipherSuites out = cs \<and> pch_CompressionMethods out = cm"
proof -
  define body where "body = encodeBody ver random sid cs cm exts"
  define out0 where "out0 =
       \<lparr>pch_Version = ver, pch_Random = random, pch_SessionID = sid, pch_CipherSuites = cs,
        pch_CompressionMethods = cm, pch_SNI = [], pch_ALPN = [], pch_Extensions = Map.empty\<rparr>"
  have blen: "length body = 40 + length sid + 2 * length cs + length cm + length exts"
    using assms(1) by (simp add: body_def encodeBody_def)
  with assms(2,3,4,8) have b24: "length body < 2 ^ 24" by simp
  have pb: "parseBody body = parseExtensions exts 0 out0"
    unfolding body_def out0_def using assms(1-4,8) by (rule parseBody_encoded)
  from assms(7) have "drop 0 exts = concat (map encodeExtension recs) @ bad" by simp
  from parseExtensions_records [OF assms(5) this assms(6), of out0] obtain out where
    o: "parseExtensions exts 0 out0 = Inr out" "pch_Extensions out = map_of (rev recs)"
    "basicFields out = basicFields out0"
    by (auto simp: out0_def)
  have hs: "parseClientHello (encodeHandshake body) = Inr out"
    using blen
    by (simp add: parseClientHello_def parseRecordLayer_handshake sliceFrom_def
        parseHandshakeHeader_encoded [OF b24] pb o(1))
       (simp add: encodeHandshake_def)
  have rc: "parseClientHello (encodeRecord (encodeHandshake body)) = Inr out"
    if "length (encodeHandshake body) < 65536"
  proof -
    have four: "4 \<le> length (encodeHandshake body)"
      by (simp add: encodeHandshake_def)
    have "sliceFrom (encodeRecord (encodeHandshake body)) 5 = Inr (encodeHandshake body)"
      by (simp add: sliceFrom_def encodeRecord_def PutUint16_def)
    moreover have "\<not> length (encodeRecord (encodeHandshake body)) < 9"
      using four by (simp add: encodeRecord_def)
    ultimately show ?thesis
      by (simp add: parseClientHello_def parseRecordLayer_record [OF that four]
          parseHandshakeHeader_encoded [OF b24] pb o(1))
  qed
  from assms(9) hs rc have "parseClientHello data = Inr out"
    unfolding body_def by auto
  with o(2,3) show ?thesis
    by (auto simp: basicFields_def out0_def)
qed

lemma testHello_encoded:
  "testHello =
     encodeHandshake (encodeBody 0x0303 (replicate 32 0) [] [0x1301, 0x1302, 0x1303] [0]
       (concat (map encodeExtension testRecords) @ testOverrun))"
  by (simp add: testHello_def encodeHandshake_def encodeBody_def testRecords_def testOverrun_def
      encodeExtension_pair PutUint16_def drop_bit_eq_div)

lemma testOverrun_overruns: "overrunningRecord testOverrun"
  by (simp add: overrunningRecord_def testOverrun_def Uint16_def)

theorem partial_extension_list_witness:
  "\<exists>out. parseClientHello testHello = Inr out
     \<and> pch_Extensions out = map_of (rev testRecords)
     \<and> pch_Version out = 0x0303 \<and> pch_Random out = replicate 32 0 \<and> pch_SessionID out = []
     \<and> pch_CipherSuites out = [0x1301, 0x1302, 0x1303] \<and> pch_CompressionMethods out = [0]"
  using partial_extension_list [where random = "replicate 32 0" and sid = "[]"
      and cs = "[0x1301, 0x1302, 0x1303]" and cm = "[0]" and recs = testRecords
      and bad = testOverrun and ver = "0x0303"
      and exts = "concat (map encodeExtension testRecords) @ testOverrun" and data = testHello]
    testOverrun_overruns testHello_encoded
  by (simp add: testRecords_def testOverrun_def encodeExtension_pair)

subsection \<open>The matcher\<close>

lemma map_filter_Cons:
  "List.map_filter f (x # xs) = (case f x of None \<Rightarrow> List.map_filter f xs
     | Some y \<Rightarrow> y # List.map_filter f xs)"
  by (simp add: List.map_filter_def split: option.splits)

lemma trackBest_score: "snd (trackBest xs (bm, bs)) = fold max (map snd xs) bs"
  by (induction xs arbitrary: bm bs) (auto simp: max_def)

lemma fold_max_ge: "bs \<le> fold max ys (bs :: nat)"
proof (induction ys arbitrary: bs)
  case Nil
  then show ?case by simp
next
  case (Cons y ys)
  have "bs \<le> max y bs" by simp
  also have "\<dots> \<le> fold max ys (max y bs)" by (rule Cons.IH)
  finally show ?case by simp
qed

lemma fold_max_upper: "y \<in> set ys \<Longrightarrow> y \<le> fold max ys (bs :: nat)"
proof (induction ys arbitrary: bs)
  case Nil
  then show ?case by simp
next
  case (Cons a ys)
  show ?case
  proof (cases "y = a")
    case True
    have "a \<le> max a bs" by simp
    also have "\<dots> \<le> fold max ys (max a bs)" by (rule fold_max_ge)
    finally show ?thesis using True by simp
  next
    case False
    with Cons.prems have "y \<in> set ys" by simp
    from Cons.IH [OF this] show ?thesis by simp
  qed
qed

lemma trackBest_ge: "snd st \<le> snd (trackBest xs st)"
proof (cases st)
  case (Pair bm bs)
  then show ?thesis
    using fold_max_ge [of bs "map snd xs"] by (simp add: trackBest_score)
qed

lemma trackBest_cases: "trackBest xs st = st \<or> trackBest xs st \<in> set xs"
proof (induction xs arbitrary: st)
  case Nil
  then show ?case by simp
next
  case (Cons x xs)
  obtain name s bm bs where x: "x = (name, s)" and st: "st = (bm, bs)"
    by (cases x; cases st) auto
  show ?case
    using Cons.IH [of "(name, s)"] Cons.IH [of "(bm, bs)"]
    by (auto simp: x st)
qed

lemma trackBest_member:
  assumes "trackBest xs (bm, bs) = (bm', bs')" "bs < bs'"
  shows "(bm', bs') \<in> set xs"
  using trackBest_cases [of xs "(bm, bs)"] assms by auto

lemma trackBest_same:
  assumes "trackBest xs (bm, bs) = (bm', bs')" "\<not> bs < bs'"
  shows "(bm', bs') = (bm, bs)"
  using assms
proof (induction xs arbitrary: bm bs)
  case Nil
  then show ?case by simp
next
  case (Cons x xs)
  obtain name s where x: "x = (name, s)" by (cases x)
  show ?case
  proof (cases "s > bs")
    case True
    with Cons.prems(1) x have "trackBest xs (name, s) = (bm', bs')" by simp
    with trackBest_ge [of "(name, s)" xs] have "s \<le> bs'" by simp
    with True Cons.prems(2) show ?thesis by simp
  next
    case False
    with Cons.prems x have "trackBest xs (bm, bs) = (bm', bs')" by simp
    from Cons.IH [OF this Cons.prems(2)] show ?thesis .
  qed
qed

text \<open>Both matcher loops are \<open>trackBest\<close> on the scored specs, with the parameters of the name kept.\<close>

lemma matchLoop_v2_track:
  "matchLoop_v2 E parsed ids (bm, bs, ps) =
     (case trackBest
             (List.map_filter
                (\<lambda>ident. case UTLSIdToSpec E ident of
                           Inl err \<Rightarrow> None
                         | Inr spec \<Rightarrow> Some (Str E ident, scoreSpec parsed spec)) ids)
             (bm, bs) of
        (bm', bs') \<Rightarrow>
          (bm', bs',
           if bs < bs'
           then Some (paramsFor bm' (pch_SNI parsed) (pch_ALPN parsed) (pch_Random parsed)
                        (pch_SessionID parsed))
           else ps))"
proof (induction ids arbitrary: bm bs ps)
  case Nil
  then show ?case by (simp add: List.map_filter_def)
next
  case (Cons ident ids)
  show ?case
  proof (cases "UTLSIdToSpec E ident")
    case (Inl err)
    then show ?thesis by (simp add: map_filter_Cons Cons.IH)
  next
    case (Inr spec)
    define xs where "xs = List.map_filter
                (\<lambda>ident. case UTLSIdToSpec E ident of
                           Inl err \<Rightarrow> None
                         | Inr spec \<Rightarrow> Some (Str E ident, scoreSpec parsed spec)) ids"
    show ?thesis
    proof (cases "scoreSpec parsed spec > bs")
      case False
      with Inr show ?thesis by (simp add: map_filter_Cons Cons.IH)
    next
      case True
      obtain bm' bs' where t: "trackBest xs (Str E ident, scoreSpec parsed spec) = (bm', bs')"
        by (cases "trackBest xs (Str E ident, scoreSpec parsed spec)")
      from trackBest_ge [of "(Str E ident, scoreSpec parsed spec)" xs] t
      have ge: "scoreSpec parsed spec \<le> bs'" by simp
      have same: "bm' = Str E ident" if "\<not> scoreSpec parsed spec < bs'"
        using trackBest_same [OF t that] by simp
      from Inr True t ge same show ?thesis
        by (auto simp: map_filter_Cons Cons.IH xs_def [symmetric] paramsFor_def)
    qed
  qed
qed

lemma matchLoop_track:
  "matchLoop E msg sni alpn ids (bm, bs, ps) =
     (case trackBest
             (List.map_filter
                (\<lambda>ident. case UTLSIdToSpec E ident of
                           Inl err \<Rightarrow> None
                         | Inr spec \<Rightarrow> Some (Str E ident, compareClientHelloSpec E msg spec sni alpn))
                ids)
             (bm, bs) of
        (bm', bs') \<Rightarrow>
          (bm', bs',
           if bs < bs'
           then Some (paramsFor bm' sni alpn (msg_Random msg) (msg_SessionId msg))
           else ps))"
proof (induction ids arbitrary: bm bs ps)
  case Nil
  then show ?case by (simp add: List.map_filter_def)
next
  case (Cons ident ids)
  show ?case
  proof (cases "UTLSIdToSpec E ident")
    case (Inl err)
    then show ?thesis by (simp add: map_filter_Cons Cons.IH)
  next
    case (Inr spec)
    define xs where "xs = List.map_filter
                (\<lambda>ident. case UTLSIdToSpec E ident of
                           Inl err \<Rightarrow> None
                         | Inr spec \<Rightarrow> Some (Str E ident, compareClientHelloSpec E msg spec sni alpn))
                ids"
    define sc where "sc = compareClientHelloSpec E msg spec sni alpn"
    show ?thesis
    proof (cases "sc > bs")
      case False
      with Inr show ?thesis by (simp add: map_filter_Cons Cons.IH sc_def)
    next
      case True
      obtain bm' bs' where t: "trackBest xs (Str E ident, sc) = (bm', bs')"
        by (cases "trackBest xs (Str E ident, sc)")
      from trackBest_ge [of "(Str E ident, sc)" xs] t
      have ge: "sc \<le> bs'" by simp
      have same: "bm' = Str E ident" if "\<not> sc < bs'"
        using trackBest_same [OF t that] by simp
      from Inr True t ge same show ?thesis
        by (auto simp: map_filter_Cons Cons.IH xs_def [symmetric] sc_def [symmetric] paramsFor_def)
    qed
  qed
qed

lemma scoredSpecs_name:
  assumes "(name, s) \<in> set (scoredSpecs E score)"
  shows "\<exists>ident \<in> set (allUTLSIDs E). name = Str E ident"
  using assms
  by (auto simp: scoredSpecs_def List.map_filter_def split: sum.splits)

lemma bestScore_upper: "(name, s) \<in> set scored \<Longrightarrow> s \<le> bestScore scored"
  unfolding bestScore_def by (rule fold_max_upper) force

text \<open>What \<open>trackBest\<close> returns from the initial state, in terms of the best score.\<close>

lemma trackBest_initial:
  "\<exists>name. trackBest scored ([], 0) = (name, bestScore scored)
      \<and> (0 < bestScore scored \<longrightarrow> (name, bestScore scored) \<in> set scored)"
proof -
  obtain name b where t: "trackBest scored ([], 0) = (name, b)"
    by (cases "trackBest scored ([], 0)")
  from trackBest_score [of scored "[]" 0] t have b: "b = bestScore scored"
    by (simp add: bestScore_def)
  have "(name, b) \<in> set scored" if "0 < b"
    using t that by (rule trackBest_member)
  with t b show ?thesis by auto
qed

text \<open>
  Claim C6 (acceptance policy), for both versions of the matcher, given that no
  fingerprint id has an empty name. Every spec the database resolves is scored, and no
  score exceeds the best score. If the best score reaches the threshold (10 in the second
  version, which scores the parsed hello; 50 in the first, which scores uTLS's parse), the
  matcher returns the name of a spec that has the best score, together with the parameters
  that carry this name, the server name, the ALPN list, the random and the session id;
  otherwise it returns the empty name and no parameters. So a match is returned exactly
  when the best score is at least the threshold.
\<close>

theorem match_acceptance:
  assumes "\<forall>ident \<in> set (allUTLSIDs E). Str E ident \<noteq> []"
  shows "(parseClientHello clientHelloBytes = Inr parsed \<longrightarrow>
           (let scored = scoredSpecs E (scoreSpec parsed); best = bestScore scored in
              (\<forall>(name, s) \<in> set scored. s \<le> best)
            \<and> (if best \<ge> matchThreshold_v2
               then \<exists>name. (name, best) \<in> set scored \<and> name \<noteq> []
                      \<and> matchUTLSClientHello_v2 E clientHelloBytes =
                          (name, Some (paramsFor name (pch_SNI parsed) (pch_ALPN parsed)
                                         (pch_Random parsed) (pch_SessionID parsed)))
               else matchUTLSClientHello_v2 E clientHelloBytes = ([], None))))
       \<and> (msg_Unmarshal E clientHelloBytes = Some chMsg \<longrightarrow>
           (let scored = scoredSpecs E (\<lambda>spec. compareClientHelloSpec E chMsg spec sni alpn);
                best = bestScore scored in
              (\<forall>(name, s) \<in> set scored. s \<le> best)
            \<and> (if best \<ge> matchThreshold
               then \<exists>name. (name, best) \<in> set scored \<and> name \<noteq> []
                      \<and> matchUTLSClientHello E clientHelloBytes sni alpn =
                          (name, Some (paramsFor name sni alpn (msg_Random chMsg)
                                         (msg_SessionId chMsg)))
               else matchUTLSClientHello E clientHelloBytes sni alpn = ([], None))))
       \<and> matchThreshold_v2 = 10 \<and> matchThreshold = 50"
proof -
  have v2: "(if bestScore (scoredSpecs E (scoreSpec parsed)) \<ge> matchThreshold_v2
            then \<exists>name. (name, bestScore (scoredSpecs E (scoreSpec parsed)))
                           \<in> set (scoredSpecs E (scoreSpec parsed)) \<and> name \<noteq> []
                      \<and> matchUTLSClientHello_v2 E clientHelloBytes =
                          (name, Some (paramsFor name (pch_SNI parsed) (pch_ALPN parsed)
                                         (pch_Random parsed) (pch_SessionID parsed)))
            else matchUTLSClientHello_v2 E clientHelloBytes = ([], None))"
    if p: "parseClientHello clientHelloBytes = Inr parsed"
  proof -
    define scored where "scored = scoredSpecs E (scoreSpec parsed)"
    from trackBest_initial [of scored]
    obtain name where t: "trackBest scored ([], 0) = (name, bestScore scored)"
      and mem: "0 < bestScore scored \<Longrightarrow> (name, bestScore scored) \<in> set scored"
      by auto
    have loop: "matchLoop_v2 E parsed (allUTLSIDs E) ([], 0, None) =
        (name, bestScore scored,
         if 0 < bestScore scored
         then Some (paramsFor name (pch_SNI parsed) (pch_ALPN parsed) (pch_Random parsed)
                      (pch_SessionID parsed))
         else None)"
      unfolding matchLoop_v2_track using t
      by (simp add: scored_def scoredSpecs_def)
    show ?thesis
    proof (cases "bestScore scored \<ge> matchThreshold_v2")
      case True
      then have pos: "0 < bestScore scored" by (simp add: matchThreshold_v2_def)
      from mem [OF pos] have "\<exists>ident \<in> set (allUTLSIDs E). name = Str E ident"
        unfolding scored_def by (rule scoredSpecs_name)
      with assms have ne: "name \<noteq> []" by auto
      from True pos ne mem [OF pos] show ?thesis
        unfolding scored_def [symmetric]
        by (auto simp: matchUTLSClientHello_v2_def p loop)
    next
      case False
      then show ?thesis
        unfolding scored_def [symmetric]
        by (simp add: matchUTLSClientHello_v2_def p loop)
    qed
  qed
  have v1: "(if bestScore (scoredSpecs E (\<lambda>spec. compareClientHelloSpec E chMsg spec sni alpn))
                \<ge> matchThreshold
            then \<exists>name. (name, bestScore (scoredSpecs E
                                   (\<lambda>spec. compareClientHelloSpec E chMsg spec sni alpn)))
                           \<in> set (scoredSpecs E (\<lambda>spec. compareClientHelloSpec E chMsg spec sni alpn))
                      \<and> name \<noteq> []
                      \<and> matchUTLSClientHello E clientHelloBytes sni alpn =
                          (name, Some (paramsFor name sni alpn (msg_Random chMsg)
                                         (msg_SessionId chMsg)))
            else matchUTLSClientHello E clientHelloBytes sni alpn = ([], None))"
    if p: "msg_Unmarshal E clientHelloBytes = Some chMsg"
  proof -
    define scored where
      "scored = scoredSpecs E (\<lambda>spec. compareClientHelloSpec E chMsg spec sni alpn)"
    from trackBest_initial [of scored]
    obtain name where t: "trackBest scored ([], 0) = (name, bestScore scored)"
      and mem: "0 < bestScore scored \<Longrightarrow> (name, bestScore scored) \<in> set scored"
      by auto
    have loop: "matchLoop E chMsg sni alpn (allUTLSIDs E) ([], 0, None) =
        (name, bestScore scored,
         if 0 < bestScore scored
         then Some (paramsFor name sni alpn (msg_Random chMsg) (msg_SessionId chMsg))
         else None)"
      unfolding matchLoop_track using t
      by (simp add: scored_def scoredSpecs_def)
    show ?thesis
    proof (cases "bestScore scored \<ge> matchThreshold")
      case True
      then have pos: "0 < bestScore scored" by (simp add: matchThreshold_def)
      from mem [OF pos] have "\<exists>ident \<in> set (allUTLSIDs E). name = Str E ident"
        unfolding scored_def by (rule scoredSpecs_name)
      with assms have ne: "name \<noteq> []" by auto
      from True pos ne mem [OF pos] show ?thesis
        unfolding scored_def [symmetric]
        by (auto simp: matchUTLSClientHello_def p loop)
    next
      case False
      then show ?thesis
        unfolding scored_def [symmetric]
        by (simp add: matchUTLSClientHello_def p loop)
    qed
  qed
  from v1 v2 show ?thesis
    by (auto simp: Let_def matchThreshold_v2_def matchThreshold_def dest: bestScore_upper)
qed

lemma parseClientHello_encoded:
  assumes "length random = 32" "length sid < 256" "2 * length cs < 65536" "length cm < 256"
    and "length exts < 65536"
  shows "parseClientHello (encodeHandshake (encodeBody ver random sid cs cm exts)) =
     parseExtensions exts 0
       \<lparr>pch_Version = ver, pch_Random = random, pch_SessionID = sid, pch_CipherSuites = cs,
        pch_CompressionMethods = cm, pch_SNI = [], pch_ALPN = [], pch_Extensions = Map.empty\<rparr>"
proof -
  define body where "body = encodeBody ver random sid cs cm exts"
  have blen: "length body = 40 + length sid + 2 * length cs + length cm + length exts"
    using assms(1) by (simp add: body_def encodeBody_def)
  with assms(2-5) have b24: "length body < 2 ^ 24" by simp
  have "parseClientHello (encodeHandshake body) = parseBody body"
    using blen
    by (simp add: parseClientHello_def parseRecordLayer_handshake sliceFrom_def
        parseHandshakeHeader_encoded [OF b24])
       (simp add: encodeHandshake_def)
  then show ?thesis
    unfolding body_def using assms by (simp add: parseBody_encoded)
qed

lemma testExtensions_parse:
  "parseExtensions (concat (map encodeExtension testRecords) @ testOverrun) 0
       \<lparr>pch_Version = 0x0303, pch_Random = replicate 32 0, pch_SessionID = [],
        pch_CipherSuites = [0x1301, 0x1302, 0x1303],
        pch_CompressionMethods = [0], pch_SNI = [], pch_ALPN = [], pch_Extensions = Map.empty\<rparr>
   = Inr testParsed"
  unfolding testParsed_def
  by (simp add: testRecords_def testOverrun_def encodeExtension_pair PutUint16_def
      parseExtensions.simps parseSNI_loop.simps parseALPN_loop.simps storeExtension_def
      parseSNI_def parseALPN_def at_def slice_def sliceFrom_def sliceTo_def Uint16_def)

lemma parse_testHello: "parseClientHello testHello = Inr testParsed"
proof -
  have "parseClientHello testHello =
     parseExtensions (concat (map encodeExtension testRecords) @ testOverrun) 0
       \<lparr>pch_Version = 0x0303, pch_Random = replicate 32 0, pch_SessionID = [],
        pch_CipherSuites = [0x1301, 0x1302, 0x1303],
        pch_CompressionMethods = [0], pch_SNI = [], pch_ALPN = [], pch_Extensions = Map.empty\<rparr>"
    unfolding testHello_encoded
    by (rule parseClientHello_encoded)
       (simp_all add: testRecords_def testOverrun_def encodeExtension_pair)
  then show ?thesis
    by (simp only: testExtensions_parse)
qed

lemma score_test: "scoreSpec testParsed testSpec = 27"
  by (simp add: scoreSpec_def testParsed_def testSpec_def countEqualPairs_def
      isALPNExtension_def isSNIExtension_def AlpnProtocols_def)

lemma compare_test:
  "compareClientHelloSpec testEnv testMsg testSpec [0x78, 0x2e, 0x79] [[0x68, 0x32]] = 29"
  by (simp add: compareClientHelloSpec_def testMsg_def testSpec_def countEqualPairs_def
      isALPNExtension_def isSNIExtension_def AlpnProtocols_def ServerName_def testEnv_def)

lemma scored_test:
  "scoredSpecs testEnv score = [(''Chrome-120'', score testSpec)]"
  by (simp add: scoredSpecs_def map_filter_Cons List.map_filter_def testEnv_def)

theorem match_acceptance_witness:
  "matchUTLSClientHello_v2 testEnv testHello =
     (''Chrome-120'',
      Some (paramsFor ''Chrome-120'' [0x78, 0x2e, 0x79] [[0x68, 0x32]] (replicate 32 0) []))
   \<and> bestScore (scoredSpecs testEnv (scoreSpec testParsed)) = 27
   \<and> matchUTLSClientHello testEnv testHello [0x78, 0x2e, 0x79] [[0x68, 0x32]] = ([], None)
   \<and> bestScore (scoredSpecs testEnv
        (\<lambda>spec. compareClientHelloSpec testEnv testMsg spec [0x78, 0x2e, 0x79] [[0x68, 0x32]])) = 29"
proof -
  have ids: "\<forall>ident \<in> set (allUTLSIDs testEnv). Str testEnv ident \<noteq> []"
    by (simp add: testEnv_def)
  have um: "msg_Unmarshal testEnv testHello = Some testMsg"
    by (simp add: testEnv_def testHello_def)
  have b2: "bestScore (scoredSpecs testEnv (scoreSpec testParsed)) = 27"
    by (simp add: scored_test bestScore_def score_test)
  have b1: "bestScore (scoredSpecs testEnv
        (\<lambda>spec. compareClientHelloSpec testEnv testMsg spec [0x78, 0x2e, 0x79] [[0x68, 0x32]])) = 29"
    by (simp add: scored_test bestScore_def compare_test)
  have fs: "pch_SNI testParsed = [0x78, 0x2e, 0x79]" "pch_ALPN testParsed = [[0x68, 0x32]]"
    "pch_Random testParsed = replicate 32 0" "pch_SessionID testParsed = []"
    "msg_Random testMsg = replicate 32 0" "msg_SessionId testMsg = []"
    by (simp_all add: testParsed_def testMsg_def)
  from match_acceptance [OF ids, where clientHelloBytes = testHello and parsed = testParsed
      and chMsg = testMsg and sni = "[0x78, 0x2e, 0x79]" and alpn = "[[0x68, 0x32]]"]
  show ?thesis
    by (simp add: parse_testHello um Let_def scored_test score_test compare_test
        bestScore_def matchThreshold_v2_def matchThreshold_def fs)
qed

subsection \<open>The fallback chain at concrete inputs\<close>

text \<open>
  The second version of the packer on a byte that is no hello (raw mode), with every writer
  failing, and on the hello that the matcher recognises (fingerprint mode); the first
  version on the byte that is no hello.
\<close>

lemma match_v2_test:
  "matchUTLSClientHello_v2 testEnv testHello =
     (''Chrome-120'',
      Some \<lparr>SpecType = ''Chrome-120'', SNI = [0x78, 0x2e, 0x79], ALPN = [[0x68, 0x32]],
            Random = replicate 32 0, SessionID = [], Other = Map.empty\<rparr>)"
proof -
  have env: "allUTLSIDs testEnv = [\<lparr>Client = ''Chrome'', Release = ''120''\<rparr>]"
    "Str testEnv \<lparr>Client = ''Chrome'', Release = ''120''\<rparr> = ''Chrome-120''"
    "UTLSIdToSpec testEnv i = Inr testSpec" for i
    by (simp_all add: testEnv_def)
  have fs: "pch_SNI testParsed = [0x78, 0x2e, 0x79]" "pch_ALPN testParsed = [[0x68, 0x32]]"
    "pch_Random testParsed = replicate 32 0" "pch_SessionID testParsed = []"
    by (simp_all add: testParsed_def)
  show ?thesis
    by (simp add: matchUTLSClientHello_v2_def parse_testHello env score_test
        matchThreshold_v2_def fs)
qed

theorem compression_fallback_witness:
  "PackClientHelloGaseous_v2 testEnv [] [] [0x41] = Inr (packFrame GaseousCompressGzip 0 [0x41])
   \<and> PackClientHelloGaseous_v2 noWriterEnv [] [] [0x41] = Inl (ErrNew ''all compression failed'')
   \<and> PackClientHelloGaseous_v2 testEnv [] [] testHello
       = Inr (packFrame GaseousCompressGzip 0xffff [0x7b, 0x7d])
   \<and> PackClientHelloGaseous testEnv [] [] [0x41] = Inr (packFrame GaseousCompressBrotli 0 [0x41])"
proof -
  have a: "PackClientHelloGaseous_v2 testEnv [] [] [0x41] = Inr (packFrame GaseousCompressGzip 0 [0x41])"
    using compression_fallback [where E = testEnv and hello = "[0x41]" and templID = 0
        and payload = "[0x41]" and sni = "[]" and alpn = "[]"
        and tried = "[(1, Inl (ErrExternal ''flate: write failed''))]"
        and algo = 2 and compressed = "[0x41]"
        and rest = "[(3, Inr [0x41]), (4, Inr [0x41]), (5, Inr [0x41]), (6, Inr [0x41]),
                     (7, compressLZ4Block testEnv [0x41])]"]
    by (simp add: match_v2_short returnsError_def testEnv_writers const_defs)
  have b: "PackClientHelloGaseous_v2 noWriterEnv [] [] [0x41] = Inl (ErrNew ''all compression failed'')"
    using compression_fallback [where E = noWriterEnv and hello = "[0x41]" and templID = 0
        and payload = "[0x41]" and sni = "[]" and alpn = "[]"]
    by (simp add: match_v2_short returnsError_def noWriterEnv_writers)
  have c: "PackClientHelloGaseous_v2 testEnv [] [] testHello
       = Inr (packFrame GaseousCompressGzip 0xffff [0x7b, 0x7d])"
    using compression_fallback [where E = testEnv and hello = testHello and templID = "0xffff"
        and payload = "[0x7b, 0x7d]" and sni = "[]" and alpn = "[]"
        and specStr = "''Chrome-120''"
        and params = "Some \<lparr>SpecType = ''Chrome-120'', SNI = [0x78, 0x2e, 0x79],
            ALPN = [[0x68, 0x32]], Random = replicate 32 0, SessionID = [],
            Other = Map.empty\<rparr>"
        and tried = "[(1, Inl (ErrExternal ''flate: write failed''))]"
        and algo = 2 and compressed = "[0x7b, 0x7d]"
        and rest = "[(3, Inr [0x7b, 0x7d]), (4, Inr [0x7b, 0x7d]), (5, Inr [0x7b, 0x7d]),
                     (6, Inr [0x7b, 0x7d]), (7, compressLZ4Block testEnv [0x7b, 0x7d])]"]
    by (simp add: match_v2_test returnsError_def testEnv_writers const_defs)
       (simp add: testEnv_def)
  have d: "PackClientHelloGaseous testEnv [] [] [0x41] = Inr (packFrame GaseousCompressBrotli 0 [0x41])"
    using compression_fallback [where E = testEnv and hello = "[0x41]" and templID = 0
        and payload = "[0x41]" and sni = "[]" and alpn = "[]"]
    by (simp add: match_v2_short match_test_short testEnv_writers const_defs)
  from a b c d show ?thesis by simp
qed

end
